(* ===== verification/Slipper_Prelude.thy ===== *)
theory Slipper_Prelude
  imports Complex_Main
begin

text \<open>
  Shared vocabulary of the slipper-generation development: the point types of the
  two coordinate frames (image pixels and the scanned sole's millimetres), the few
  Python and numpy primitives the source relies on (ASCII \<open>str.lower\<close> and
  \<open>str.upper\<close>, \<open>np.arange\<close>, \<open>np.mean\<close>, \<open>np.std\<close>, the Euclidean norm), and the
  generic lemmas on lists and reals the component theories share.
  Python floats are modelled as \<open>real\<close>: every operation the pipeline performs on
  them is a field operation, a comparison, \<open>sqrt\<close>, \<open>sin\<close> or \<open>cos\<close>.
\<close>

named_theorems slipper_simps \<open>evaluation rules of the model's operations\<close>

subsection \<open>Points\<close>

text \<open>A 2D point in annotation-image pixel space, \<open>(x, y)\<close>, with \<open>y\<close> growing downwards.\<close>

type_synonym point2 = "real \<times> real"

text \<open>A 3D point in the frame of the sole mesh (a row of a numpy \<open>(n, 3)\<close> array).\<close>

record point3 =
  px :: real
  py :: real
  pz :: real

abbreviation P3 :: "real \<Rightarrow> real \<Rightarrow> real \<Rightarrow> point3" where
  "P3 a b c \<equiv> \<lparr>px = a, py = b, pz = c\<rparr>"

text \<open>\<open>np.linalg.norm\<close> of a difference vector, in the plane and in space.\<close>

definition dist2 :: "real \<Rightarrow> real \<Rightarrow> real" where
  "dist2 dx dy = sqrt (dx\<^sup>2 + dy\<^sup>2)"

definition dist3 :: "point3 \<Rightarrow> point3 \<Rightarrow> real" where
  "dist3 p q = sqrt ((px p - px q)\<^sup>2 + (py p - py q)\<^sup>2 + (pz p - pz q)\<^sup>2)"

subsection \<open>Fatal errors\<close>

text \<open>
  The conditions that end a run of \<open>generate_slippers.py\<close> with exit status 1 and
  no output: each \<open>sys.exit(1)\<close> of the script; \<open>MalformedAnnotations\<close>, the uncaught
  \<open>KeyError\<close> or \<open>IndexError\<close> of reading \<open>coco_data['images'][0]\<close> (line 49); and
  \<open>NoBounds\<close>, the uncaught \<open>TypeError\<close> of reading \<open>sole_model.bounds\<close> of a mesh
  without vertices.
\<close>

datatype run_error =
    InputNotFound
  | LoadError
  | AnnotationNotFound
  | AnnotationLoadError
  | MalformedAnnotations
  | NoMatchingCategories
  | NoBounds
  | ExportFailure

subsection \<open>Python strings\<close>

text \<open>
  \<open>str.lower\<close> and \<open>str.upper\<close> on the ASCII letters, the alphabet of the zone
  names of the annotation files; other characters are left unchanged.
\<close>

definition lower_char :: "char \<Rightarrow> char" where
  "lower_char c = (let n = (of_char c :: nat) in if 65 \<le> n \<and> n \<le> 90 then char_of (n + 32) else c)"

definition upper_char :: "char \<Rightarrow> char" where
  "upper_char c = (let n = (of_char c :: nat) in if 97 \<le> n \<and> n \<le> 122 then char_of (n - 32) else c)"

definition py_lower :: "string \<Rightarrow> string" where
  "py_lower s = map lower_char s"

definition py_upper :: "string \<Rightarrow> string" where
  "py_upper s = map upper_char s"

subsection \<open>numpy\<close>

text \<open>
  \<open>np.arange(start, stop, step)\<close> for a positive step: \<open>ceil((stop - start) / step)\<close>
  values \<open>start + k * step\<close>, none when \<open>stop \<le> start\<close>.
\<close>

definition arange :: "real \<Rightarrow> real \<Rightarrow> real \<Rightarrow> real list" where
  "arange start stop step = map (\<lambda>k. start + real k * step) [0..<nat \<lceil>(stop - start) / step\<rceil>]"

text \<open>\<open>np.mean\<close> and the population standard deviation \<open>np.std\<close> of a non-empty list.\<close>

definition py_mean :: "real list \<Rightarrow> real" where
  "py_mean xs = sum_list xs / real (length xs)"

definition py_std :: "real list \<Rightarrow> real" where
  "py_std xs = sqrt (py_mean (map (\<lambda>x. (x - py_mean xs)\<^sup>2) xs))"

subsection \<open>Shared lemmas\<close>

lemma dist2_nonneg [simp]: "0 \<le> dist2 dx dy"
  by (simp add: dist2_def)

lemma dist2_zero [simp]: "dist2 0 0 = 0"
  by (simp add: dist2_def)

lemma dist3_nonneg [simp]: "0 \<le> dist3 p q"
  by (simp add: dist3_def)

lemma dist3_self [simp]: "dist3 p p = 0"
  by (simp add: dist3_def)

lemma dist3_commute: "dist3 p q = dist3 q p"
  by (simp add: dist3_def power2_commute)

lemma dist3_pos_iff: "0 < dist3 p q \<longleftrightarrow> p \<noteq> q"
proof -
  have "dist3 p q = 0 \<longleftrightarrow> px p = px q \<and> py p = py q \<and> pz p = pz q"
    by (simp add: dist3_def add_nonneg_eq_0_iff)
  moreover have "p = q \<longleftrightarrow> px p = px q \<and> py p = py q \<and> pz p = pz q"
    by (cases p, cases q) simp
  ultimately show ?thesis
    using dist3_nonneg [of p q] by linarith
qed

lemma length_arange [simp]: "length (arange start stop step) = nat \<lceil>(stop - start) / step\<rceil>"
  by (simp add: arange_def)

lemma nth_arange:
  "k < length (arange start stop step) \<Longrightarrow> arange start stop step ! k = start + real k * step"
  by (simp add: arange_def)

lemma mem_map_filter: "y \<in> set (List.map_filter f xs) \<longleftrightarrow> (\<exists>x \<in> set xs. f x = Some y)"
  by (induction xs) (auto split: option.splits)

lemma nth_concat_equal_length:
  assumes "\<forall>xs \<in> set xss. length xs = n" and "i < length xss" and "j < n"
  shows "concat xss ! (i * n + j) = xss ! i ! j"
  using assms
proof (induction xss arbitrary: i)
  case Nil
  then show ?case by simp
next
  case (Cons xs xss)
  show ?case
  proof (cases i)
    case 0
    with Cons.prems show ?thesis by (simp add: nth_append)
  next
    case (Suc k)
    with Cons.prems have "concat xss ! (k * n + j) = xss ! k ! j" by (intro Cons.IH) simp_all
    with Cons.prems Suc show ?thesis by (simp add: nth_append add.assoc)
  qed
qed

lemma map_filter_Cons_split: "List.map_filter f (x # xs) = List.map_filter f [x] @ List.map_filter f xs"
  by (simp split: option.splits)

lemma length_map_filter_le: "length (List.map_filter f xs) \<le> length xs"
  by (induction xs) (auto split: option.splits)

lemma length_map_filter_eq_iff:
  "length (List.map_filter f xs) = length xs \<longleftrightarrow> (\<forall>x \<in> set xs. f x \<noteq> None)"
proof (induction xs)
  case Nil
  then show ?case by simp
next
  case (Cons x xs)
  have "length (List.map_filter f xs) \<le> length xs" by (rule length_map_filter_le)
  with Cons show ?case by (auto split: option.splits)
qed

lemma sum_list_map_eq_iff:
  fixes f g :: "'a \<Rightarrow> nat"
  assumes "\<forall>x \<in> set xs. f x \<le> g x"
  shows "sum_list (map f xs) = sum_list (map g xs) \<longleftrightarrow> (\<forall>x \<in> set xs. f x = g x)"
  using assms
proof (induction xs)
  case Nil
  then show ?case by simp
next
  case (Cons x xs)
  have "sum_list (map f xs) \<le> sum_list (map g xs)"
    using Cons.prems by (intro sum_list_mono) simp
  with Cons show ?case by auto
qed

lemma sum_list_map_pos_iff:
  fixes f :: "'a \<Rightarrow> nat"
  shows "0 < sum_list (map f xs) \<longleftrightarrow> (\<exists>x \<in> set xs. 0 < f x)"
  by (induction xs) auto

lemma sum_list_map_const: "(\<forall>x \<in> set xs. f x = k) \<Longrightarrow> sum_list (map f xs) = length xs * (k :: nat)"
  by (induction xs) simp_all

lemma sum_list_nonneg_real: "(\<And>x. x \<in> set xs \<Longrightarrow> 0 \<le> x) \<Longrightarrow> 0 \<le> sum_list (xs :: real list)"
  by (induction xs) auto

lemma py_mean_nonneg: "(\<And>x. x \<in> set xs \<Longrightarrow> 0 \<le> x) \<Longrightarrow> 0 \<le> py_mean xs"
  by (simp add: py_mean_def sum_list_nonneg_real)

lemma py_mean_zeros: "(\<And>x. x \<in> set xs \<Longrightarrow> x = 0) \<Longrightarrow> py_mean xs = 0"
proof -
  assume "\<And>x. x \<in> set xs \<Longrightarrow> x = 0"
  then have "sum_list xs = 0" by (induction xs) auto
  then show ?thesis by (simp add: py_mean_def)
qed

lemma py_std_nonneg [simp]: "0 \<le> py_std xs"
  unfolding py_std_def by (rule real_sqrt_ge_zero, rule py_mean_nonneg) auto

lemma py_std_zeros: "(\<And>x. x \<in> set xs \<Longrightarrow> x = 0) \<Longrightarrow> py_std xs = 0"
proof -
  assume z: "\<And>x. x \<in> set xs \<Longrightarrow> x = 0"
  then have "py_mean xs = 0" by (rule py_mean_zeros)
  with z have "\<And>y. y \<in> set (map (\<lambda>x. (x - py_mean xs)\<^sup>2) xs) \<Longrightarrow> y = 0" by auto
  then have "py_mean (map (\<lambda>x. (x - py_mean xs)\<^sup>2) xs) = 0" by (rule py_mean_zeros)
  then show ?thesis by (simp add: py_std_def)
qed

lemma lower_char_upper_char: "lower_char (upper_char c) = lower_char c"
proof -
  have lt: "(of_char c :: nat) < 256" by simp
  show ?thesis
  proof (cases "97 \<le> (of_char c :: nat) \<and> (of_char c :: nat) \<le> 122")
    case True
    have "(of_char c - 32 :: nat) < 256" using lt by linarith
    then have m: "(of_char c - 32) mod 256 = (of_char c - 32 :: nat)" by simp
    have a: "(of_char c - 32) + 32 = (of_char c :: nat)" using True by linarith
    have r: "65 \<le> (of_char c - 32 :: nat) \<and> (of_char c - 32 :: nat) \<le> 90" using True by linarith
    from True show ?thesis by (simp add: lower_char_def upper_char_def Let_def m a r)
  next
    case False
    then show ?thesis by (auto simp: upper_char_def Let_def)
  qed
qed

lemma lower_char_idem: "lower_char (lower_char c) = lower_char c"
  using nat_of_char_less_256 [of c] by (auto simp: lower_char_def Let_def)

lemma upper_char_idem: "upper_char (upper_char c) = upper_char c"
  using nat_of_char_less_256 [of c] by (auto simp: upper_char_def Let_def)

lemma py_upper_idem [simp]: "py_upper (py_upper s) = py_upper s"
  by (simp add: py_upper_def upper_char_idem)

lemma py_lower_py_upper [simp]: "py_lower (py_upper s) = py_lower s"
  by (simp add: py_lower_def py_upper_def lower_char_upper_char)

lemma py_lower_idem [simp]: "py_lower (py_lower s) = py_lower s"
  by (simp add: py_lower_def lower_char_idem)

end
