(* ===== verification/Zone_Sampler.thy ===== *)
theory Zone_Sampler
  imports Slipper_Prelude
begin

text \<open>
  The Zone Sampler of \<open>generate_slippers.py\<close>: the parsing of one annotation's
  segmentation into a polygon (line 172), its pixel bounding box (lines 175--176), the
  regular grid over that box (lines 179--180) and the containment test of
  \<open>matplotlib.path.Path.contains_point\<close> (line 181), the even-odd crossing rule.
\<close>

type_synonym polygon = "point2 list"

subsection \<open>Parsing a segmentation\<close>

text \<open>
  \<open>np.array(ann['segmentation'][0]).reshape(-1, 2)\<close>: the first coordinate list, read
  as \<open>(x, y)\<close> pairs. An empty segmentation raises \<open>IndexError\<close>, a list of odd length
  \<open>ValueError\<close> (\<open>None\<close> for both: the caller catches them alike).
\<close>

fun pairs_of :: "real list \<Rightarrow> polygon option" where
  "pairs_of [] = Some []"
| "pairs_of [x] = None"
| "pairs_of (x # y # rest) = map_option (\<lambda>ps. (x, y) # ps) (pairs_of rest)"

definition parse_segmentation :: "real list list \<Rightarrow> polygon option" where
  "parse_segmentation seg = (case seg of [] \<Rightarrow> None | s # _ \<Rightarrow> pairs_of s)"

subsection \<open>Bounding box and grid\<close>

text \<open>
  \<open>np.min(seg, axis=0)\<close> and \<open>np.max(seg, axis=0)\<close>: \<open>None\<close> for an empty polygon, where
  numpy raises \<open>ValueError\<close> (a zero-size reduction).
\<close>

definition poly_bbox :: "polygon \<Rightarrow> (point2 \<times> point2) option" where
  "poly_bbox ps =
     (if ps = [] then None
      else Some ((Min (fst ` set ps), Min (snd ` set ps)),
                 (Max (fst ` set ps), Max (snd ` set ps))))"

text \<open>The sampling step, \<open>step = 5.0\<close> (line 104), used in pixel units.\<close>

definition step :: real where
  "step = 5"

text \<open>
  The two nested \<open>np.arange\<close> loops in row-major order: \<open>xi\<close> outer, \<open>yi\<close> inner.
\<close>

definition grid :: "point2 \<Rightarrow> point2 \<Rightarrow> real \<Rightarrow> point2 list" where
  "grid lo hi st =
     concat (map (\<lambda>xi. map (\<lambda>yi. (xi, yi)) (arange (snd lo) (snd hi) st))
                 (arange (fst lo) (fst hi) st))"

subsection \<open>Containment: the even-odd crossing rule\<close>

text \<open>
  The edge test of matplotlib's \<open>point_in_path_impl\<close>: the edge from \<open>(x0, y0)\<close> to
  \<open>(x1, y1)\<close> toggles the inside flag of \<open>(tx, ty)\<close> when its ends lie on different
  sides of the horizontal line \<open>y = ty\<close> (with \<open>\<ge>\<close>) and the edge meets that line at or
  to the right of the point, decided without a division.
\<close>

definition crosses :: "point2 \<Rightarrow> point2 \<Rightarrow> point2 \<Rightarrow> bool" where
  "crosses t a b \<longleftrightarrow>
     (snd a \<ge> snd t) \<noteq> (snd b \<ge> snd t) \<and>
     (((snd b - snd t) * (fst a - fst b) \<ge> (fst b - fst t) * (snd a - snd b)) = (snd b \<ge> snd t))"

text \<open>The edges of the implicitly closed path: consecutive vertices, then last to first.\<close>

definition poly_edges :: "polygon \<Rightarrow> (point2 \<times> point2) list" where
  "poly_edges ps = (case ps of [] \<Rightarrow> [] | p # _ \<Rightarrow> zip ps (tl ps @ [p]))"

definition contains_point :: "polygon \<Rightarrow> point2 \<Rightarrow> bool" where
  "contains_point ps t \<longleftrightarrow> odd (length (filter (\<lambda>(a, b). crosses t a b) (poly_edges ps)))"

text \<open>The contained grid points of a polygon, in the order the loops visit them.\<close>

definition zone_samples :: "polygon \<Rightarrow> point2 list" where
  "zone_samples ps =
     (case poly_bbox ps of None \<Rightarrow> []
      | Some (lo, hi) \<Rightarrow> filter (contains_point ps) (grid lo hi step))"

subsection \<open>Lemmas\<close>

lemma pairs_of_length: "pairs_of xs = Some ps \<Longrightarrow> length xs = 2 * length ps"
  by (induction xs arbitrary: ps rule: pairs_of.induct) auto

lemma pairs_of_Some_iff: "(\<exists>ps. pairs_of xs = Some ps) \<longleftrightarrow> even (length xs)"
  by (induction xs rule: pairs_of.induct) auto

lemma length_grid:
  "length (grid lo hi st) =
     nat \<lceil>(fst hi - fst lo) / st\<rceil> * nat \<lceil>(snd hi - snd lo) / st\<rceil>"
proof -
  have "length (grid lo hi st) =
          sum_list (map (\<lambda>xi. length (arange (snd lo) (snd hi) st)) (arange (fst lo) (fst hi) st))"
    by (simp add: grid_def length_concat comp_def)
  also have "\<dots> = length (arange (fst lo) (fst hi) st) * length (arange (snd lo) (snd hi) st)"
    by (simp add: sum_list_triv)
  finally show ?thesis by simp
qed

lemma mem_grid:
  "t \<in> set (grid lo hi st) \<longleftrightarrow>
     fst t \<in> set (arange (fst lo) (fst hi) st) \<and> snd t \<in> set (arange (snd lo) (snd hi) st)"
  by (cases t) (simp add: grid_def image_iff)

lemma zone_samples_contained: "t \<in> set (zone_samples ps) \<Longrightarrow> contains_point ps t"
  by (auto simp: zone_samples_def split: option.splits)

lemma contains_point_Nil [simp]: "\<not> contains_point [] t"
  by (simp add: contains_point_def poly_edges_def)

lemma arange_bounds:
  assumes "0 < st" and "y \<in> set (arange a b st)"
  shows "a \<le> y \<and> y < b"
proof -
  from assms(2) obtain k where k: "k < nat \<lceil>(b - a) / st\<rceil>" and y: "y = a + real k * st"
    by (auto simp: arange_def)
  from k have "int k < \<lceil>(b - a) / st\<rceil>" by linarith
  then have "real k < (b - a) / st" by (simp add: less_ceiling_iff)
  with assms(1) have "real k * st < b - a" by (simp add: pos_less_divide_eq)
  with y assms(1) show ?thesis by simp
qed

lemma filter_gt_arange:
  assumes "0 < st"
  shows "filter (\<lambda>y. a < y) (arange a b st) = tl (arange a b st)"
proof -
  have "filter (\<lambda>y. a < y) (map (\<lambda>k. a + real k * st) [0..<n]) = map (\<lambda>k. a + real k * st) [1..<n]"
    for n
  proof (cases n)
    case 0
    then show ?thesis by simp
  next
    case (Suc m)
    have "\<forall>k \<in> set [Suc 0..<Suc m]. a < a + real k * st" using assms by (auto simp del: upt_Suc)
    then have "filter (\<lambda>k. a < a + real k * st) [Suc 0..<Suc m] = [Suc 0..<Suc m]"
      by (simp add: filter_id_conv)
    with Suc show ?thesis by (simp add: filter_map comp_def upt_conv_Cons del: upt_Suc)
  qed
  then show ?thesis by (simp add: arange_def map_tl [symmetric] tl_upt)
qed

lemma contains_point_rect:
  assumes "x0 < x1" and "y0 < y1"
  shows "contains_point [(x0, y0), (x1, y0), (x1, y1), (x0, y1)] (tx, ty) \<longleftrightarrow>
           x0 \<le> tx \<and> tx \<le> x1 \<and> y0 < ty \<and> ty \<le> y1"
proof -
  have r: "(x1 - tx) * (y0 - y1) \<le> 0 \<longleftrightarrow> tx \<le> x1"
    using assms(2) by (simp add: mult_le_0_iff)
  have l: "(x0 - tx) * (y1 - y0) \<le> 0 \<longleftrightarrow> tx \<ge> x0"
    using assms(2) by (simp add: mult_le_0_iff)
  show ?thesis
    using assms r l by (auto simp: contains_point_def poly_edges_def crosses_def)
qed

lemma poly_bbox_rect:
  assumes "x0 < x1" and "y0 < y1"
  shows "poly_bbox [(x0, y0), (x1, y0), (x1, y1), (x0, y1)] = Some ((x0, y0), (x1, y1))"
proof -
  have "fst ` set [(x0, y0), (x1, y0), (x1, y1), (x0, y1)] = {x0, x1}"
    and "snd ` set [(x0, y0), (x1, y0), (x1, y1), (x0, y1)] = {y0, y1}"
    by auto
  with assms show ?thesis by (simp add: poly_bbox_def)
qed

lemma zone_samples_rect:
  assumes "x0 < x1" and "y0 < y1"
  shows "zone_samples [(x0, y0), (x1, y0), (x1, y1), (x0, y1)] =
           concat (map (\<lambda>xi. map (Pair xi) (tl (arange y0 y1 step))) (arange x0 x1 step))"
proof -
  let ?R = "[(x0, y0), (x1, y0), (x1, y1), (x0, y1)]"
  have st: "(0::real) < step" by (simp add: step_def)
  have row: "filter (contains_point ?R) (map (Pair xi) (arange y0 y1 step)) =
               map (Pair xi) (tl (arange y0 y1 step))"
    if xi: "xi \<in> set (arange x0 x1 step)" for xi
  proof -
    from arange_bounds [OF st xi] have "x0 \<le> xi \<and> xi < x1" .
    have "\<forall>y \<in> set (arange y0 y1 step). contains_point ?R (xi, y) = (y0 < y)"
    proof
      fix y assume "y \<in> set (arange y0 y1 step)"
      with arange_bounds [OF st] have "y0 \<le> y \<and> y < y1" by blast
      with \<open>x0 \<le> xi \<and> xi < x1\<close> assms show "contains_point ?R (xi, y) = (y0 < y)"
        by (simp add: contains_point_rect)
    qed
    then have "filter (contains_point ?R \<circ> Pair xi) (arange y0 y1 step) =
                 filter (\<lambda>y. y0 < y) (arange y0 y1 step)"
      by (auto intro: filter_cong)
    then show ?thesis by (simp add: filter_map filter_gt_arange [OF st])
  qed
  show ?thesis
    unfolding zone_samples_def poly_bbox_rect [OF assms] grid_def
    by (simp add: filter_concat comp_def row cong: map_cong)
qed

text \<open>
  C3. Boundary policy of the containment test on an axis-aligned rectangle listed
  counter-clockwise from its corner of least coordinates: the edge \<open>y = y0\<close> is
  excluded, the other three edges are included.
\<close>

theorem rect_boundary_policy:
  assumes "x0 < x1" and "y0 < y1"
  shows "\<not> contains_point [(x0, y0), (x1, y0), (x1, y1), (x0, y1)] (tx, y0) \<and>
         (y0 < ty \<and> ty \<le> y1 \<longrightarrow>
            contains_point [(x0, y0), (x1, y0), (x1, y1), (x0, y1)] (x0, ty) \<and>
            contains_point [(x0, y0), (x1, y0), (x1, y1), (x0, y1)] (x1, ty)) \<and>
         (x0 \<le> tx \<and> tx \<le> x1 \<longrightarrow> contains_point [(x0, y0), (x1, y0), (x1, y1), (x0, y1)] (tx, y1))"
  using assms by (simp add: contains_point_rect)

theorem rect_boundary_policy_witness:
  "\<not> contains_point [(0, 0), (50, 0), (50, 50), (0, 50)] (20, 0) \<and>
   contains_point [(0, 0), (50, 0), (50, 50), (0, 50)] (0, 5) \<and>
   contains_point [(0, 0), (50, 0), (50, 50), (0, 50)] (50, 5) \<and>
   contains_point [(0, 0), (50, 0), (50, 50), (0, 50)] (20, 50)"
  using rect_boundary_policy [of 0 50 0 50 20 5] by simp



end
