(* ===== verification/Zone_Select.thy ===== *)
theory Zone_Select
  imports Slipper_Prelude
begin

text \<open>
  Zone selection of \<open>generate_slippers.py\<close> (lines 19--21 and 53--68): the
  case-normalised map from category names to category ids, the resolution of the
  zone names given on the command line (unknown names are warnings; none matching
  when some were given is fatal), and the two per-annotation lookups of the placement
  loop that depend on it: the selection filter (line 157) and the zone name of an
  annotation's category (lines 160--164).
\<close>

text \<open>An entry of \<open>coco_data['categories']\<close>.\<close>

record category =
  cat_id :: int
  cat_name :: string

subsection \<open>The category map\<close>

text \<open>One iteration of the loop of lines 55--59: \<open>zone_name_to_ids[name].append(cat['id'])\<close>.\<close>

definition add_category :: "(string \<rightharpoonup> int list) \<Rightarrow> category \<Rightarrow> (string \<rightharpoonup> int list)" where
  "add_category d c =
     (let name = py_lower (cat_name c)
      in d(name \<mapsto> (case d name of None \<Rightarrow> [] | Some ids \<Rightarrow> ids) @ [cat_id c]))"

definition zone_name_to_ids :: "category list \<Rightarrow> (string \<rightharpoonup> int list)" where
  "zone_name_to_ids cats = fold (\<lambda>c d. add_category d c) cats Map.empty"

subsection \<open>Resolving the selected zones\<close>

text \<open>
  The loop of lines 61--65 over the lower-cased names: the ids of every known name
  are appended in order, every unknown name is reported.
\<close>

fun select_ids :: "(string \<rightharpoonup> int list) \<Rightarrow> string list \<Rightarrow> int list \<times> string list" where
  "select_ids d [] = ([], [])"
| "select_ids d (z # zs) =
     (let (ids, unknown) = select_ids d zs
      in case d z of Some zids \<Rightarrow> (zids @ ids, unknown) | None \<Rightarrow> (ids, z # unknown))"

text \<open>
  Lines 21 and 60--68: the selected ids and the unknown names, or the fatal error
  when names were given and none resolved.
\<close>

definition resolve_selection :: "category list \<Rightarrow> string list \<Rightarrow> run_error + (int list \<times> string list)" where
  "resolve_selection cats zones =
     (let selected = map py_lower zones;
          (ids, unknown) = select_ids (zone_name_to_ids cats) selected
      in if ids = [] \<and> selected \<noteq> [] then Inl NoMatchingCategories else Inr (ids, unknown))"

subsection \<open>Per-annotation lookups\<close>

text \<open>Line 157: an annotation is skipped when some ids are selected and its category is not among them.\<close>

definition ann_selected :: "int list \<Rightarrow> int \<Rightarrow> bool" where
  "ann_selected ids cid \<longleftrightarrow> ids = [] \<or> cid \<in> set ids"

text \<open>Lines 160--164: the lower-cased name of the first category with the annotation's id.\<close>

fun zone_name_of :: "category list \<Rightarrow> int \<Rightarrow> string option" where
  "zone_name_of [] cid = None"
| "zone_name_of (c # cs) cid = (if cat_id c = cid then Some (py_lower (cat_name c)) else zone_name_of cs cid)"

subsection \<open>Lemmas\<close>

text \<open>The dictionary the loop builds, described without the loop.\<close>

lemma fold_add_category:
  "fold (\<lambda>c d. add_category d c) cats d0 name =
     (if name \<in> py_lower ` cat_name ` set cats
      then Some ((case d0 name of None \<Rightarrow> [] | Some ids \<Rightarrow> ids) @
                 map cat_id (filter (\<lambda>c. py_lower (cat_name c) = name) cats))
      else d0 name)"
proof (induction cats arbitrary: d0)
  case Nil
  then show ?case by simp
next
  case (Cons c cs)
  have "fold (\<lambda>c d. add_category d c) (c # cs) d0 name =
          fold (\<lambda>c d. add_category d c) cs (add_category d0 c) name"
    by simp
  also have "\<dots> = (if name \<in> py_lower ` cat_name ` set cs
                   then Some ((case add_category d0 c name of None \<Rightarrow> [] | Some ids \<Rightarrow> ids) @
                              map cat_id (filter (\<lambda>c. py_lower (cat_name c) = name) cs))
                   else add_category d0 c name)"
    by (rule Cons.IH)
  also have "\<dots> = (if name \<in> py_lower ` cat_name ` set (c # cs)
                   then Some ((case d0 name of None \<Rightarrow> [] | Some ids \<Rightarrow> ids) @
                              map cat_id (filter (\<lambda>c. py_lower (cat_name c) = name) (c # cs)))
                   else d0 name)"
    by (auto simp: add_category_def Let_def filter_empty_conv image_iff split: option.splits)
  finally show ?case .
qed

lemma zone_name_to_ids_eq:
  "zone_name_to_ids cats name =
     (if name \<in> py_lower ` cat_name ` set cats
      then Some (map cat_id (filter (\<lambda>c. py_lower (cat_name c) = name) cats))
      else None)"
  by (simp add: zone_name_to_ids_def fold_add_category)

lemma zone_name_to_ids_None:
  "zone_name_to_ids cats name = None \<longleftrightarrow> name \<notin> py_lower ` cat_name ` set cats"
  by (simp add: zone_name_to_ids_eq)

lemma zone_name_to_ids_nonempty: "zone_name_to_ids cats name = Some ids \<Longrightarrow> ids \<noteq> []"
  by (auto simp: zone_name_to_ids_eq filter_empty_conv split: if_splits)

lemma select_ids_fst_empty:
  "(\<forall>z. d z \<noteq> Some []) \<Longrightarrow> fst (select_ids d zs) = [] \<longleftrightarrow> (\<forall>z \<in> set zs. d z = None)"
  by (induction zs) (auto split: prod.splits option.splits)

lemma select_ids_snd: "snd (select_ids d zs) = filter (\<lambda>z. d z = None) zs"
  by (induction zs) (auto split: prod.splits option.splits)

lemma zone_name_of_Some: "zone_name_of cats cid = Some n \<Longrightarrow> n \<in> py_lower ` cat_name ` set cats"
  by (induction cats) (auto split: if_splits)

lemma resolve_selection_error_iff:
  "resolve_selection cats zones = Inl e \<longleftrightarrow>
     e = NoMatchingCategories \<and> zones \<noteq> [] \<and>
     (\<forall>z \<in> set zones. py_lower z \<notin> py_lower ` cat_name ` set cats)"
proof -
  have ne: "\<forall>z. zone_name_to_ids cats z \<noteq> Some []"
    using zone_name_to_ids_nonempty by blast
  have "fst (select_ids (zone_name_to_ids cats) (map py_lower zones)) = [] \<longleftrightarrow>
          (\<forall>z \<in> set zones. py_lower z \<notin> py_lower ` cat_name ` set cats)"
    using select_ids_fst_empty [OF ne, of "map py_lower zones"] by (simp add: zone_name_to_ids_None)
  then show ?thesis
    by (auto simp: resolve_selection_def Let_def split: prod.splits)
qed


text \<open>
  C6. Scenario B: the run aborts with "no matching categories" exactly when zone names
  were given and none of them, lower-cased, is the lower-cased name of a category; an
  empty selection is never this error.
\<close>

theorem no_matching_categories:
  "resolve_selection cats zones = Inl NoMatchingCategories \<longleftrightarrow>
     zones \<noteq> [] \<and> (\<forall>z \<in> set zones. py_lower z \<notin> py_lower ` cat_name ` set cats)"
  by (simp add: resolve_selection_error_iff)

theorem no_matching_categories_witness:
  "resolve_selection [\<lparr>cat_id = 1, cat_name = ''Heart''\<rparr>] [''LIVER''] = Inl NoMatchingCategories \<and>
   resolve_selection [\<lparr>cat_id = 1, cat_name = ''Heart''\<rparr>] [''hEART''] = Inr ([1], [])"
proof -
  have "resolve_selection [\<lparr>cat_id = 1, cat_name = ''Heart''\<rparr>] [''LIVER''] = Inl NoMatchingCategories"
    using no_matching_categories [of "[\<lparr>cat_id = 1, cat_name = ''Heart''\<rparr>]" "[''LIVER'']"]
    by (simp add: py_lower_def lower_char_def)
  moreover have "resolve_selection [\<lparr>cat_id = 1, cat_name = ''Heart''\<rparr>] [''hEART''] = Inr ([1], [])"
    by code_simp
  ultimately show ?thesis by simp
qed

end
