(* ===== verification/Mesh_Compositor.thy ===== *)
theory Mesh_Compositor
  imports Slipper_Prelude
begin

text \<open>
  Triangle meshes as the pipeline handles them (\<open>trimesh.Trimesh\<close>: a vertex array, a
  face array of vertex-index triples, per-vertex RGBA colours) and the Mesh Compositor:
  the list \<open>spikes\<close> that starts with the sole (line 143) and receives every bump
  (line 201), merged once by \<open>trimesh.util.concatenate\<close> (line 251), which stacks the
  vertex arrays and shifts each piece's face indices by the number of vertices before
  it, without welding.
\<close>

type_synonym rgba = "nat \<times> nat \<times> nat \<times> nat"

type_synonym face = "nat \<times> nat \<times> nat"

record mesh =
  vertices :: "point3 list"
  faces :: "face list"
  vcolors :: "rgba list"

definition empty_mesh :: mesh where
  "empty_mesh = \<lparr>vertices = [], faces = [], vcolors = []\<rparr>"

text \<open>Every face refers to vertices of the mesh.\<close>

definition mesh_wf :: "mesh \<Rightarrow> bool" where
  "mesh_wf m \<longleftrightarrow> (\<forall>(a, b, c) \<in> set (faces m). a < length (vertices m) \<and> b < length (vertices m) \<and> c < length (vertices m))"

definition shift_face :: "nat \<Rightarrow> face \<Rightarrow> face" where
  "shift_face k f = (case f of (a, b, c) \<Rightarrow> (a + k, b + k, c + k))"

text \<open>Appending one mesh after another, as \<open>concatenate\<close> does for each piece.\<close>

definition append_mesh :: "mesh \<Rightarrow> mesh \<Rightarrow> mesh" where
  "append_mesh a b =
     \<lparr>vertices = vertices a @ vertices b,
      faces = faces a @ map (shift_face (length (vertices a))) (faces b),
      vcolors = vcolors a @ vcolors b\<rparr>"

text \<open>\<open>trimesh.util.concatenate(spikes)\<close>: the pieces in list order.\<close>

fun concatenate :: "mesh list \<Rightarrow> mesh" where
  "concatenate [] = empty_mesh"
| "concatenate (m # ms) = append_mesh m (concatenate ms)"

subsection \<open>Abstract view: the triangle soup\<close>

text \<open>The triangles of a mesh as triples of points, the geometry an exporter writes.\<close>

definition triangles :: "mesh \<Rightarrow> (point3 \<times> point3 \<times> point3) list" where
  "triangles m = map (\<lambda>(a, b, c). (vertices m ! a, vertices m ! b, vertices m ! c)) (faces m)"

subsection \<open>Lemmas\<close>

lemma append_mesh_sel [simp]:
  "vertices (append_mesh a b) = vertices a @ vertices b"
  "faces (append_mesh a b) = faces a @ map (shift_face (length (vertices a))) (faces b)"
  "vcolors (append_mesh a b) = vcolors a @ vcolors b"
  by (simp_all add: append_mesh_def)

lemma empty_mesh_sel [simp]:
  "vertices empty_mesh = []" "faces empty_mesh = []" "vcolors empty_mesh = []"
  by (simp_all add: empty_mesh_def)

lemma vcolors_concatenate: "vcolors (concatenate ms) = concat (map vcolors ms)"
  by (induction ms) simp_all

lemma mesh_wf_append:
  assumes "mesh_wf a" and "mesh_wf b"
  shows "mesh_wf (append_mesh a b)"
  using assms by (fastforce simp: mesh_wf_def shift_face_def)

lemma mesh_wf_concatenate: "(\<forall>m \<in> set ms. mesh_wf m) \<Longrightarrow> mesh_wf (concatenate ms)"
proof (induction ms)
  case Nil
  then show ?case by (simp add: mesh_wf_def)
next
  case (Cons m ms)
  then show ?case by (simp add: mesh_wf_append)
qed

lemma length_vertices_concatenate:
  "length (vertices (concatenate ms)) = sum_list (map (\<lambda>m. length (vertices m)) ms)"
  by (induction ms) simp_all

lemma length_faces_concatenate:
  "length (faces (concatenate ms)) = sum_list (map (\<lambda>m. length (faces m)) ms)"
  by (induction ms) simp_all

lemma triangles_append_mesh:
  assumes "mesh_wf a" and "mesh_wf b"
  shows "triangles (append_mesh a b) = triangles a @ triangles b"
proof -
  have "map (\<lambda>(x, y, z). ((vertices a @ vertices b) ! x, (vertices a @ vertices b) ! y,
                           (vertices a @ vertices b) ! z)) (faces a) = triangles a"
    using assms(1) by (auto simp: triangles_def mesh_wf_def nth_append)
  moreover have "map (\<lambda>(x, y, z). ((vertices a @ vertices b) ! x, (vertices a @ vertices b) ! y,
                           (vertices a @ vertices b) ! z))
                   (map (shift_face (length (vertices a))) (faces b)) = triangles b"
    by (auto simp: triangles_def shift_face_def nth_append)
  ultimately show ?thesis by (simp add: triangles_def)
qed

text \<open>
  C5. The compositor refines the union of the pieces: when every piece is well formed,
  the combined mesh is well formed and its triangles are exactly the pieces'
  triangles, in order, with no triangle lost, added or re-pointed by the index shift.
\<close>

theorem concatenate_triangles:
  assumes "\<forall>m \<in> set ms. mesh_wf m"
  shows "mesh_wf (concatenate ms) \<and> triangles (concatenate ms) = concat (map triangles ms)"
  using assms
proof (induction ms)
  case Nil
  then show ?case by (simp add: mesh_wf_def triangles_def)
next
  case (Cons m ms)
  then have "mesh_wf m" and "mesh_wf (concatenate ms)"
    and "triangles (concatenate ms) = concat (map triangles ms)" by simp_all
  then show ?case by (simp add: mesh_wf_append triangles_append_mesh)
qed

theorem concatenate_triangles_witness:
  "triangles (concatenate
     [\<lparr>vertices = [P3 0 0 0, P3 1 0 0, P3 0 1 0], faces = [(0, 1, 2)], vcolors = []\<rparr>,
      \<lparr>vertices = [P3 5 5 5, P3 6 5 5, P3 5 6 5], faces = [(2, 1, 0)], vcolors = []\<rparr>]) =
   [(P3 0 0 0, P3 1 0 0, P3 0 1 0), (P3 5 6 5, P3 6 5 5, P3 5 5 5)]"
proof -
  let ?a = "\<lparr>vertices = [P3 0 0 0, P3 1 0 0, P3 0 1 0], faces = [(0, 1, 2)], vcolors = []\<rparr>"
  let ?b = "\<lparr>vertices = [P3 5 5 5, P3 6 5 5, P3 5 6 5], faces = [(2, 1, 0)], vcolors = []\<rparr>"
  have "\<forall>m \<in> set [?a, ?b]. mesh_wf m" by (simp add: mesh_wf_def)
  from concatenate_triangles [OF this] show ?thesis by (simp add: triangles_def)
qed


end
