(* ===== verification/Coord_Mapper.thy ===== *)
theory Coord_Mapper
  imports Slipper_Prelude
begin

text \<open>
  The Coordinate Mapper of \<open>generate_slippers.py\<close> (lines 70--80): a linear map from
  annotation-image pixels to the plane of the sole mesh, fixed once per run from the
  sole's axis-aligned bounding box and the image size, and its inverse, written out
  inline in the mapping-accuracy metric (lines 238--239).
\<close>

text \<open>\<open>sole_model.bounds\<close>: the two corners of the axis-aligned bounding box.\<close>

record bbox =
  bmin :: point3
  bmax :: point3

text \<open>The module-level globals \<open>origin_x\<close>, \<open>origin_y\<close>, \<open>x_scale\<close>, \<open>y_scale\<close>, \<open>img_width\<close>, \<open>img_height\<close>.\<close>

record mapper =
  origin_x :: real
  origin_y :: real
  x_scale :: real
  y_scale :: real
  img_width :: real
  img_height :: real

definition margin :: real where
  "margin = 10"

definition make_mapper :: "bbox \<Rightarrow> real \<Rightarrow> real \<Rightarrow> mapper" where
  "make_mapper b w h =
     \<lparr>origin_x = px (bmin b) + margin,
      origin_y = py (bmin b) + margin,
      x_scale = (px (bmax b) - px (bmin b)) / w,
      y_scale = (py (bmax b) - py (bmin b)) / h,
      img_width = w,
      img_height = h\<rparr>"

text \<open>\<open>map_2d_to_3d(x, y)\<close>: the y axis is inverted, image rows grow downwards.\<close>

definition map_2d_to_3d :: "mapper \<Rightarrow> point2 \<Rightarrow> real \<times> real" where
  "map_2d_to_3d m p =
     (origin_x m + fst p * x_scale m, origin_y m + (img_height m - snd p) * y_scale m)"

text \<open>
  The re-projection of a hit location into image space (lines 238--239). numpy divides
  a float by a zero scale to \<open>inf\<close> or \<open>nan\<close>, which no polygon contains; \<open>None\<close>
  stands for that non-finite result.
\<close>

definition unmap_3d_to_2d :: "mapper \<Rightarrow> point3 \<Rightarrow> point2 option" where
  "unmap_3d_to_2d m loc =
     (if x_scale m = 0 \<or> y_scale m = 0 then None
      else Some ((px loc - origin_x m) / x_scale m,
                 img_height m - (py loc - origin_y m) / y_scale m))"

text \<open>A mapper is non-degenerate when both scales are non-zero.\<close>

definition mapper_ok :: "mapper \<Rightarrow> bool" where
  "mapper_ok m \<longleftrightarrow> x_scale m \<noteq> 0 \<and> y_scale m \<noteq> 0"

lemma mapper_ok_make_mapper:
  "mapper_ok (make_mapper b w h) \<longleftrightarrow>
     px (bmin b) \<noteq> px (bmax b) \<and> py (bmin b) \<noteq> py (bmax b) \<and> w \<noteq> 0 \<and> h \<noteq> 0"
  by (auto simp: mapper_ok_def make_mapper_def)

lemma make_mapper_sel [simp]:
  "origin_x (make_mapper b w h) = px (bmin b) + margin"
  "origin_y (make_mapper b w h) = py (bmin b) + margin"
  "img_width (make_mapper b w h) = w"
  "img_height (make_mapper b w h) = h"
  by (simp_all add: make_mapper_def)

lemma map_2d_to_3d_fst: "fst (map_2d_to_3d m p) = origin_x m + fst p * x_scale m"
  by (simp add: map_2d_to_3d_def)

lemma map_2d_to_3d_snd: "snd (map_2d_to_3d m p) = origin_y m + (img_height m - snd p) * y_scale m"
  by (simp add: map_2d_to_3d_def)

lemma unmap_map_2d_to_3d:
  assumes "mapper_ok m" and "(px loc, py loc) = map_2d_to_3d m p"
  shows "unmap_3d_to_2d m loc = Some p"
proof -
  from assms(2) have x: "px loc = origin_x m + fst p * x_scale m"
    and y: "py loc = origin_y m + (img_height m - snd p) * y_scale m"
    by (simp_all add: map_2d_to_3d_def)
  from assms(1) show ?thesis
    by (cases p) (simp add: unmap_3d_to_2d_def mapper_ok_def x y)
qed

lemma map_unmap_3d_to_2d:
  assumes "unmap_3d_to_2d m loc = Some p"
  shows "map_2d_to_3d m p = (px loc, py loc)"
  using assms
  by (auto simp: unmap_3d_to_2d_def map_2d_to_3d_def split: if_splits)

text \<open>
  C2. The re-projection of the accuracy metric inverts the mapper exactly: for a
  non-degenerate mapper, a 3D location re-projects to the image point \<open>p\<close> if and only
  if \<open>map_2d_to_3d\<close> sends \<open>p\<close> to the location's \<open>(x, y)\<close>, whatever its height.
\<close>

theorem mapper_roundtrip:
  assumes "mapper_ok m"
  shows "unmap_3d_to_2d m loc = Some p \<longleftrightarrow> map_2d_to_3d m p = (px loc, py loc)"
  using assms unmap_map_2d_to_3d [of m loc p] map_unmap_3d_to_2d [of m loc p] by auto

theorem mapper_roundtrip_witness:
  "mapper_ok (make_mapper \<lparr>bmin = P3 0 0 0, bmax = P3 100 100 5\<rparr> 100 100) \<and>
   unmap_3d_to_2d (make_mapper \<lparr>bmin = P3 0 0 0, bmax = P3 100 100 5\<rparr> 100 100) (P3 30 70 5) =
     Some (20, 40)"
proof -
  let ?m = "make_mapper \<lparr>bmin = P3 0 0 0, bmax = P3 100 100 5\<rparr> 100 100"
  have ok: "mapper_ok ?m" by (simp add: mapper_ok_make_mapper)
  have "map_2d_to_3d ?m (20, 40) = (px (P3 30 70 5), py (P3 30 70 5))"
    by (simp add: map_2d_to_3d_def make_mapper_def margin_def)
  with ok show ?thesis using mapper_roundtrip [OF ok, of "P3 30 70 5" "(20, 40)"] by simp
qed

text \<open>
  C39. The 10 mm margin is an offset of the whole frame, not an inset: the image corner
  \<open>(img_width, 0)\<close> (right edge, top row) maps 10 mm beyond the far corner of the sole's
  bounding box in both x and y, so the mapped zones are shifted towards and past the
  sole's far edges.
\<close>

theorem margin_shifts_frame:
  assumes "w \<noteq> 0" and "h \<noteq> 0"
  shows "map_2d_to_3d (make_mapper b w h) (w, 0) = (px (bmax b) + margin, py (bmax b) + margin) \<and>
         map_2d_to_3d (make_mapper b w h) (0, h) = (px (bmin b) + margin, py (bmin b) + margin)"
  using assms by (simp add: map_2d_to_3d_def make_mapper_def)

theorem margin_shifts_frame_witness:
  "map_2d_to_3d (make_mapper \<lparr>bmin = P3 0 0 0, bmax = P3 100 100 5\<rparr> 100 100) (100, 0) = (110, 110)"
  using margin_shifts_frame [of 100 100 "\<lparr>bmin = P3 0 0 0, bmax = P3 100 100 5\<rparr>"]
  by (simp add: margin_def)

end
