(* ===== verification/Surface_Locator.thy ===== *)
theory Surface_Locator
  imports Mesh_Compositor Coord_Mapper
begin

text \<open>
  The Surface Locator of \<open>generate_slippers.py\<close> (lines 154 and 184--192): a ray cast
  straight down from 10 mm above the sole's top at a mapped \<open>(x, y)\<close>; of all the
  intersection points the one of greatest height is kept, the first such in the order
  trimesh returns them (\<open>np.argmax\<close>).
  The intersection itself is trimesh's \<open>ray.intersects_location\<close>, a library the script
  calls; it is modelled from the spec (4.2) as a triangle-by-triangle test. The
  placement loop only relies on the interface \<open>vertical_caster\<close>: every hit lies on the
  vertical line through the ray's origin and not above it.
\<close>

subsection \<open>Ray origin\<close>

text \<open>
  \<open>mesh.bounds\<close>: the least and greatest vertex coordinates, per axis (trimesh has
  no bounds for a mesh without vertices; the caller checks for that case).
\<close>

definition mesh_bounds :: "mesh \<Rightarrow> bbox" where
  "mesh_bounds m =
     \<lparr>bmin = P3 (Min (px ` set (vertices m))) (Min (py ` set (vertices m))) (Min (pz ` set (vertices m))),
      bmax = P3 (Max (px ` set (vertices m))) (Max (py ` set (vertices m))) (Max (pz ` set (vertices m)))\<rparr>"

text \<open>\<open>top_z = mesh.bounds[1][2]\<close> (line 154).\<close>

definition top_z :: "mesh \<Rightarrow> real" where
  "top_z m = pz (bmax (mesh_bounds m))"

text \<open>The clearance of the ray's start above the top, \<open>top_z + 10\<close> (line 184).\<close>

definition ray_clearance :: real where
  "ray_clearance = 10"

definition ray_origin :: "real \<Rightarrow> real \<times> real \<Rightarrow> point3" where
  "ray_origin ztop xy = P3 (fst xy) (snd xy) (ztop + ray_clearance)"

subsection \<open>The interface of a downward ray cast\<close>

text \<open>
  A caster maps an origin to the list of its hits; it is vertical when every hit has the
  origin's \<open>x\<close> and \<open>y\<close> and lies at or below it.
\<close>

type_synonym caster = "point3 \<Rightarrow> point3 list"

definition vertical_caster :: "caster \<Rightarrow> bool" where
  "vertical_caster cast \<longleftrightarrow>
     (\<forall>org p. p \<in> set (cast org) \<longrightarrow> px p = px org \<and> py p = py org \<and> pz p \<le> pz org)"

subsection \<open>trimesh's ray-triangle test, for the direction \<open>(0, 0, -1)\<close>\<close>

text \<open>
  The hit of a vertical ray through \<open>(x, y)\<close> with triangle \<open>a b c\<close>: the barycentric
  coordinates of \<open>(x, y)\<close> in the triangle's projection, if they are all non-negative;
  a triangle whose projection is degenerate (a vertical wall) is never hit.
\<close>

definition tri_hit :: "point3 \<Rightarrow> point3 \<Rightarrow> point3 \<Rightarrow> point3 \<Rightarrow> point3 option" where
  "tri_hit org a b c =
     (let d = (px b - px a) * (py c - py a) - (px c - px a) * (py b - py a);
          l1 = ((px b - px org) * (py c - py org) - (px c - px org) * (py b - py org)) / d;
          l2 = ((px c - px org) * (py a - py org) - (px a - px org) * (py c - py org)) / d;
          l3 = 1 - l1 - l2;
          z = l1 * pz a + l2 * pz b + l3 * pz c
      in if d \<noteq> 0 \<and> 0 \<le> l1 \<and> 0 \<le> l2 \<and> 0 \<le> l3 \<and> z \<le> pz org then Some (P3 (px org) (py org) z) else None)"

text \<open>\<open>mesh.ray.intersects_location(origin, [[0, 0, -1]])\<close>: one hit per triangle hit, in face order.\<close>

definition ray_hits :: "mesh \<Rightarrow> caster" where
  "ray_hits m org =
     List.map_filter (\<lambda>(i, j, k). tri_hit org (vertices m ! i) (vertices m ! j) (vertices m ! k)) (faces m)"

subsection \<open>Choosing the top hit\<close>

text \<open>
  Lines 188--192: no hit is a miss; otherwise the hit of greatest height, the first one
  among equals (\<open>np.argmax\<close>).
\<close>

fun top_hit :: "point3 list \<Rightarrow> point3 option" where
  "top_hit [] = None"
| "top_hit (p # ps) =
     (case top_hit ps of None \<Rightarrow> Some p | Some q \<Rightarrow> if pz p < pz q then Some q else Some p)"

text \<open>The Surface Locator: the surface point under a mapped position, if the ray hits.\<close>

definition locate_surface :: "caster \<Rightarrow> real \<Rightarrow> real \<times> real \<Rightarrow> point3 option" where
  "locate_surface cast ztop xy = top_hit (cast (ray_origin ztop xy))"

subsection \<open>Lemmas\<close>

lemma ray_origin_sel [simp]:
  "px (ray_origin ztop xy) = fst xy" "py (ray_origin ztop xy) = snd xy"
  "pz (ray_origin ztop xy) = ztop + ray_clearance"
  by (simp_all add: ray_origin_def)

lemma tri_hit_on_ray: "tri_hit org a b c = Some p \<Longrightarrow> px p = px org \<and> py p = py org \<and> pz p \<le> pz org"
  by (auto simp: tri_hit_def Let_def split: if_splits)

lemma ray_hits_vertical: "vertical_caster (ray_hits m)"
  by (auto simp: vertical_caster_def ray_hits_def mem_map_filter dest!: tri_hit_on_ray)

lemma top_hit_None_iff [simp]: "top_hit ps = None \<longleftrightarrow> ps = []"
  by (induction ps) (auto split: option.splits)

lemma top_hit_in_set: "top_hit ps = Some q \<Longrightarrow> q \<in> set ps"
  by (induction ps arbitrary: q) (auto split: option.splits if_splits)

lemma top_hit_max: "top_hit ps = Some q \<Longrightarrow> \<forall>p \<in> set ps. pz p \<le> pz q"
proof (induction ps arbitrary: q)
  case Nil
  then show ?case by simp
next
  case (Cons a ps)
  show ?case
  proof (cases "top_hit ps")
    case None
    with Cons.prems show ?thesis by simp
  next
    case (Some r)
    with Cons.IH have "\<forall>p \<in> set ps. pz p \<le> pz r" by simp
    with Cons.prems Some show ?thesis by (auto split: if_splits)
  qed
qed

lemma locate_surface_on_ray:
  assumes "vertical_caster cast" and "locate_surface cast ztop xy = Some loc"
  shows "px loc = fst xy \<and> py loc = snd xy \<and> pz loc \<le> ztop + ray_clearance"
proof -
  from assms(2) have "loc \<in> set (cast (ray_origin ztop xy))"
    by (simp add: locate_surface_def top_hit_in_set)
  with assms(1) have "px loc = px (ray_origin ztop xy) \<and> py loc = py (ray_origin ztop xy) \<and>
                      pz loc \<le> pz (ray_origin ztop xy)"
    unfolding vertical_caster_def by blast
  then show ?thesis by simp
qed

lemma top_hit_first:
  "top_hit ps = Some q \<Longrightarrow>
     \<exists>i < length ps. q = ps ! i \<and> (\<forall>j < i. pz (ps ! j) < pz q)"
proof (induction ps arbitrary: q)
  case Nil
  then show ?case by simp
next
  case (Cons p ps)
  show ?case
  proof (cases "top_hit ps")
    case None
    with Cons.prems show ?thesis by auto
  next
    case (Some r)
    from Cons.IH [OF Some] obtain i where i: "i < length ps" "r = ps ! i"
      and first: "\<forall>j < i. pz (ps ! j) < pz r" by blast
    show ?thesis
    proof (cases "pz p < pz r")
      case True
      with Cons.prems Some have "q = r" by simp
      with True i first have h: "q = (p # ps) ! Suc i \<and> (\<forall>j < Suc i. pz ((p # ps) ! j) < pz q)"
        by (auto simp: less_Suc_eq_0_disj)
      from i have "Suc i < length (p # ps)" by simp
      with h show ?thesis by blast
    next
      case False
      with Cons.prems Some have "q = p" by simp
      then show ?thesis by (intro exI [of _ 0]) simp
    qed
  qed
qed

text \<open>
  C1. The Surface Locator's choice among several intersections: the result is the
  hit of greatest height, and among hits of equal greatest height the first one in
  the order of the ray cast (\<open>np.argmax\<close>); it exists exactly when there is a hit.
\<close>

theorem top_hit_spec:
  "top_hit ps = Some q \<longleftrightarrow>
     (\<exists>i < length ps. q = ps ! i \<and> (\<forall>p \<in> set ps. pz p \<le> pz q) \<and> (\<forall>j < i. pz (ps ! j) < pz q))"
proof
  assume "top_hit ps = Some q"
  then show "\<exists>i < length ps. q = ps ! i \<and> (\<forall>p \<in> set ps. pz p \<le> pz q) \<and> (\<forall>j < i. pz (ps ! j) < pz q)"
    using top_hit_first top_hit_max by blast
next
  assume "\<exists>i < length ps. q = ps ! i \<and> (\<forall>p \<in> set ps. pz p \<le> pz q) \<and> (\<forall>j < i. pz (ps ! j) < pz q)"
  then obtain i where i: "i < length ps" "q = ps ! i" and mx: "\<forall>p \<in> set ps. pz p \<le> pz q"
    and first: "\<forall>j < i. pz (ps ! j) < pz q" by blast
  from i have "ps \<noteq> []" by auto
  then obtain r where r: "top_hit ps = Some r" by (cases "top_hit ps") simp_all
  from top_hit_first [OF r] obtain k where k: "k < length ps" "r = ps ! k"
    and first': "\<forall>j < k. pz (ps ! j) < pz r" by blast
  from top_hit_max [OF r] i have "pz q \<le> pz r" by simp
  moreover from mx k have "pz r \<le> pz q" by simp
  ultimately have eq: "pz q = pz r" by simp
  have "k = i"
  proof (rule ccontr)
    assume "k \<noteq> i"
    then have "k < i \<or> i < k" by arith
    with first first' k i eq show False by auto
  qed
  with k i r show "top_hit ps = Some q" by simp
qed

theorem top_hit_spec_witness:
  "top_hit [P3 0 0 1, P3 0 0 3, P3 0 0 3, P3 0 0 2] = Some (P3 0 0 3)"
proof -
  have "\<exists>i < length [P3 0 0 1, P3 0 0 3, P3 0 0 3, P3 0 0 (2::real)].
          P3 0 0 3 = [P3 0 0 1, P3 0 0 3, P3 0 0 3, P3 0 0 2] ! i \<and>
          (\<forall>p \<in> set [P3 0 0 1, P3 0 0 3, P3 0 0 3, P3 0 0 2]. pz p \<le> pz (P3 0 0 3)) \<and>
          (\<forall>j < i. pz ([P3 0 0 1, P3 0 0 3, P3 0 0 3, P3 0 0 2] ! j) < pz (P3 0 0 3))"
    by (rule exI [of _ 1]) (simp add: less_Suc_eq_0_disj)
  then show ?thesis by (simp only: top_hit_spec)
qed

end
