(* ===== verification/Bump_Synth.thy ===== *)
theory Bump_Synth
  imports Mesh_Compositor
begin

text \<open>
  The Bump Synthesizer of \<open>generate_slippers.py\<close>: \<open>create_ellipsoid_bump\<close> (lines
  82--99), a half-ellipsoid sampled on a \<open>stacks \<times> sections\<close> parameter grid and
  triangulated two triangles per cell; the bump parameters (lines 101--103); the
  zone colour table with its default (lines 106--139, 169); and the placement of one
  bump at a surface point (lines 198--200). Every colour of the table fits trimesh's
  byte colour array (\<open>byte_rgba\<close>).
\<close>

subsection \<open>The parametric dome\<close>

text \<open>\<open>np.linspace(a, b, n)\<close>, end point included.\<close>

definition linspace :: "real \<Rightarrow> real \<Rightarrow> nat \<Rightarrow> real list" where
  "linspace a b n = map (\<lambda>k. a + real k * ((b - a) / real (n - 1))) [0..<n]"

text \<open>
  Lines 83--89: \<open>u\<close> over \<open>[0, 2\<pi>]\<close> with \<open>sections\<close> values, \<open>v\<close> over
  \<open>[0, \<pi>/2]\<close> with \<open>stacks\<close> values; \<open>np.meshgrid\<close> and \<open>flatten\<close> put the vertex of
  row \<open>i\<close> (elevation \<open>v\<^sub>i\<close>) and column \<open>j\<close> (angle \<open>u\<^sub>j\<close>) at index
  \<open>i * sections + j\<close>.
\<close>

definition bump_vertices :: "real \<Rightarrow> real \<Rightarrow> real \<Rightarrow> nat \<Rightarrow> nat \<Rightarrow> point3 list" where
  "bump_vertices rx ry rz sections stacks =
     concat (map (\<lambda>v. map (\<lambda>u. P3 (rx * cos u * sin v) (ry * sin u * sin v) (rz * cos v))
                          (linspace 0 (2 * pi) sections))
                 (linspace 0 (pi / 2) stacks))"

text \<open>Lines 90--98: two triangles per grid cell, \<open>[p0, p2, p1]\<close> and \<open>[p1, p2, p3]\<close>.\<close>

definition cell_faces :: "nat \<Rightarrow> nat \<Rightarrow> nat \<Rightarrow> face list" where
  "cell_faces sections i j =
     (let p0 = i * sections + j; p1 = p0 + 1; p2 = p0 + sections; p3 = p2 + 1
      in [(p0, p2, p1), (p1, p2, p3)])"

definition bump_faces :: "nat \<Rightarrow> nat \<Rightarrow> face list" where
  "bump_faces sections stacks =
     concat (map (\<lambda>i. concat (map (cell_faces sections i) [0..<sections - 1])) [0..<stacks - 1])"

definition create_ellipsoid_bump :: "real \<Rightarrow> real \<Rightarrow> real \<Rightarrow> nat \<Rightarrow> nat \<Rightarrow> mesh" where
  "create_ellipsoid_bump rx ry rz sections stacks =
     \<lparr>vertices = bump_vertices rx ry rz sections stacks,
      faces = bump_faces sections stacks,
      vcolors = []\<rparr>"

subsection \<open>Parameters, translation and colour\<close>

definition bump_radius :: real where
  "bump_radius = 5 / 2"

definition bump_height :: real where
  "bump_height = 4"

text \<open>The default \<open>sections=20, stacks=10\<close> of \<open>create_ellipsoid_bump\<close>.\<close>

definition bump_sections :: nat where
  "bump_sections = 20"

definition bump_stacks :: nat where
  "bump_stacks = 10"

text \<open>The lift of the bump above the hit point, \<open>z3d + 0.01\<close> (line 199).\<close>

definition bump_lift :: real where
  "bump_lift = 1 / 100"

text \<open>\<open>mesh.apply_translation(t)\<close>.\<close>

definition translate_mesh :: "point3 \<Rightarrow> mesh \<Rightarrow> mesh" where
  "translate_mesh t m =
     m\<lparr>vertices := map (\<lambda>v. P3 (px v + px t) (py v + py t) (pz v + pz t)) (vertices m)\<rparr>"

text \<open>\<open>mesh.visual.vertex_colors = color\<close>: one colour for every vertex.\<close>

definition set_vertex_colors :: "rgba \<Rightarrow> mesh \<Rightarrow> mesh" where
  "set_vertex_colors c m = m\<lparr>vcolors := replicate (length (vertices m)) c\<rparr>"

text \<open>\<open>zone_color_map\<close> (lines 107--139), in its order.\<close>

definition zone_color_map :: "(string \<times> rgba) list" where
  "zone_color_map =
     [(''adrenal_gland'', (255, 165, 0, 255)), (''appendix'', (139, 69, 19, 255)),
      (''ascending_colon'', (153, 102, 51, 255)), (''bladder'', (255, 215, 0, 255)),
      (''brain_stem'', (128, 0, 128, 255)), (''descending_colon'', (139, 69, 19, 255)),
      (''duodenum'', (210, 105, 30, 255)), (''ear'', (255, 192, 203, 255)),
      (''eye'', (0, 191, 255, 255)), (''gall_bladder'', (50, 205, 50, 255)),
      (''head_brain'', (147, 112, 219, 255)), (''heart'', (255, 0, 0, 255)),
      (''anus'', (139, 0, 0, 255)), (''kidney'', (205, 92, 92, 255)),
      (''liver'', (165, 42, 42, 255)), (''lungs'', (135, 206, 235, 255)),
      (''neck'', (255, 228, 196, 255)), (''pancreas'', (255, 140, 0, 255)),
      (''pituitary_gland'', (255, 105, 180, 255)), (''rectum'', (128, 0, 0, 255)),
      (''sex_gland'', (199, 21, 133, 255)), (''sinus'', (173, 216, 230, 255)),
      (''small_intestine'', (244, 164, 96, 255)), (''solar_plexus'', (255, 255, 0, 255)),
      (''spleen'', (220, 20, 60, 255)), (''stomach'', (240, 128, 128, 255)),
      (''thyroid'', (0, 128, 128, 255)), (''trapezoid'', (238, 130, 238, 255)),
      (''transverse_colon'', (160, 82, 45, 255)), (''ureter'', (218, 165, 32, 255)),
      (''default'', (128, 128, 128, 255))]"

definition default_color :: rgba where
  "default_color = (128, 128, 128, 255)"

text \<open>\<open>zone_color_map.get(zone_name, zone_color_map["default"])\<close> (line 169).\<close>

definition zone_color :: "string \<Rightarrow> rgba" where
  "zone_color name = (case map_of zone_color_map name of Some c \<Rightarrow> c | None \<Rightarrow> default_color)"

text \<open>
  Lines 198--200: the bump for a hit at height \<open>z3d\<close> under the mapped position
  \<open>(x3d, y3d)\<close>, tinted with the zone's colour.
\<close>

definition make_bump :: "rgba \<Rightarrow> real \<times> real \<Rightarrow> real \<Rightarrow> mesh" where
  "make_bump color xy z3d =
     set_vertex_colors color
       (translate_mesh (P3 (fst xy) (snd xy) (z3d + bump_lift))
          (create_ellipsoid_bump bump_radius bump_radius bump_height bump_sections bump_stacks))"

text \<open>
  trimesh keeps vertex colours in an array of unsigned bytes: a colour it can store
  unchanged has four channels below 256, and an opaque one has alpha 255.
\<close>

definition byte_rgba :: "rgba \<Rightarrow> bool" where
  "byte_rgba c \<longleftrightarrow> (case c of (r, g, b, a) \<Rightarrow> r < 256 \<and> g < 256 \<and> b < 256 \<and> a = 255)"

subsection \<open>Lemmas\<close>

lemma zone_color_byte: "byte_rgba (zone_color zn)"
proof -
  have "list_all (\<lambda>(n, c). byte_rgba c) zone_color_map"
    by (simp add: zone_color_map_def byte_rgba_def)
  then have "byte_rgba c" if "map_of zone_color_map zn = Some c" for c
    using map_of_SomeD [OF that] by (auto simp: list_all_iff)
  then show ?thesis by (auto simp: zone_color_def default_color_def byte_rgba_def split: option.splits)
qed

lemma make_bump_zone_colors: "c \<in> set (vcolors (make_bump (zone_color zn) xy z3d)) \<Longrightarrow> byte_rgba c"
  using zone_color_byte [of zn] by (simp add: make_bump_def set_vertex_colors_def)

lemma length_linspace [simp]: "length (linspace a b n) = n"
  by (simp add: linspace_def)

lemma nth_linspace: "k < n \<Longrightarrow> linspace a b n ! k = a + real k * ((b - a) / real (n - 1))"
  by (simp add: linspace_def)

lemma linspace_bounds:
  assumes "a \<le> b" and "x \<in> set (linspace a b n)"
  shows "a \<le> x \<and> x \<le> b"
proof -
  from assms(2) obtain k where k: "k < n" and x: "x = a + real k * ((b - a) / real (n - 1))"
    by (auto simp: linspace_def)
  show ?thesis
  proof (cases "n = 1")
    case True
    with k x assms(1) show ?thesis by simp
  next
    case False
    with k have n: "1 < n" by simp
    from k have "real k \<le> real (n - 1)" by simp
    moreover from n have "0 < real (n - 1)" by simp
    ultimately have q1: "real k / real (n - 1) \<le> 1" and q0: "0 \<le> real k / real (n - 1)"
      by simp_all
    have h1: "real k / real (n - 1) * (b - a) \<le> b - a"
      using assms(1) q0 q1 by (intro mult_left_le_one_le) simp_all
    have h2: "0 \<le> real k / real (n - 1) * (b - a)"
      using assms(1) q0 by simp
    have xt: "x = a + real k / real (n - 1) * (b - a)"
      using x by simp
    define t where "t = real k / real (n - 1) * (b - a)"
    from xt h1 h2 have "x = a + t" and "t \<le> b - a" and "0 \<le> t"
      by (simp_all only: t_def)
    then show ?thesis by linarith
  qed
qed

lemma linspace_last: "1 < n \<Longrightarrow> linspace a b n ! (n - 1) = b"
  by (simp add: nth_linspace)

lemma length_bump_vertices [simp]:
  "length (bump_vertices rx ry rz sections stacks) = stacks * sections"
  by (simp add: bump_vertices_def length_concat comp_def sum_list_triv)

lemma nth_bump_vertices:
  assumes "i < stacks" and "j < sections"
  shows "bump_vertices rx ry rz sections stacks ! (i * sections + j) =
           (let u = linspace 0 (2 * pi) sections ! j; v = linspace 0 (pi / 2) stacks ! i
            in P3 (rx * cos u * sin v) (ry * sin u * sin v) (rz * cos v))"
proof -
  let ?row = "\<lambda>v. map (\<lambda>u. P3 (rx * cos u * sin v) (ry * sin u * sin v) (rz * cos v))
                          (linspace 0 (2 * pi) sections)"
  have "\<forall>xs \<in> set (map ?row (linspace 0 (pi / 2) stacks)). length xs = sections" by simp
  then have "concat (map ?row (linspace 0 (pi / 2) stacks)) ! (i * sections + j) =
               map ?row (linspace 0 (pi / 2) stacks) ! i ! j"
    using assms by (simp add: nth_concat_equal_length)
  with assms show ?thesis by (simp add: bump_vertices_def Let_def)
qed

lemma cell_faces_bound:
  assumes "i < stacks - 1" and "j < sections - 1" and "(a, b, c) \<in> set (cell_faces sections i j)"
  shows "a < stacks * sections \<and> b < stacks * sections \<and> c < stacks * sections"
proof -
  from assms(1) have "Suc i \<le> stacks - 1" by simp
  then have "Suc i * sections \<le> (stacks - 1) * sections" by (rule mult_le_mono1)
  moreover from assms(2) have "j + 1 < sections" by simp
  moreover from assms(1) have "stacks * sections = (stacks - 1) * sections + sections"
    by (cases stacks) simp_all
  ultimately have "i * sections + j + sections + 1 < stacks * sections" by simp
  with assms(3) show ?thesis by (auto simp: cell_faces_def Let_def)
qed

lemma bump_mesh_wf: "mesh_wf (create_ellipsoid_bump rx ry rz sections stacks)"
  by (auto simp: mesh_wf_def create_ellipsoid_bump_def bump_faces_def dest: cell_faces_bound [simplified])

lemma length_bump_faces: "length (bump_faces sections stacks) = 2 * (sections - 1) * (stacks - 1)"
  by (simp add: bump_faces_def cell_faces_def length_concat comp_def sum_list_triv Let_def)

lemma translate_mesh_sel [simp]:
  "length (vertices (translate_mesh t m)) = length (vertices m)"
  "faces (translate_mesh t m) = faces m"
  "vcolors (translate_mesh t m) = vcolors m"
  by (simp_all add: translate_mesh_def)

lemma set_vertex_colors_sel [simp]:
  "vertices (set_vertex_colors c m) = vertices m"
  "faces (set_vertex_colors c m) = faces m"
  "vcolors (set_vertex_colors c m) = replicate (length (vertices m)) c"
  by (simp_all add: set_vertex_colors_def)

lemma mesh_wf_translate_colors: "mesh_wf m \<Longrightarrow> mesh_wf (set_vertex_colors c (translate_mesh t m))"
  by (simp add: mesh_wf_def translate_mesh_def set_vertex_colors_def)

lemma make_bump_wf: "mesh_wf (make_bump color xy z3d)"
  by (simp add: make_bump_def mesh_wf_translate_colors bump_mesh_wf)

text \<open>Every vertex of the unplaced dome lies at or above its base plane \<open>z = 0\<close>.\<close>

lemma bump_vertices_nonneg_z:
  assumes "0 \<le> rz" and "p \<in> set (bump_vertices rx ry rz sections stacks)"
  shows "0 \<le> pz p"
proof -
  from assms(2) obtain v where v: "v \<in> set (linspace 0 (pi / 2) stacks)" and "pz p = rz * cos v"
    by (auto simp: bump_vertices_def)
  moreover from linspace_bounds [OF _ v] have "0 \<le> v \<and> v \<le> pi / 2" by simp
  then have "0 \<le> cos v" by (simp add: cos_ge_zero)
  ultimately show ?thesis using assms(1) by simp
qed

lemma make_bump_vertices:
  "vertices (make_bump color xy z3d) =
     map (\<lambda>v. P3 (px v + fst xy) (py v + snd xy) (pz v + (z3d + bump_lift)))
       (bump_vertices bump_radius bump_radius bump_height bump_sections bump_stacks)"
  by (simp add: make_bump_def set_vertex_colors_def translate_mesh_def create_ellipsoid_bump_def)

lemma make_bump_counts:
  "length (vertices (make_bump color xy z3d)) = 200 \<and> length (faces (make_bump color xy z3d)) = 342"
  by (simp add: make_bump_vertices make_bump_def create_ellipsoid_bump_def length_bump_faces
                bump_sections_def bump_stacks_def)

text \<open>Every vertex of a placed bump lies strictly above the height it was placed at.\<close>

lemma make_bump_above:
  "\<forall>v \<in> set (vertices (make_bump color xy z3d)). z3d < pz v"
proof
  fix v assume "v \<in> set (vertices (make_bump color xy z3d))"
  then obtain w where w: "w \<in> set (bump_vertices bump_radius bump_radius bump_height bump_sections bump_stacks)"
    and v: "pz v = pz w + (z3d + bump_lift)"
    by (auto simp: make_bump_vertices)
  have "0 \<le> pz w" by (rule bump_vertices_nonneg_z [OF _ w]) (simp add: bump_height_def)
  with v show "z3d < pz v" by (simp add: bump_lift_def)
qed




end
