(* ===== verification/Placement.thy ===== *)
theory Placement
  imports Zone_Sampler Zone_Select Surface_Locator Bump_Synth "HOL-Library.AList"
begin

text \<open>
  The placement loop of \<open>generate_slippers.py\<close> (lines 141--211) with the run-level
  set-up it reads (lines 53--75 and 154): for every selected annotation, the zone's
  polygon is sampled on the grid, each contained sample is mapped to the sole's frame
  and located on its surface, and a coloured bump is placed at every hit, while the
  counters and sample lists of the metrics are updated. The module-level variables of
  the script are the fields of \<open>run_state\<close>; the read-only globals are \<open>run_ctx\<close>.
  Each \<open>print(..., file=sys.stderr)\<close> warning is a value of \<open>warning\<close> appended to
  the state; the \<open>try/except\<close> of lines 159 and 209 is the \<open>AnnotationFailed\<close> branch,
  taken after the effects that precede the raising statement. The invariants of the
  reachable states (counters, bumps above their surface points, bump shapes, zero
  errors, byte colours) are proved by rule induction with \<open>reachable_induct_preserved\<close>.
\<close>

subsection \<open>Input data\<close>

text \<open>An entry of \<open>coco_data['annotations']\<close>.\<close>

record annotation =
  ann_id :: int
  category_id :: int
  segmentation :: "real list list"

text \<open>The annotation file: the first image's size, the categories, the annotations.\<close>

record coco =
  img_w :: real
  img_h :: real
  categories :: "category list"
  annotations :: "annotation list"

datatype warning =
    UnknownZone string
  | NoCategory int
  | NoValidPoints string
  | AnnotationFailed int

subsection \<open>State\<close>

text \<open>
  The mutable module-level variables of lines 143--150; the dictionaries
  \<open>zone_bumps\<close> and \<open>zone_paths\<close> are association lists in insertion order.
\<close>

record run_state =
  spikes :: "mesh list"
  spike_count :: nat
  ray_casting_attempts :: nat
  ray_casting_successes :: nat
  positional_errors :: "real list"
  bump_locations :: "point3 list"
  zone_bumps :: "(string \<times> nat) list"
  zone_paths :: "(string \<times> polygon) list"
  warnings :: "warning list"

text \<open>The values the loop reads but never writes.\<close>

record run_ctx =
  ctx_mapper :: mapper
  ctx_top :: real
  ctx_cast :: caster
  ctx_cats :: "category list"
  ctx_ids :: "int list"

text \<open>Lines 143--150: \<open>spikes = [sole_model]\<close>, zero counters, empty lists, a zero count per category name.\<close>

definition init_state :: "mesh \<Rightarrow> category list \<Rightarrow> run_state" where
  "init_state sole cats =
     \<lparr>spikes = [sole], spike_count = 0, ray_casting_attempts = 0, ray_casting_successes = 0,
      positional_errors = [], bump_locations = [],
      zone_bumps = map (\<lambda>n. (n, 0)) (remdups (map (\<lambda>c. py_lower (cat_name c)) cats)),
      zone_paths = [], warnings = []\<rparr>"

text \<open>\<open>d.get(k, 0)\<close> on a dictionary of counts.\<close>

definition get_count :: "(string \<times> nat) list \<Rightarrow> string \<Rightarrow> nat" where
  "get_count d k = (case map_of d k of None \<Rightarrow> 0 | Some c \<Rightarrow> c)"

definition warn :: "warning \<Rightarrow> run_state \<Rightarrow> run_state" where
  "warn w st = st\<lparr>warnings := warnings st @ [w]\<rparr>"

subsection \<open>One sample point\<close>

text \<open>
  Lines 182--206, for a sample \<open>t\<close> already known to lie in the zone: one ray-cast
  attempt; on a miss nothing else; on a hit the height \<open>z3d\<close> is the greatest hit height
  and \<open>loc\<close> the first hit of that height, the planar distance between \<open>loc\<close> and the
  expected position (recomputed in lines 194--195 with the mapper's formula) is recorded,
  and the bump is placed at \<open>(x3d, y3d, z3d + 0.01)\<close>.
\<close>

definition place_sample :: "run_ctx \<Rightarrow> string \<Rightarrow> rgba \<Rightarrow> point2 \<Rightarrow> run_state \<Rightarrow> run_state" where
  "place_sample ctx zone color t st =
     (let xy = map_2d_to_3d (ctx_mapper ctx) t;
          hits = ctx_cast ctx (ray_origin (ctx_top ctx) xy);
          st1 = st\<lparr>ray_casting_attempts := Suc (ray_casting_attempts st)\<rparr>
      in case top_hit hits of
           None \<Rightarrow> st1
         | Some loc \<Rightarrow>
             (let z3d = Max (pz ` set hits);
                  expected = map_2d_to_3d (ctx_mapper ctx) t;
                  err = dist2 (px loc - fst expected) (py loc - snd expected)
              in st1\<lparr>ray_casting_successes := Suc (ray_casting_successes st),
                     positional_errors := positional_errors st @ [err],
                     spikes := spikes st @ [make_bump color xy z3d],
                     spike_count := Suc (spike_count st),
                     bump_locations := bump_locations st @ [loc],
                     zone_bumps := AList.update zone (Suc (get_count (zone_bumps st) zone)) (zone_bumps st)\<rparr>))"

subsection \<open>One annotation\<close>

text \<open>
  Lines 156--211: the selection filter; the zone name (a missing or empty name is a
  warning); the colour; the segmentation (an \<open>IndexError\<close> or \<open>ValueError\<close> is caught
  before \<open>zone_paths\<close> changes); \<open>zone_paths[zone_name] = path\<close>; the bounding box (the
  \<open>ValueError\<close> of an empty polygon is caught after that assignment); the grid loop;
  and the warning when no grid point lies in the polygon.
\<close>

definition process_annotation :: "run_ctx \<Rightarrow> annotation \<Rightarrow> run_state \<Rightarrow> run_state" where
  "process_annotation ctx ann st =
     (if \<not> ann_selected (ctx_ids ctx) (category_id ann) then st
      else case zone_name_of (ctx_cats ctx) (category_id ann) of
        None \<Rightarrow> warn (NoCategory (ann_id ann)) st
      | Some zn \<Rightarrow>
          if zn = [] then warn (NoCategory (ann_id ann)) st
          else
            (let color = zone_color zn
             in case parse_segmentation (segmentation ann) of
                  None \<Rightarrow> warn (AnnotationFailed (ann_id ann)) st
                | Some ps \<Rightarrow>
                    (let st1 = st\<lparr>zone_paths := AList.update zn ps (zone_paths st)\<rparr>
                     in case poly_bbox ps of
                          None \<Rightarrow> warn (AnnotationFailed (ann_id ann)) st1
                        | Some (lo, hi) \<Rightarrow>
                            (let samples = filter (contains_point ps) (grid lo hi step);
                                 st2 = fold (place_sample ctx zn color) samples st1
                             in if samples = [] then warn (NoValidPoints zn) st2 else st2))))"

text \<open>The loop of line 156 over \<open>coco_data['annotations']\<close>, in file order.\<close>

definition run_annotations :: "run_ctx \<Rightarrow> annotation list \<Rightarrow> run_state \<Rightarrow> run_state" where
  "run_annotations ctx anns st = fold (process_annotation ctx) anns st"

subsection \<open>The run up to the metrics\<close>

text \<open>
  Lines 53--75, 143--156 and the loop: resolve the selected zones (fatal when none
  matches), read the bounds (an uncaught \<open>TypeError\<close> for a mesh without vertices),
  fix the mapper and the ray height, record the unknown-zone warnings, and run the
  annotations against the sole's ray caster.
\<close>

definition run_ctx_of :: "mesh \<Rightarrow> coco \<Rightarrow> int list \<Rightarrow> run_ctx" where
  "run_ctx_of sole c ids =
     \<lparr>ctx_mapper = make_mapper (mesh_bounds sole) (img_w c) (img_h c),
      ctx_top = top_z sole, ctx_cast = ray_hits sole, ctx_cats = categories c, ctx_ids = ids\<rparr>"

definition run_placement :: "mesh \<Rightarrow> coco \<Rightarrow> string list \<Rightarrow> run_error + run_state" where
  "run_placement sole c zones =
     (case resolve_selection (categories c) zones of
        Inl e \<Rightarrow> Inl e
      | Inr (ids, unknown) \<Rightarrow>
          if vertices sole = [] then Inl NoBounds
          else Inr (run_annotations (run_ctx_of sole c ids) (annotations c)
                      ((init_state sole (categories c))\<lparr>warnings := map UnknownZone unknown\<rparr>)))"

subsection \<open>What an annotation contributes\<close>

text \<open>
  A description of the loop without its state: the samples an annotation sends to the
  Surface Locator (none when it is skipped or fails before its grid), the surface
  point each one finds, and the positional error recorded for it.
\<close>

definition ann_zone :: "run_ctx \<Rightarrow> annotation \<Rightarrow> string option" where
  "ann_zone ctx ann = zone_name_of (ctx_cats ctx) (category_id ann)"

definition ann_samples :: "run_ctx \<Rightarrow> annotation \<Rightarrow> point2 list" where
  "ann_samples ctx ann =
     (if \<not> ann_selected (ctx_ids ctx) (category_id ann) then []
      else case ann_zone ctx ann of
        None \<Rightarrow> []
      | Some zn \<Rightarrow> if zn = [] then [] else
          (case parse_segmentation (segmentation ann) of None \<Rightarrow> [] | Some ps \<Rightarrow> zone_samples ps))"

definition sample_hit :: "run_ctx \<Rightarrow> point2 \<Rightarrow> point3 option" where
  "sample_hit ctx t = locate_surface (ctx_cast ctx) (ctx_top ctx) (map_2d_to_3d (ctx_mapper ctx) t)"

definition sample_error :: "run_ctx \<Rightarrow> point2 \<Rightarrow> real option" where
  "sample_error ctx t =
     map_option (\<lambda>loc. dist2 (px loc - fst (map_2d_to_3d (ctx_mapper ctx) t))
                             (py loc - snd (map_2d_to_3d (ctx_mapper ctx) t)))
                (sample_hit ctx t)"

definition ann_hits :: "run_ctx \<Rightarrow> annotation \<Rightarrow> point3 list" where
  "ann_hits ctx ann = List.map_filter (sample_hit ctx) (ann_samples ctx ann)"

text \<open>
  The path an annotation records in \<open>zone_paths\<close> (line 171), if it gets that far, and
  the warnings it prints.
\<close>

definition ann_path :: "run_ctx \<Rightarrow> annotation \<Rightarrow> (string \<times> polygon) option" where
  "ann_path ctx ann =
     (if \<not> ann_selected (ctx_ids ctx) (category_id ann) then None
      else case ann_zone ctx ann of
        None \<Rightarrow> None
      | Some zn \<Rightarrow> if zn = [] then None else map_option (Pair zn) (parse_segmentation (segmentation ann)))"

definition ann_warnings :: "run_ctx \<Rightarrow> annotation \<Rightarrow> warning list" where
  "ann_warnings ctx ann =
     (if \<not> ann_selected (ctx_ids ctx) (category_id ann) then []
      else case ann_zone ctx ann of
        None \<Rightarrow> [NoCategory (ann_id ann)]
      | Some zn \<Rightarrow>
          if zn = [] then [NoCategory (ann_id ann)]
          else
            (case parse_segmentation (segmentation ann) of
               None \<Rightarrow> [AnnotationFailed (ann_id ann)]
             | Some ps \<Rightarrow>
                 if ps = [] then [AnnotationFailed (ann_id ann)]
                 else if zone_samples ps = [] then [NoValidPoints zn] else []))"

subsection \<open>Reachable states\<close>

text \<open>
  The states the loop of line 156 can be in: the initial state with any warnings
  already printed, and every state one more annotation leads to.
\<close>

inductive reachable :: "run_ctx \<Rightarrow> run_state \<Rightarrow> bool" for ctx :: run_ctx where
  start: "reachable ctx ((init_state sole cats)\<lparr>warnings := ws\<rparr>)"
| step: "reachable ctx st \<Longrightarrow> reachable ctx (process_annotation ctx ann st)"

text \<open>
  The placement invariants: the counters agree with the sample lists (every success is
  an attempt, every success placed one bump and recorded one location and one error),
  and each bump lies above the location it was placed on.
\<close>

definition counters_ok :: "run_state \<Rightarrow> bool" where
  "counters_ok st \<longleftrightarrow>
     ray_casting_successes st \<le> ray_casting_attempts st \<and>
     spike_count st = ray_casting_successes st \<and>
     length (bump_locations st) = spike_count st \<and>
     length (positional_errors st) = spike_count st \<and>
     length (spikes st) = Suc (spike_count st)"

definition bumps_above :: "run_state \<Rightarrow> bool" where
  "bumps_above st \<longleftrightarrow> spikes st \<noteq> [] \<and>
     list_all2 (\<lambda>b loc. \<forall>v \<in> set (vertices b). pz loc < pz v) (tl (spikes st)) (bump_locations st)"

text \<open>Every piece after the sole is a placed bump: well formed, 200 vertices, 342 faces.\<close>

definition bump_piece :: "mesh \<Rightarrow> bool" where
  "bump_piece b \<longleftrightarrow> mesh_wf b \<and> length (vertices b) = 200 \<and> length (faces b) = 342"

text \<open>Every colour of every piece after the sole is a byte colour, opaque.\<close>

definition bump_colors_ok :: "run_state \<Rightarrow> bool" where
  "bump_colors_ok st \<longleftrightarrow> (\<forall>b \<in> set (tl (spikes st)). \<forall>c \<in> set (vcolors b). byte_rgba c)"

subsection \<open>Lemmas\<close>

lemma get_count_update:
  "get_count (AList.update k v d) z = (if z = k then v else get_count d z)"
  by (simp add: get_count_def update_conv')

lemma Max_pz_top_hit: "top_hit hits = Some loc \<Longrightarrow> Max (pz ` set hits) = pz loc"
  by (intro Max_eqI) (auto intro: top_hit_in_set dest: top_hit_max)

lemma place_sample_fields:
  "ray_casting_attempts (place_sample ctx zone color t st) = Suc (ray_casting_attempts st)"
  "ray_casting_successes (place_sample ctx zone color t st) =
     ray_casting_successes st + length (List.map_filter (sample_hit ctx) [t])"
  "spike_count (place_sample ctx zone color t st) =
     spike_count st + length (List.map_filter (sample_hit ctx) [t])"
  "bump_locations (place_sample ctx zone color t st) =
     bump_locations st @ List.map_filter (sample_hit ctx) [t]"
  "positional_errors (place_sample ctx zone color t st) =
     positional_errors st @ List.map_filter (sample_error ctx) [t]"
  "spikes (place_sample ctx zone color t st) =
     spikes st @ map (\<lambda>loc. make_bump color (map_2d_to_3d (ctx_mapper ctx) t) (pz loc))
                   (List.map_filter (sample_hit ctx) [t])"
  "get_count (zone_bumps (place_sample ctx zone color t st)) z =
     get_count (zone_bumps st) z + (if z = zone then length (List.map_filter (sample_hit ctx) [t]) else 0)"
  "zone_paths (place_sample ctx zone color t st) = zone_paths st"
  "warnings (place_sample ctx zone color t st) = warnings st"
  by (auto simp: place_sample_def sample_hit_def sample_error_def locate_surface_def Let_def
                 get_count_update Max_pz_top_hit split: option.splits)

lemma fold_place_sample_fields:
  "ray_casting_attempts (fold (place_sample ctx zone color) ts st) = ray_casting_attempts st + length ts"
  "ray_casting_successes (fold (place_sample ctx zone color) ts st) =
     ray_casting_successes st + length (List.map_filter (sample_hit ctx) ts)"
  "spike_count (fold (place_sample ctx zone color) ts st) =
     spike_count st + length (List.map_filter (sample_hit ctx) ts)"
  "bump_locations (fold (place_sample ctx zone color) ts st) =
     bump_locations st @ List.map_filter (sample_hit ctx) ts"
  "positional_errors (fold (place_sample ctx zone color) ts st) =
     positional_errors st @ List.map_filter (sample_error ctx) ts"
  "get_count (zone_bumps (fold (place_sample ctx zone color) ts st)) z =
     get_count (zone_bumps st) z + (if z = zone then length (List.map_filter (sample_hit ctx) ts) else 0)"
  "zone_paths (fold (place_sample ctx zone color) ts st) = zone_paths st"
  "warnings (fold (place_sample ctx zone color) ts st) = warnings st"
  by (induction ts arbitrary: st) (auto simp: place_sample_fields split: option.splits)

lemma fold_place_sample_spikes:
  "spikes (fold (place_sample ctx zone color) ts st) =
     spikes st @ concat (map (\<lambda>t. map (\<lambda>loc. make_bump color (map_2d_to_3d (ctx_mapper ctx) t) (pz loc))
                                     (List.map_filter (sample_hit ctx) [t])) ts)"
  by (induction ts arbitrary: st) (simp_all add: place_sample_fields)

lemma warn_sel [simp]:
  "spikes (warn w st) = spikes st" "spike_count (warn w st) = spike_count st"
  "ray_casting_attempts (warn w st) = ray_casting_attempts st"
  "ray_casting_successes (warn w st) = ray_casting_successes st"
  "positional_errors (warn w st) = positional_errors st"
  "bump_locations (warn w st) = bump_locations st" "zone_bumps (warn w st) = zone_bumps st"
  "zone_paths (warn w st) = zone_paths st" "warnings (warn w st) = warnings st @ [w]"
  by (simp_all add: warn_def)

lemmas process_annotation_unfold =
  process_annotation_def ann_samples_def ann_zone_def zone_samples_def Let_def

lemma process_annotation_fields:
  "ray_casting_attempts (process_annotation ctx ann st) =
     ray_casting_attempts st + length (ann_samples ctx ann)"
  "ray_casting_successes (process_annotation ctx ann st) =
     ray_casting_successes st + length (List.map_filter (sample_hit ctx) (ann_samples ctx ann))"
  "spike_count (process_annotation ctx ann st) =
     spike_count st + length (List.map_filter (sample_hit ctx) (ann_samples ctx ann))"
  "bump_locations (process_annotation ctx ann st) =
     bump_locations st @ List.map_filter (sample_hit ctx) (ann_samples ctx ann)"
  "positional_errors (process_annotation ctx ann st) =
     positional_errors st @ List.map_filter (sample_error ctx) (ann_samples ctx ann)"
  "get_count (zone_bumps (process_annotation ctx ann st)) z =
     get_count (zone_bumps st) z +
       (if ann_zone ctx ann = Some z then length (List.map_filter (sample_hit ctx) (ann_samples ctx ann)) else 0)"
  by (auto simp: process_annotation_unfold fold_place_sample_fields split: option.splits prod.splits)

lemma get_count_update_sum:
  "sum_list (map snd (AList.update k v d)) + get_count d k = sum_list (map snd d) + v"
  by (induction d) (auto simp: get_count_def)

lemma place_sample_zone_bumps:
  "zone_bumps (place_sample ctx zone color t st) =
     (case sample_hit ctx t of
        None \<Rightarrow> zone_bumps st
      | Some _ \<Rightarrow> AList.update zone (Suc (get_count (zone_bumps st) zone)) (zone_bumps st))"
  by (auto simp: place_sample_def sample_hit_def locate_surface_def Let_def split: option.splits)

lemma process_annotation_paths_warnings:
  "zone_paths (process_annotation ctx ann st) =
     (case ann_path ctx ann of None \<Rightarrow> zone_paths st | Some (zn, ps) \<Rightarrow> AList.update zn ps (zone_paths st))"
  "warnings (process_annotation ctx ann st) = warnings st @ ann_warnings ctx ann"
  by (auto simp: process_annotation_unfold ann_path_def ann_warnings_def poly_bbox_def
                 fold_place_sample_fields split: option.splits prod.splits)

lemma run_annotations_append:
  "run_annotations ctx (as @ bs) st = run_annotations ctx bs (run_annotations ctx as st)"
  by (simp add: run_annotations_def)

lemma run_annotations_fields:
  "ray_casting_attempts (run_annotations ctx anns st) =
     ray_casting_attempts st + sum_list (map (\<lambda>a. length (ann_samples ctx a)) anns)"
  "spike_count (run_annotations ctx anns st) =
     spike_count st + sum_list (map (\<lambda>a. length (ann_hits ctx a)) anns)"
  "ray_casting_successes (run_annotations ctx anns st) =
     ray_casting_successes st + sum_list (map (\<lambda>a. length (ann_hits ctx a)) anns)"
  "bump_locations (run_annotations ctx anns st) = bump_locations st @ concat (map (ann_hits ctx) anns)"
  "get_count (zone_bumps (run_annotations ctx anns st)) z =
     get_count (zone_bumps st) z +
       sum_list (map (\<lambda>a. length (ann_hits ctx a)) (filter (\<lambda>a. ann_zone ctx a = Some z) anns))"
  by (induction anns arbitrary: st)
     (simp_all add: run_annotations_def process_annotation_fields ann_hits_def)

text \<open>A property kept by every sample, every warning and every \<open>zone_paths\<close> update is kept by an annotation.\<close>

lemma process_annotation_preserves:
  assumes sample: "\<And>t zn st. P st \<Longrightarrow> P (place_sample ctx zn (zone_color zn) t st)"
    and warned: "\<And>w st. P st \<Longrightarrow> P (warn w st)"
    and path: "\<And>zn ps st. P st \<Longrightarrow> P (st\<lparr>zone_paths := AList.update zn ps (zone_paths st)\<rparr>)"
    and "P st"
  shows "P (process_annotation ctx ann st)"
proof -
  have fold: "P (fold (place_sample ctx zn (zone_color zn)) ts st')" if "P st'" for zn ts st'
    using that by (induction ts arbitrary: st') (simp_all add: sample)
  show ?thesis
    using \<open>P st\<close>
    by (auto simp: process_annotation_def Let_def intro!: warned path fold split: option.splits prod.splits)
qed

lemma length_map_filter_sample_error:
  "length (List.map_filter (sample_error ctx) ts) = length (List.map_filter (sample_hit ctx) ts)"
  by (induction ts) (auto simp: sample_error_def split: option.splits)

lemma reachable_induct_preserved [consumes 1, case_names init sample warned path]:
  assumes "reachable ctx st"
    and init: "\<And>sole cats ws. P ((init_state sole cats)\<lparr>warnings := ws\<rparr>)"
    and sample: "\<And>t zn st. P st \<Longrightarrow> P (place_sample ctx zn (zone_color zn) t st)"
    and warned: "\<And>w st. P st \<Longrightarrow> P (warn w st)"
    and path: "\<And>zn ps st. P st \<Longrightarrow> P (st\<lparr>zone_paths := AList.update zn ps (zone_paths st)\<rparr>)"
  shows "P st"
  using assms(1)
proof (induction rule: reachable.induct)
  case (start sole cats ws)
  show ?case by (rule init)
next
  case (step st ann)
  then show ?case by (intro process_annotation_preserves [OF sample warned path])
qed

lemma reachable_counters_ok: "reachable ctx st \<Longrightarrow> counters_ok st"
proof (induction rule: reachable_induct_preserved)
  case (init sole cats ws)
  then show ?case by (simp add: counters_ok_def init_state_def)
next
  case (sample t zn st)
  then show ?case
    by (auto simp: counters_ok_def place_sample_fields sample_error_def split: option.splits)
next
  case (warned w st)
  then show ?case by (simp add: counters_ok_def)
next
  case (path zn ps st)
  then show ?case by (simp add: counters_ok_def)
qed

lemma reachable_zone_sum: "reachable ctx st \<Longrightarrow> sum_list (map snd (zone_bumps st)) = spike_count st"
proof (induction rule: reachable_induct_preserved)
  case (init sole cats ws)
  have "sum_list (map (\<lambda>n. 0::nat) xs) = 0" for xs :: "string list" by (induction xs) simp_all
  then show ?case by (simp add: init_state_def comp_def)
next
  case (sample t zn st)
  have "sum_list (map snd (AList.update zn v (zone_bumps st))) + get_count (zone_bumps st) zn =
        sum_list (map snd (zone_bumps st)) + v" for v
    by (rule get_count_update_sum)
  from this [of "Suc (get_count (zone_bumps st) zn)"] sample.IH show ?case
    by (simp add: place_sample_zone_bumps place_sample_fields split: option.splits)
next
  case (warned w st)
  then show ?case by simp
next
  case (path zn ps st)
  then show ?case by simp
qed

lemma sample_error_zero:
  assumes "vertical_caster (ctx_cast ctx)" and "sample_error ctx t = Some e"
  shows "e = 0"
proof -
  from assms(2) obtain loc where loc: "sample_hit ctx t = Some loc"
    and e: "e = dist2 (px loc - fst (map_2d_to_3d (ctx_mapper ctx) t)) (py loc - snd (map_2d_to_3d (ctx_mapper ctx) t))"
    by (auto simp: sample_error_def)
  from locate_surface_on_ray [OF assms(1)] loc
  have "px loc = fst (map_2d_to_3d (ctx_mapper ctx) t) \<and> py loc = snd (map_2d_to_3d (ctx_mapper ctx) t)"
    by (simp add: sample_hit_def)
  with e show ?thesis by simp
qed

lemma reachable_errors_zero:
  assumes vc: "vertical_caster (ctx_cast ctx)"
  shows "reachable ctx st \<Longrightarrow> \<forall>e \<in> set (positional_errors st). e = 0"
proof (induction rule: reachable_induct_preserved)
  case (init sole cats ws)
  then show ?case by (simp add: init_state_def)
next
  case (sample t zn st)
  then show ?case
    by (auto simp: place_sample_fields dest: sample_error_zero [OF vc] split: option.splits)
next
  case (warned w st)
  then show ?case by simp
next
  case (path zn ps st)
  then show ?case by simp
qed

lemma place_sample_bumps_above: "bumps_above st \<Longrightarrow> bumps_above (place_sample ctx zn c t st)"
proof (cases "sample_hit ctx t")
  case None
  assume "bumps_above st"
  with None show ?thesis by (simp add: bumps_above_def place_sample_fields)
next
  case (Some loc)
  assume "bumps_above st"
  moreover have "\<forall>v \<in> set (vertices (make_bump c (map_2d_to_3d (ctx_mapper ctx) t) (pz loc))). pz loc < pz v"
    by (rule make_bump_above)
  ultimately show ?thesis
    using Some by (simp add: bumps_above_def place_sample_fields list_all2_appendI)
qed

lemma reachable_bumps_above: "reachable ctx st \<Longrightarrow> bumps_above st"
proof (induction rule: reachable_induct_preserved)
  case (init sole cats ws)
  then show ?case by (simp add: bumps_above_def init_state_def)
next
  case (sample t zn st)
  then show ?case by (rule place_sample_bumps_above)
next
  case (warned w st)
  then show ?case by (simp add: bumps_above_def)
next
  case (path zn ps st)
  then show ?case by (simp add: bumps_above_def)
qed

lemma reachable_bump_pieces: "reachable ctx st \<Longrightarrow> \<forall>b \<in> set (tl (spikes st)). bump_piece b"
proof (induction rule: reachable_induct_preserved)
  case (init sole cats ws)
  then show ?case by (simp add: init_state_def)
next
  case (sample t zn st)
  have "spikes st \<noteq> [] \<Longrightarrow> tl (spikes st @ xs) = tl (spikes st) @ xs" for xs by simp
  then show ?case
    using sample make_bump_counts
    by (cases "spikes st") (auto simp: place_sample_fields make_bump_wf bump_piece_def split: option.splits)
next
  case (warned w st)
  then show ?case by simp
next
  case (path zn ps st)
  then show ?case by simp
qed

lemma reachable_run_annotations: "reachable ctx st \<Longrightarrow> reachable ctx (run_annotations ctx anns st)"
  by (induction anns arbitrary: st) (simp_all add: run_annotations_def reachable.step)

lemma run_placement_Inr:
  assumes "run_placement sole c zones = Inr st"
  obtains ids unknown where "resolve_selection (categories c) zones = Inr (ids, unknown)"
    and "vertices sole \<noteq> []"
    and "st = run_annotations (run_ctx_of sole c ids) (annotations c)
                ((init_state sole (categories c))\<lparr>warnings := map UnknownZone unknown\<rparr>)"
  using assms by (auto simp: run_placement_def split: sum.splits prod.splits if_splits)

lemma run_placement_reachable:
  assumes "run_placement sole c zones = Inr st"
  shows "\<exists>ids. reachable (run_ctx_of sole c ids) st"
proof -
  from assms obtain ids unknown where
    st: "st = run_annotations (run_ctx_of sole c ids) (annotations c)
                ((init_state sole (categories c))\<lparr>warnings := map UnknownZone unknown\<rparr>)"
    by (rule run_placement_Inr)
  have "reachable (run_ctx_of sole c ids) ((init_state sole (categories c))\<lparr>warnings := map UnknownZone unknown\<rparr>)"
    by (rule reachable.start)
  then have "reachable (run_ctx_of sole c ids) st"
    unfolding st by (rule reachable_run_annotations)
  then show ?thesis by blast
qed

lemma reachable_bump_colors: "reachable ctx st \<Longrightarrow> bump_colors_ok st"
proof (induction rule: reachable_induct_preserved)
  case (init sole cats ws)
  then show ?case by (simp add: init_state_def bump_colors_ok_def)
next
  case (sample t zn st)
  have "spikes st \<noteq> [] \<Longrightarrow> tl (spikes st @ xs) = tl (spikes st) @ xs" for xs by simp
  then show ?case
    using sample
    by (cases "spikes st") (auto simp: place_sample_fields bump_colors_ok_def dest: make_bump_zone_colors
                                 split: option.splits)
next
  case (warned w st)
  then show ?case by (simp add: bump_colors_ok_def)
next
  case (path zn ps st)
  then show ?case by (simp add: bump_colors_ok_def)
qed

lemma run_annotations_spikes_prefix: "\<exists>xs. spikes (run_annotations ctx anns st) = spikes st @ xs"
proof (induction anns arbitrary: st)
  case Nil
  then show ?case by (simp add: run_annotations_def)
next
  case (Cons a anns)
  have "\<exists>xs. spikes (process_annotation ctx a st) = spikes st @ xs"
    by (rule process_annotation_preserves [where P = "\<lambda>st'. \<exists>xs. spikes st' = spikes st @ xs"])
       (auto simp: place_sample_fields)
  then obtain xs where "spikes (process_annotation ctx a st) = spikes st @ xs" ..
  moreover obtain ys where "spikes (run_annotations ctx anns (process_annotation ctx a st)) =
                              spikes (process_annotation ctx a st) @ ys"
    using Cons.IH by blast
  ultimately show ?case by (auto simp: run_annotations_def)
qed

lemma run_placement_spikes:
  assumes "run_placement sole c zones = Inr st"
  shows "spikes st = sole # tl (spikes st)"
proof -
  from assms obtain ids unknown where
    st: "st = run_annotations (run_ctx_of sole c ids) (annotations c)
                ((init_state sole (categories c))\<lparr>warnings := map UnknownZone unknown\<rparr>)"
    by (rule run_placement_Inr)
  obtain xs where "spikes st = spikes ((init_state sole (categories c))\<lparr>warnings := map UnknownZone unknown\<rparr>) @ xs"
    using run_annotations_spikes_prefix unfolding st by blast
  then have "spikes st = [sole] @ xs" by (simp add: init_state_def)
  then show ?thesis by simp
qed

lemma run_ctx_of_sel [simp]:
  "ctx_ids (run_ctx_of sole c ids) = ids" "ctx_cats (run_ctx_of sole c ids) = categories c"
  "ctx_cast (run_ctx_of sole c ids) = ray_hits sole"
  by (simp_all add: run_ctx_of_def)

lemma run_ctx_of_vertical [simp]: "vertical_caster (ctx_cast (run_ctx_of sole c ids))"
  by (simp add: run_ctx_of_def ray_hits_vertical)

lemma ann_hits_other_ids:
  assumes "ann_zone ctx a \<noteq> None \<Longrightarrow> ann_selected ids (category_id a) = ann_selected (ctx_ids ctx) (category_id a)"
  shows "ann_hits (ctx\<lparr>ctx_ids := ids\<rparr>) a = ann_hits ctx a"
proof -
  have "ann_zone (ctx\<lparr>ctx_ids := ids\<rparr>) a = ann_zone ctx a"
    and "sample_hit (ctx\<lparr>ctx_ids := ids\<rparr>) = sample_hit ctx"
    by (simp_all add: ann_zone_def sample_hit_def [abs_def])
  with assms show ?thesis
    by (cases "ann_zone ctx a") (simp_all add: ann_hits_def ann_samples_def)
qed

lemma set_select_ids:
  "set (fst (select_ids d zs)) = (\<Union>z \<in> set zs. case d z of None \<Rightarrow> {} | Some l \<Rightarrow> set l)"
  by (induction zs) (auto split: prod.splits option.splits)

lemma zone_name_of_SomeE:
  assumes "zone_name_of cats cid = Some n"
  obtains cat where "cat \<in> set cats" "cat_id cat = cid" "py_lower (cat_name cat) = n"
  using assms by (induction cats) (auto split: if_splits)

text \<open>An annotation whose category has a name among the selected zones is selected.\<close>

lemma selected_if_zone_named:
  assumes "resolve_selection cats zones = Inr (ids, unknown)"
    and "zone_name_of cats cid = Some n" and "n \<in> py_lower ` set zones"
  shows "cid \<in> set ids"
proof -
  from assms(1) have ids: "ids = fst (select_ids (zone_name_to_ids cats) (map py_lower zones))"
    by (auto simp: resolve_selection_def Let_def split: prod.splits if_splits)
  from assms(2) obtain cat where cat: "cat \<in> set cats" "cat_id cat = cid" "py_lower (cat_name cat) = n"
    by (rule zone_name_of_SomeE)
  then have "zone_name_to_ids cats n = Some (map cat_id (filter (\<lambda>c. py_lower (cat_name c) = n) cats))"
    by (auto simp: zone_name_to_ids_eq)
  moreover from cat have "cid \<in> set (map cat_id (filter (\<lambda>c. py_lower (cat_name c) = n) cats))"
    by auto
  ultimately show ?thesis
    using assms(3) by (force simp: ids set_select_ids)
qed

end
