(* ===== verification/Metrics.thy ===== *)
theory Metrics
  imports Placement
begin

text \<open>
  The Metrics Engine of \<open>generate_slippers.py\<close> (lines 213--247), computed once from
  the final state of the placement loop: the ray-cast success rate, the mean and
  standard deviation of the positional errors, the nearest-neighbour spacing of the
  bumps (a brute-force double loop), the mapping accuracy (every bump location
  re-projected into the image and tested against every recorded zone polygon) and the
  per-zone counts without zeros; then the whole run with the merge of line 251.
\<close>

subsection \<open>Rates and error statistics\<close>

text \<open>Line 214.\<close>

definition success_rate :: "run_state \<Rightarrow> real" where
  "success_rate st =
     (if 0 < ray_casting_attempts st
      then real (ray_casting_successes st) / real (ray_casting_attempts st) * 100 else 0)"

text \<open>Lines 215--216.\<close>

definition mean_positional_error :: "run_state \<Rightarrow> real" where
  "mean_positional_error st = (if positional_errors st = [] then 0 else py_mean (positional_errors st))"

definition std_positional_error :: "run_state \<Rightarrow> real" where
  "std_positional_error st = (if positional_errors st = [] then 0 else py_std (positional_errors st))"

subsection \<open>Nearest-neighbour spacing\<close>

text \<open>
  The inner loop of lines 222--227 for bump \<open>i\<close>: \<open>min_distance\<close> starts at
  \<open>inf\<close> (\<open>None\<close>) and takes every distance to another bump that is positive and
  smaller than the current minimum; \<open>j\<close> counts the position in the list.
\<close>

fun nn_scan :: "point3 \<Rightarrow> nat \<Rightarrow> nat \<Rightarrow> point3 list \<Rightarrow> real option \<Rightarrow> real option" where
  "nn_scan p i j [] md = md"
| "nn_scan p i j (q # qs) md =
     nn_scan p i (Suc j) qs
       (if i \<noteq> j \<and> 0 < dist3 p q \<and> (case md of None \<Rightarrow> True | Some m \<Rightarrow> dist3 p q < m)
        then Some (dist3 p q) else md)"

definition nearest_distance :: "point3 list \<Rightarrow> nat \<Rightarrow> real option" where
  "nearest_distance locs i = nn_scan (locs ! i) i 0 locs None"

text \<open>Lines 219--229: one value per bump that has a bump at a positive distance.\<close>

definition bump_spacing :: "point3 list \<Rightarrow> real list" where
  "bump_spacing locs =
     (if 1 < length locs then List.map_filter (nearest_distance locs) [0..<length locs] else [])"

text \<open>Lines 230--231: the step is reported when there is no spacing value.\<close>

definition avg_spacing :: "run_state \<Rightarrow> real" where
  "avg_spacing st =
     (let sp = bump_spacing (bump_locations st) in if sp = [] then step else py_mean sp)"

definition std_spacing :: "run_state \<Rightarrow> real" where
  "std_spacing st =
     (let sp = bump_spacing (bump_locations st) in if sp = [] then 0 else py_std sp)"

text \<open>
  What the loop computes, stated without it: the least positive distance from bump
  \<open>i\<close> to another bump, none when there is no such bump.
\<close>

definition nn_reference :: "point3 list \<Rightarrow> nat \<Rightarrow> real option" where
  "nn_reference locs i =
     (let D = {dist3 (locs ! i) (locs ! j) | j. j < length locs \<and> j \<noteq> i \<and> 0 < dist3 (locs ! i) (locs ! j)}
      in if D = {} then None else Some (Min D))"

definition min_opt :: "real option \<Rightarrow> real set \<Rightarrow> real option" where
  "min_opt md D =
     (if D = {} then md else Some (case md of None \<Rightarrow> Min D | Some m \<Rightarrow> min m (Min D)))"

subsection \<open>Mapping accuracy\<close>

text \<open>
  Lines 237--243: a location counts as correct when its re-projection lies in the path
  of any zone recorded in \<open>zone_paths\<close> (the inner loop breaks at the first one).
\<close>

definition correct_placement :: "mapper \<Rightarrow> (string \<times> polygon) list \<Rightarrow> point3 \<Rightarrow> bool" where
  "correct_placement m paths loc =
     (case unmap_3d_to_2d m loc of
        None \<Rightarrow> False
      | Some q \<Rightarrow> list_ex (\<lambda>(zone, path). contains_point path q) paths)"

text \<open>Lines 234--244.\<close>

definition placement_accuracy :: "mapper \<Rightarrow> run_state \<Rightarrow> real" where
  "placement_accuracy m st =
     (if 0 < spike_count st
      then real (length (filter (correct_placement m (zone_paths st)) (bump_locations st)))
             / real (spike_count st) * 100
      else 0)"

text \<open>Line 247: the per-zone counts without the zones that received no bump.\<close>

definition reported_zone_bumps :: "run_state \<Rightarrow> (string \<times> nat) list" where
  "reported_zone_bumps st = filter (\<lambda>(zone, count). 0 < count) (zone_bumps st)"

subsection \<open>The report and the whole run\<close>

text \<open>The values printed by lines 262--268.\<close>

record report =
  rep_success_rate :: real
  rep_mean_error :: real
  rep_std_error :: real
  rep_accuracy :: real
  rep_zone_bumps :: "(string \<times> nat) list"
  rep_total_bumps :: nat
  rep_avg_spacing :: real
  rep_std_spacing :: real

definition make_report :: "mapper \<Rightarrow> run_state \<Rightarrow> report" where
  "make_report m st =
     \<lparr>rep_success_rate = success_rate st,
      rep_mean_error = mean_positional_error st,
      rep_std_error = std_positional_error st,
      rep_accuracy = placement_accuracy m st,
      rep_zone_bumps = reported_zone_bumps st,
      rep_total_bumps = spike_count st,
      rep_avg_spacing = avg_spacing st,
      rep_std_spacing = std_spacing st\<rparr>"

text \<open>
  The script from line 53 on, given the loaded sole and annotation file: placement,
  metrics, and the combined mesh handed to the exporter (line 251).
\<close>

definition generate :: "mesh \<Rightarrow> coco \<Rightarrow> string list \<Rightarrow> run_error + (mesh \<times> report)" where
  "generate sole c zones =
     (case run_placement sole c zones of
        Inl e \<Rightarrow> Inl e
      | Inr st \<Rightarrow>
          Inr (concatenate (spikes st),
               make_report (make_mapper (mesh_bounds sole) (img_w c) (img_h c)) st))"

subsection \<open>Lemmas\<close>

lemma success_rate_bounds:
  assumes "ray_casting_successes st \<le> ray_casting_attempts st"
  shows "0 \<le> success_rate st \<and> success_rate st \<le> 100"
proof (cases "0 < ray_casting_attempts st")
  case True
  from assms have "real (ray_casting_successes st) \<le> real (ray_casting_attempts st)" by simp
  with True show ?thesis by (simp add: success_rate_def field_simps)
next
  case False
  then have "ray_casting_attempts st = 0" by simp
  then show ?thesis by (simp add: success_rate_def)
qed

lemma success_rate_100_iff:
  assumes "ray_casting_successes st \<le> ray_casting_attempts st"
  shows "success_rate st = 100 \<longleftrightarrow>
           0 < ray_casting_attempts st \<and> ray_casting_successes st = ray_casting_attempts st"
proof (cases "0 < ray_casting_attempts st")
  case True
  then show ?thesis by (auto simp: success_rate_def field_simps)
next
  case False
  then show ?thesis by (simp add: success_rate_def)
qed

lemma positional_error_stats_zero:
  "\<forall>e \<in> set (positional_errors st). e = 0 \<Longrightarrow>
     mean_positional_error st = 0 \<and> std_positional_error st = 0"
  by (simp add: mean_positional_error_def std_positional_error_def py_mean_zeros py_std_zeros)

lemma finite_dist_set: "finite {dist3 p (qs ! k) | k. k < n \<and> Q k}"
  by (rule finite_image_set) simp

lemma min_opt_step:
  assumes "finite D"
  shows "min_opt (if (case md of None \<Rightarrow> True | Some m \<Rightarrow> d < m) then Some d else md) D =
           min_opt md (insert d D)"
  using assms by (cases md) (auto simp: min_opt_def min_def Min_insert)

lemma nn_scan_min_opt:
  "nn_scan p i j qs md =
     min_opt md {dist3 p (qs ! k) | k. k < length qs \<and> j + k \<noteq> i \<and> 0 < dist3 p (qs ! k)}"
proof (induction qs arbitrary: j md)
  case Nil
  then show ?case by (simp add: min_opt_def)
next
  case (Cons q qs)
  let ?B = "{dist3 p (qs ! k) | k. k < length qs \<and> Suc j + k \<noteq> i \<and> 0 < dist3 p (qs ! k)}"
  let ?A = "{dist3 p ((q # qs) ! k) | k. k < length (q # qs) \<and> j + k \<noteq> i \<and> 0 < dist3 p ((q # qs) ! k)}"
  have split: "?A = {d. d = dist3 p q \<and> j \<noteq> i \<and> 0 < dist3 p q} \<union> ?B"
  proof (intro set_eqI iffI)
    fix x assume "x \<in> ?A"
    then obtain k where k: "k < Suc (length qs)" "j + k \<noteq> i" "0 < dist3 p ((q # qs) ! k)"
      and x: "x = dist3 p ((q # qs) ! k)" by auto
    show "x \<in> {d. d = dist3 p q \<and> j \<noteq> i \<and> 0 < dist3 p q} \<union> ?B"
    proof (cases k)
      case 0
      with k x show ?thesis by simp
    next
      case (Suc k')
      with k x have "k' < length qs" "Suc j + k' \<noteq> i" "0 < dist3 p (qs ! k')" "x = dist3 p (qs ! k')"
        by simp_all
      then show ?thesis by blast
    qed
  next
    fix x assume x: "x \<in> {d. d = dist3 p q \<and> j \<noteq> i \<and> 0 < dist3 p q} \<union> ?B"
    show "x \<in> ?A"
    proof (cases "x \<in> ?B")
      case True
      then obtain k where "k < length qs" "Suc j + k \<noteq> i" "0 < dist3 p (qs ! k)" "x = dist3 p (qs ! k)"
        by blast
      then have "Suc k < length (q # qs) \<and> j + Suc k \<noteq> i \<and> 0 < dist3 p ((q # qs) ! Suc k) \<and>
                 x = dist3 p ((q # qs) ! Suc k)" by simp
      then show ?thesis by blast
    next
      case False
      with x have "x = dist3 p q \<and> j \<noteq> i \<and> 0 < dist3 p q" by blast
      then have "0 < length (q # qs) \<and> j + 0 \<noteq> i \<and> 0 < dist3 p ((q # qs) ! 0) \<and>
                   x = dist3 p ((q # qs) ! 0)" by simp
      then show ?thesis by blast
    qed
  qed
  have fin: "finite ?B" by (rule finite_dist_set)
  show ?case
  proof (cases "j \<noteq> i \<and> 0 < dist3 p q")
    case True
    then have e: "{d. d = dist3 p q \<and> j \<noteq> i \<and> 0 < dist3 p q} = {dist3 p q}" by auto
    have A: "?A = insert (dist3 p q) ?B" unfolding split e by simp
    let ?md = "if (case md of None \<Rightarrow> True | Some m \<Rightarrow> dist3 p q < m) then Some (dist3 p q) else md"
    from True have "nn_scan p i j (q # qs) md = nn_scan p i (Suc j) qs ?md" by simp
    also have "\<dots> = min_opt ?md ?B" by (rule Cons.IH)
    also have "\<dots> = min_opt md (insert (dist3 p q) ?B)" by (rule min_opt_step [OF fin])
    finally show ?thesis by (simp only: A)
  next
    case False
    then have e: "{d. d = dist3 p q \<and> j \<noteq> i \<and> 0 < dist3 p q} = {}" by auto
    have A: "?A = ?B" unfolding split e by simp
    from False have "nn_scan p i j (q # qs) md = nn_scan p i (Suc j) qs md" by auto
    also have "\<dots> = min_opt md ?B" by (rule Cons.IH)
    finally show ?thesis by (simp only: A)
  qed
qed

lemma bump_spacing_positive: "x \<in> set (bump_spacing locs) \<Longrightarrow> 0 < x"
proof -
  assume "x \<in> set (bump_spacing locs)"
  then obtain i where "nearest_distance locs i = Some x"
    by (auto simp: bump_spacing_def mem_map_filter split: if_splits)
  moreover define D where
    "D = {dist3 (locs ! i) (locs ! k) | k. k < length locs \<and> k \<noteq> i \<and> 0 < dist3 (locs ! i) (locs ! k)}"
  ultimately have "min_opt None D = Some x"
    by (simp add: nearest_distance_def nn_scan_min_opt)
  then have ne: "D \<noteq> {}" and x: "x = Min D"
    by (auto simp: min_opt_def split: if_splits)
  have fin: "finite D" unfolding D_def by (rule finite_dist_set)
  have "\<forall>d \<in> D. 0 < d" by (auto simp: D_def)
  with fin ne x show "0 < x" by (simp add: Min_gr_iff)
qed

lemma generate_Inr:
  assumes "generate sole c zones = Inr (m, r)"
  obtains st where "run_placement sole c zones = Inr st" and "m = concatenate (spikes st)"
    and "r = make_report (make_mapper (mesh_bounds sole) (img_w c) (img_h c)) st"
  using assms by (auto simp: generate_def split: sum.splits)

lemma reported_zone_bumps_sum:
  "sum_list (map snd (reported_zone_bumps st)) = sum_list (map snd (zone_bumps st))"
proof -
  have "sum_list (map snd (filter (\<lambda>(zone, count). 0 < count) d)) = sum_list (map snd d)" for d :: "(string \<times> nat) list"
    by (induction d) auto
  then show ?thesis by (simp add: reported_zone_bumps_def)
qed

lemma correct_placement_update_new:
  assumes "correct_placement m paths loc" and "k \<notin> fst ` set paths"
  shows "correct_placement m (AList.update k v paths) loc"
proof -
  from assms(2) have "AList.update k v paths = paths @ [(k, v)]"
    by (induction paths) auto
  with assms(1) show ?thesis by (auto simp: correct_placement_def split: option.splits)
qed

lemma ann_hits_in_path:
  assumes "h \<in> set (ann_hits ctx ann)"
  obtains zn ps t where "ann_path ctx ann = Some (zn, ps)" and "contains_point ps t"
    and "sample_hit ctx t = Some h"
proof -
  from assms obtain t where t: "t \<in> set (ann_samples ctx ann)" "sample_hit ctx t = Some h"
    by (auto simp: ann_hits_def mem_map_filter)
  then have "ann_samples ctx ann \<noteq> []" by auto
  then obtain zn ps where p: "ann_path ctx ann = Some (zn, ps)" and s: "ann_samples ctx ann = zone_samples ps"
    by (auto simp: ann_samples_def ann_path_def split: if_splits option.splits)
  from t s have "contains_point ps t" by (simp add: zone_samples_contained)
  with p t that show ?thesis by blast
qed

lemma correct_placement_hit:
  assumes "vertical_caster (ctx_cast ctx)" and "mapper_ok (ctx_mapper ctx)"
    and "contains_point ps t" and "sample_hit ctx t = Some h" and "(zn, ps) \<in> set paths"
  shows "correct_placement (ctx_mapper ctx) paths h"
proof -
  from locate_surface_on_ray [OF assms(1)] assms(4)
  have "(px h, py h) = map_2d_to_3d (ctx_mapper ctx) t"
    by (simp add: sample_hit_def prod_eq_iff)
  then have "unmap_3d_to_2d (ctx_mapper ctx) h = Some t"
    by (rule unmap_map_2d_to_3d [OF assms(2)])
  with assms(3,5) show ?thesis
    by (auto simp: correct_placement_def list_ex_iff)
qed

lemma ann_path_zone: "ann_path ctx ann = Some (zn, ps) \<Longrightarrow> ann_zone ctx ann = Some zn"
  by (auto simp: ann_path_def split: if_splits option.splits)

lemma zone_paths_keys:
  "fst ` set (zone_paths (process_annotation ctx ann st)) \<subseteq>
     fst ` set (zone_paths st) \<union> {zn. ann_zone ctx ann = Some zn}"
  by (auto simp: process_annotation_paths_warnings dom_update dest: ann_path_zone split: option.splits)

lemma process_annotation_correct:
  assumes vc: "vertical_caster (ctx_cast ctx)" and ok: "mapper_ok (ctx_mapper ctx)"
    and good: "\<forall>loc \<in> set (bump_locations st). correct_placement (ctx_mapper ctx) (zone_paths st) loc"
    and new: "\<forall>zn. ann_zone ctx ann = Some zn \<longrightarrow> zn \<notin> fst ` set (zone_paths st)"
  shows "\<forall>loc \<in> set (bump_locations (process_annotation ctx ann st)).
           correct_placement (ctx_mapper ctx) (zone_paths (process_annotation ctx ann st)) loc"
proof (cases "ann_path ctx ann")
  case None
  then have "ann_hits ctx ann = []"
    by (metis ann_hits_in_path list.set_sel(1) option.distinct(1))
  with None good show ?thesis
    by (simp add: process_annotation_fields process_annotation_paths_warnings ann_hits_def [symmetric])
next
  case (Some p)
  then obtain zn ps where p: "ann_path ctx ann = Some (zn, ps)" by (cases p) auto
  with new have fresh: "zn \<notin> fst ` set (zone_paths st)" by (simp add: ann_path_zone)
  have mem: "(zn, ps) \<in> set (AList.update zn ps (zone_paths st))"
    by (rule map_of_SomeD) (simp add: update_conv')
  have "correct_placement (ctx_mapper ctx) (AList.update zn ps (zone_paths st)) h"
    if "h \<in> set (ann_hits ctx ann)" for h
  proof -
    from that obtain zn' ps' t where "ann_path ctx ann = Some (zn', ps')" "contains_point ps' t"
      "sample_hit ctx t = Some h" by (rule ann_hits_in_path)
    with p mem show ?thesis by (auto intro: correct_placement_hit [OF vc ok])
  qed
  with p good fresh show ?thesis
    by (auto simp: process_annotation_fields process_annotation_paths_warnings ann_hits_def [symmetric]
             intro: correct_placement_update_new)
qed

lemma run_annotations_correct:
  assumes vc: "vertical_caster (ctx_cast ctx)" and ok: "mapper_ok (ctx_mapper ctx)"
  shows "distinct (List.map_filter (ann_zone ctx) anns) \<Longrightarrow>
     (\<forall>a \<in> set anns. \<forall>zn. ann_zone ctx a = Some zn \<longrightarrow> zn \<notin> fst ` set (zone_paths st)) \<Longrightarrow>
     \<forall>loc \<in> set (bump_locations st). correct_placement (ctx_mapper ctx) (zone_paths st) loc \<Longrightarrow>
     \<forall>loc \<in> set (bump_locations (run_annotations ctx anns st)).
        correct_placement (ctx_mapper ctx) (zone_paths (run_annotations ctx anns st)) loc"
proof (induction anns arbitrary: st)
  case Nil
  then show ?case by (simp add: run_annotations_def)
next
  case (Cons a anns)
  let ?st = "process_annotation ctx a st"
  have good: "\<forall>loc \<in> set (bump_locations ?st). correct_placement (ctx_mapper ctx) (zone_paths ?st) loc"
    using Cons.prems by (intro process_annotation_correct [OF vc ok]) simp_all
  have dist: "distinct (List.map_filter (ann_zone ctx) anns)"
    and other: "\<forall>zn. ann_zone ctx a = Some zn \<longrightarrow> zn \<notin> set (List.map_filter (ann_zone ctx) anns)"
    using Cons.prems(1) by (auto simp: List.map_filter_simps split: option.splits)
  have "\<forall>a' \<in> set anns. \<forall>zn. ann_zone ctx a' = Some zn \<longrightarrow> zn \<notin> fst ` set (zone_paths ?st)"
  proof (intro ballI allI impI)
    fix a' zn assume a': "a' \<in> set anns" "ann_zone ctx a' = Some zn"
    then have "zn \<in> set (List.map_filter (ann_zone ctx) anns)" by (auto simp: mem_map_filter)
    show "zn \<notin> fst ` set (zone_paths ?st)"
    proof
      assume "zn \<in> fst ` set (zone_paths ?st)"
      then have "zn \<in> fst ` set (zone_paths st) \<or> ann_zone ctx a = Some zn"
        using zone_paths_keys [of ctx a st] by blast
      with other Cons.prems(2) a' \<open>zn \<in> set (List.map_filter (ann_zone ctx) anns)\<close> show False
        by auto
    qed
  qed
  from Cons.IH [OF dist this good] show ?case by (simp add: run_annotations_def)
qed

text \<open>
  C7. The brute-force loop of lines 221--227 computes, for bump \<open>i\<close>, the least
  positive distance to any other bump, and nothing when every other bump coincides
  with it: bumps at distance zero are ignored, not counted as nearest neighbours.
\<close>

theorem nearest_distance_eq_reference: "nearest_distance locs i = nn_reference locs i"
  by (simp add: nearest_distance_def nn_scan_min_opt nn_reference_def min_opt_def Let_def)

end
