(* ===== verification/App_Request.thy ===== *)
theory App_Request
  imports Zone_Select "HOL-Library.Char_ord" "HOL-Library.List_Lexorder"
begin

text \<open>
  The web front end \<open>app.py\<close>: the zone keys read once from each foot's annotation
  file (\<open>load_valid_zone_keys\<close>, lines 25--40) and the \<open>/generate_slippers\<close> route
  (lines 53--148), which validates a form, maps the selected areas to upper-case zone
  keys, runs \<open>generate_slippers.py\<close> as a subprocess and classifies the outcome as an
  HTTP status, and the \<open>/get_available_zones\<close> catalogue (lines 159--165). The file system and the subprocess are the environment: whether the
  sole's STL file exists, and what running the command produced, are parameters.
  Flask's request parsing, \<open>jsonify\<close> and \<open>url_for\<close> are not modelled; a response is
  its status code and its JSON message.
\<close>

subsection \<open>Zone keys\<close>

text \<open>
  What \<open>json.load\<close> gives for a zone configuration file: no file (line 27), a file
  that does not load (line 38), or a document with or without a \<open>categories\<close> field
  whose entries have or lack a \<open>name\<close>.
\<close>

datatype zone_config =
    ConfigMissing
  | ConfigUnreadable
  | ConfigLoaded "string option list option"

definition excluded_keys :: "string list" where
  "excluded_keys = [''LEFT_FOOT_ORGANS'', ''RIGHT_FOOT_ORGANS'']"

text \<open>Lines 25--40: \<open>None\<close> on an error, else the upper-cased names but the two whole-foot categories.\<close>

definition load_valid_zone_keys :: "zone_config \<Rightarrow> string set option" where
  "load_valid_zone_keys cfg =
     (case cfg of
        ConfigMissing \<Rightarrow> None
      | ConfigUnreadable \<Rightarrow> None
      | ConfigLoaded None \<Rightarrow> Some {}
      | ConfigLoaded (Some cats) \<Rightarrow>
          Some (set (filter (\<lambda>k. k \<notin> set excluded_keys) (map py_upper (List.map_filter id cats)))))"

subsection \<open>The route\<close>

text \<open>The form fields: \<open>getlist('areas')\<close>, \<open>get('foot')\<close>, \<open>get('size')\<close>.\<close>

record form =
  areas :: "string list"
  foot_field :: "string option"
  size_field :: "string option"

text \<open>
  What \<open>subprocess.run(command, check=True, ...)\<close> ends with: exit status 0 and whether
  the output file exists afterwards (line 123); \<open>FileNotFoundError\<close> (line 135); a
  non-zero exit with its stderr and stdout (line 138); any other exception (line 144).
\<close>

datatype script_result =
    Completed bool
  | LaunchFailed string
  | ExitFailure string string
  | Crashed string

datatype response =
    RespError string
  | RespSuccess string string

text \<open>Lines 81--88: each area is upper-cased; a known key is kept once, in order; an unknown value is reported as given.\<close>

definition map_area :: "string set \<Rightarrow> string list \<times> string list \<Rightarrow> string \<Rightarrow> string list \<times> string list" where
  "map_area keys acc v =
     (let (zs, us) = acc; k = py_upper v
      in if k \<in> keys then (if k \<in> set zs then (zs, us) else (zs @ [k], us)) else (zs, us @ [v]))"

definition map_areas :: "string set \<Rightarrow> string list \<Rightarrow> string list \<times> string list" where
  "map_areas keys vs = fold (\<lambda>v acc. map_area keys acc v) vs ([], [])"

text \<open>\<open>', '.join(xs)\<close>.\<close>

fun join_comma :: "string list \<Rightarrow> string" where
  "join_comma [] = []"
| "join_comma [x] = x"
| "join_comma (x # y # xs) = x @ '', '' @ join_comma (y # xs)"

text \<open>The STL files and output names of lines 11--15 and 98--105.\<close>

definition stl_of :: "string \<Rightarrow> string" where
  "stl_of foot = (if foot = ''left'' then ''Shoe_Sole_UK_8_Left.stl'' else ''Shoe_Sole_UK_8_Right.stl'')"

definition output_name :: "string \<Rightarrow> string" where
  "output_name foot = ''sole_with_spikes_'' @ foot @ ''.ply''"

text \<open>Lines 109--115: the arguments after the Python executable.\<close>

definition script_command :: "string \<Rightarrow> string list \<Rightarrow> string list" where
  "script_command foot zones =
     [''generate_slippers.py'', ''--foot'', foot, ''--input'', stl_of foot, ''--output'', output_name foot] @ zones"

text \<open>Line 142: the first non-empty of stderr and stdout, cut to 500 characters.\<close>

definition error_excerpt :: "string \<Rightarrow> string \<Rightarrow> string" where
  "error_excerpt err out =
     take 500 (if err \<noteq> [] then err else if out \<noteq> [] then out else ''Unknown script error'')"

text \<open>Lines 118--146: the response to the subprocess's outcome for a foot and its zones.\<close>

definition script_response :: "string \<Rightarrow> string list \<Rightarrow> script_result \<Rightarrow> nat \<times> response" where
  "script_response target zones res =
     (case res of
        Completed True \<Rightarrow>
          (200, RespSuccess (''Generation successful for '' @ target @ '' foot. Processed zones: '' @
                             join_comma zones) (output_name target))
      | Completed False \<Rightarrow> (500, RespError ''Script ran but output PLY file was not created.'')
      | LaunchFailed e \<Rightarrow> (500, RespError (''Server error: Could not find script or Python executable: '' @ e))
      | ExitFailure err out \<Rightarrow> (500, RespError (''Error during generation: '' @ error_excerpt err out))
      | Crashed e \<Rightarrow> (500, RespError (''An unexpected server error occurred: '' @ e)))"

text \<open>
  Lines 53--148 for a POST request, with the zone keys of both feet, the existence of
  the STL files and the subprocess as parameters; the result is the status code and the
  response body.
\<close>

definition generate_slippers_route ::
  "string set option \<Rightarrow> string set option \<Rightarrow> (string \<Rightarrow> bool) \<Rightarrow> (string list \<Rightarrow> script_result) \<Rightarrow>
   form \<Rightarrow> nat \<times> response" where
  "generate_slippers_route keys_left keys_right stl_exists run f =
     (case (keys_left, keys_right) of
        (Some kl, Some kr) \<Rightarrow>
          if areas f = [] then (400, RespError ''Please select at least one reflexology area.'')
          else if foot_field f \<noteq> Some ''left'' \<and> foot_field f \<noteq> Some ''right''
          then (400, RespError ''Please select either Left Foot or Right Foot.'')
          else if size_field f = None \<or> size_field f = Some []
          then (400, RespError ''Please select a foot size.'')
          else
            (let sel = the (foot_field f);
                 (zones, unknown) = map_areas (if sel = ''left'' then kl else kr) (areas f)
             in if zones = []
                then (400, RespError (''None of the selected areas could be mapped to known zones.'' @
                         (if unknown = [] then [] else '' Unrecognized values: '' @ join_comma unknown @ ''.'')))
                else
                  (let target = py_lower sel
                   in if \<not> stl_exists (stl_of target)
                      then (404, RespError (''Input STL file for '' @ target @ '' foot (UK size 8) not found.''))
                      else script_response target zones (run (script_command target zones))))
      | _ \<Rightarrow> (500, RespError ''Server configuration error: Cannot validate zones.''))"

subsection \<open>The zone catalogue\<close>

text \<open>
  Lines 159--165, \<open>/get_available_zones\<close>: each foot's keys as a sorted list. Python
  orders strings by code point, lexicographically with a prefix first, as
  \<open>List_Lexorder\<close> orders character lists. With a key set that failed to load,
  \<open>list(None)\<close> raises and Flask answers 500 (\<open>None\<close>).
\<close>

definition get_available_zones ::
  "string set option \<Rightarrow> string set option \<Rightarrow> (string list \<times> string list) option" where
  "get_available_zones keys_left keys_right =
     (case (keys_left, keys_right) of
        (Some kl, Some kr) \<Rightarrow> Some (sorted_list_of_set kl, sorted_list_of_set kr)
      | _ \<Rightarrow> None)"

subsection \<open>Lemmas\<close>

lemma fold_map_area:
  assumes "distinct zs" and "set zs \<subseteq> keys"
  shows "distinct (fst (fold (\<lambda>v acc. map_area keys acc v) vs (zs, us))) \<and>
         set (fst (fold (\<lambda>v acc. map_area keys acc v) vs (zs, us))) = set zs \<union> (py_upper ` set vs \<inter> keys) \<and>
         snd (fold (\<lambda>v acc. map_area keys acc v) vs (zs, us)) = us @ filter (\<lambda>v. py_upper v \<notin> keys) vs"
  using assms
proof (induction vs arbitrary: zs us)
  case Nil
  then show ?case by simp
next
  case (Cons v vs)
  show ?case
  proof (cases "py_upper v \<in> keys")
    case True
    show ?thesis
    proof (cases "py_upper v \<in> set zs")
      case True
      with \<open>py_upper v \<in> keys\<close> Cons.prems Cons.IH [of zs us] show ?thesis
        by (auto simp: map_area_def)
    next
      case False
      with \<open>py_upper v \<in> keys\<close> Cons.prems Cons.IH [of "zs @ [py_upper v]" us] show ?thesis
        by (auto simp: map_area_def)
    qed
  next
    case False
    with Cons.prems Cons.IH [of zs "us @ [v]"] show ?thesis
      by (auto simp: map_area_def)
  qed
qed

lemma map_areas_props:
  "distinct (fst (map_areas keys vs))"
  "set (fst (map_areas keys vs)) = py_upper ` set vs \<inter> keys"
  "snd (map_areas keys vs) = filter (\<lambda>v. py_upper v \<notin> keys) vs"
  using fold_map_area [of "[]" keys vs "[]"] by (simp_all add: map_areas_def)

lemma fold_map_area_fresh:
  assumes "distinct vs" and "set vs \<subseteq> keys" and "\<forall>v \<in> set vs. py_upper v = v" and "set zs \<inter> set vs = {}"
  shows "fold (\<lambda>v acc. map_area keys acc v) vs (zs, us) = (zs @ vs, us)"
  using assms by (induction vs arbitrary: zs) (auto simp: map_area_def)

lemma load_keys_upper:
  "load_valid_zone_keys cfg = Some K \<Longrightarrow> finite K \<and> (\<forall>k \<in> K. py_upper k = k)"
  by (auto simp: load_valid_zone_keys_def split: zone_config.splits option.splits)

lemma load_keys_names:
  "load_valid_zone_keys (ConfigLoaded (Some (map (\<lambda>c. Some (cat_name c)) cats))) = Some K \<Longrightarrow>
     K = set (filter (\<lambda>k. k \<notin> set excluded_keys) (map py_upper (map cat_name cats)))"
proof -
  have "List.map_filter id (map (\<lambda>c. Some (cat_name c)) cats) = map cat_name cats"
    by (induction cats) (simp_all add: List.map_filter_simps)
  then show "load_valid_zone_keys (ConfigLoaded (Some (map (\<lambda>c. Some (cat_name c)) cats))) = Some K \<Longrightarrow>
     K = set (filter (\<lambda>k. k \<notin> set excluded_keys) (map py_upper (map cat_name cats)))"
    by (simp add: load_valid_zone_keys_def)
qed

lemma keys_resolve:
  assumes "set zones \<subseteq> set (filter (\<lambda>k. k \<notin> set excluded_keys) (map py_upper (map cat_name cats)))"
    and "zones \<noteq> []"
  shows "\<exists>ids. resolve_selection cats zones = Inr (ids, []) \<and> ids \<noteq> []"
proof -
  let ?d = "zone_name_to_ids cats"
  have known: "?d z \<noteq> None" if "z \<in> set (map py_lower zones)" for z
  proof -
    from that obtain x where x: "x \<in> set zones" and z: "z = py_lower x" by auto
    from x assms(1) obtain c where "c \<in> set cats" and "x = py_upper (cat_name c)" by auto
    with z show ?thesis by (auto simp: zone_name_to_ids_None)
  qed
  have ne: "\<forall>z. ?d z \<noteq> Some []"
    using zone_name_to_ids_nonempty by blast
  from assms(2) known have ids: "fst (select_ids ?d (map py_lower zones)) \<noteq> []"
    by (auto simp: select_ids_fst_empty [OF ne] neq_Nil_conv)
  from known have unk: "snd (select_ids ?d (map py_lower zones)) = []"
    by (simp add: select_ids_snd filter_empty_conv)
  from ids unk assms(2) show ?thesis
    by (auto simp: resolve_selection_def Let_def split: prod.splits)
qed

lemma py_lower_feet [simp]: "py_lower ''left'' = ''left''" "py_lower ''right'' = ''right''"
  by code_simp+

lemma map_areas_empty_iff:
  "fst (map_areas keys vs) = [] \<longleftrightarrow> (\<forall>v \<in> set vs. py_upper v \<notin> keys)"
proof -
  have "fst (map_areas keys vs) = [] \<longleftrightarrow> set (fst (map_areas keys vs)) = {}" by simp
  also have "\<dots> \<longleftrightarrow> (\<forall>v \<in> set vs. py_upper v \<notin> keys)" by (auto simp: map_areas_props)
  finally show ?thesis .
qed

lemma route_invalid:
  assumes "areas f = [] \<or> (foot_field f \<noteq> Some ''left'' \<and> foot_field f \<noteq> Some ''right'') \<or>
           size_field f = None \<or> size_field f = Some []"
  shows "fst (generate_slippers_route (Some kl) (Some kr) ex run f) = 400"
  using assms by (elim disjE) (simp_all add: generate_slippers_route_def)

lemma script_response_status: "fst (script_response t zs res) \<in> {200, 500}"
  by (simp add: script_response_def split: script_result.split bool.split)

lemma route_valid:
  assumes "areas f \<noteq> []" and "foot_field f = Some ft" and "ft = ''left'' \<or> ft = ''right''"
    and "size_field f \<noteq> None" and "size_field f \<noteq> Some []"
    and "map_areas (if ft = ''left'' then kl else kr) (areas f) = (zones, unknown)"
  shows "fst (generate_slippers_route (Some kl) (Some kr) ex run f) =
           (if zones = [] then 400 else if \<not> ex (stl_of ft) then 404
            else fst (script_response ft zones (run (script_command ft zones))))"
    and "zones \<noteq> [] \<Longrightarrow> ex (stl_of ft) \<Longrightarrow>
           generate_slippers_route (Some kl) (Some kr) ex run f = script_response ft zones (run (script_command ft zones))"
proof -
  have pl: "py_lower ft = ft" using assms(3) by auto
  have v: "(ft \<noteq> ''left'' \<and> ft \<noteq> ''right'') = False" using assms(3) by auto
  from assms(4,5) obtain sz where sz: "size_field f = Some sz" "sz \<noteq> []" by auto
  show "fst (generate_slippers_route (Some kl) (Some kr) ex run f) =
           (if zones = [] then 400 else if \<not> ex (stl_of ft) then 404
            else fst (script_response ft zones (run (script_command ft zones))))"
    using assms(1,2,6) sz by (simp add: generate_slippers_route_def pl v)
  show "zones \<noteq> [] \<Longrightarrow> ex (stl_of ft) \<Longrightarrow>
           generate_slippers_route (Some kl) (Some kr) ex run f = script_response ft zones (run (script_command ft zones))"
    using assms(1,2,6) sz by (simp add: generate_slippers_route_def pl v)
qed

lemma route_reaches_script:
  assumes "generate_slippers_route (Some kl) (Some kr) ex run f = res" and "fst res \<notin> {400, 404}"
  obtains ft zones where "foot_field f = Some ft" "ft = ''left'' \<or> ft = ''right''" "ex (stl_of ft)"
    "distinct zones" "zones \<noteq> []" "set zones = py_upper ` set (areas f) \<inter> (if ft = ''left'' then kl else kr)"
    "res = script_response ft zones (run (script_command ft zones))"
proof -
  have valid: "\<not> (areas f = [] \<or> (foot_field f \<noteq> Some ''left'' \<and> foot_field f \<noteq> Some ''right'') \<or>
                   size_field f = None \<or> size_field f = Some [])"
  proof
    assume "areas f = [] \<or> (foot_field f \<noteq> Some ''left'' \<and> foot_field f \<noteq> Some ''right'') \<or>
            size_field f = None \<or> size_field f = Some []"
    then have "fst (generate_slippers_route (Some kl) (Some kr) ex run f) = 400" by (rule route_invalid)
    with assms show False by simp
  qed
  then obtain ft where ft: "foot_field f = Some ft" "ft = ''left'' \<or> ft = ''right''"
    by (cases "foot_field f") auto
  obtain zones unknown where mz: "map_areas (if ft = ''left'' then kl else kr) (areas f) = (zones, unknown)"
    by (cases "map_areas (if ft = ''left'' then kl else kr) (areas f)")
  note rv = route_valid [of f ft kl kr zones unknown ex run]
  from valid ft mz assms have nz: "zones \<noteq> []" and ex: "ex (stl_of ft)"
    using rv(1) by (auto split: if_splits)
  from valid ft mz nz ex have "res = script_response ft zones (run (script_command ft zones))"
    using rv(2) assms(1) by auto
  moreover have "distinct zones" "set zones = py_upper ` set (areas f) \<inter> (if ft = ''left'' then kl else kr)"
    using map_areas_props [of "if ft = ''left'' then kl else kr" "areas f"] mz by simp_all
  ultimately show ?thesis using that ft ex nz by blast
qed

text \<open>
  C27. Client errors: with the zone keys loaded, the route answers 400 exactly when no
  area was selected, the foot is neither left nor right, no size was given, or none of
  the selected areas is, upper-cased, a zone key of that foot.
\<close>

theorem route_client_errors:
  "fst (generate_slippers_route (Some kl) (Some kr) ex run f) = 400 \<longleftrightarrow>
     areas f = [] \<or> (foot_field f \<noteq> Some ''left'' \<and> foot_field f \<noteq> Some ''right'') \<or>
     size_field f = None \<or> size_field f = Some [] \<or>
     (\<forall>v \<in> set (areas f). py_upper v \<notin> (if foot_field f = Some ''left'' then kl else kr))"
proof (cases "areas f = [] \<or> (foot_field f \<noteq> Some ''left'' \<and> foot_field f \<noteq> Some ''right'') \<or>
              size_field f = None \<or> size_field f = Some []")
  case True
  have "fst (generate_slippers_route (Some kl) (Some kr) ex run f) = 400" by (rule route_invalid [OF True])
  with True show ?thesis by blast
next
  case False
  then obtain ft where ft: "foot_field f = Some ft" "ft = ''left'' \<or> ft = ''right''"
    by (cases "foot_field f") auto
  obtain zones unknown where mz: "map_areas (if ft = ''left'' then kl else kr) (areas f) = (zones, unknown)"
    by (cases "map_areas (if ft = ''left'' then kl else kr) (areas f)")
  from False ft mz have r: "fst (generate_slippers_route (Some kl) (Some kr) ex run f) =
           (if zones = [] then 400 else if \<not> ex (stl_of ft) then 404
            else fst (script_response ft zones (run (script_command ft zones))))"
    by (intro route_valid) simp_all
  have "zones = [] \<longleftrightarrow> (\<forall>v \<in> set (areas f). py_upper v \<notin> (if ft = ''left'' then kl else kr))"
    using map_areas_empty_iff [of "if ft = ''left'' then kl else kr" "areas f"] mz by simp
  moreover have "fst (script_response ft zones (run (script_command ft zones))) \<noteq> 400"
    using script_response_status [of ft zones "run (script_command ft zones)"] by auto
  ultimately show ?thesis using False ft r by auto
qed

theorem route_client_errors_witness:
  "fst (generate_slippers_route (Some {''HEART''}) (Some {}) (\<lambda>_. True) (\<lambda>_. Completed True)
         \<lparr>areas = [''liver''], foot_field = Some ''left'', size_field = Some ''8''\<rparr>) = 400"
proof -
  have "(\<forall>v \<in> set [''liver'']. py_upper v \<notin> {''HEART''})" by code_simp
  then show ?thesis
    using route_client_errors [of "{''HEART''}" "{}" "\<lambda>_. True" "\<lambda>_. Completed True"
                                  "\<lparr>areas = [''liver''], foot_field = Some ''left'', size_field = Some ''8''\<rparr>"]
    by simp
qed

text \<open>
  C28. A 200 response means: both key sets were loaded, the foot is left or right, its
  STL file exists, and the script ran to completion on exactly the selected areas that
  are zone keys, upper-cased, each once, in a non-empty list.
\<close>

theorem route_success:
  assumes "generate_slippers_route keys_left keys_right ex run f = (200, r)"
  shows "\<exists>ft kl kr zones. keys_left = Some kl \<and> keys_right = Some kr \<and> foot_field f = Some ft \<and>
           (ft = ''left'' \<or> ft = ''right'') \<and> ex (stl_of ft) \<and>
           run (script_command ft zones) = Completed True \<and> distinct zones \<and> zones \<noteq> [] \<and>
           set zones = py_upper ` set (areas f) \<inter> (if ft = ''left'' then kl else kr) \<and>
           r = RespSuccess (''Generation successful for '' @ ft @ '' foot. Processed zones: '' @ join_comma zones)
                           (output_name ft)"
proof -
  obtain kl kr where k: "keys_left = Some kl" "keys_right = Some kr"
    using assms by (cases keys_left; cases keys_right) (simp_all add: generate_slippers_route_def)
  from assms k have g: "generate_slippers_route (Some kl) (Some kr) ex run f = (200, r)" by simp
  obtain ft zones where ft: "foot_field f = Some ft" "ft = ''left'' \<or> ft = ''right''"
    "ex (stl_of ft)" "distinct zones" "zones \<noteq> []"
    "set zones = py_upper ` set (areas f) \<inter> (if ft = ''left'' then kl else kr)"
    and res: "(200, r) = script_response ft zones (run (script_command ft zones))"
    by (rule route_reaches_script [OF g]) auto
  from res have "run (script_command ft zones) = Completed True \<and>
      r = RespSuccess (''Generation successful for '' @ ft @ '' foot. Processed zones: '' @ join_comma zones)
                      (output_name ft)"
    by (simp add: script_response_def split: script_result.splits bool.splits)
  with k ft show ?thesis by blast
qed

theorem route_success_witness:
  "\<exists>zones. distinct zones \<and> set zones = {''HEART''} \<and>
     script_command ''left'' zones = [''generate_slippers.py'', ''--foot'', ''left'', ''--input'',
        ''Shoe_Sole_UK_8_Left.stl'', ''--output'', ''sole_with_spikes_left.ply''] @ zones"
proof -
  have r: "generate_slippers_route (Some {''HEART''}) (Some {}) (\<lambda>_. True) (\<lambda>_. Completed True)
             \<lparr>areas = [''heart'', ''x''], foot_field = Some ''left'', size_field = Some ''8''\<rparr> =
           (200, RespSuccess ''Generation successful for left foot. Processed zones: HEART'' ''sole_with_spikes_left.ply'')"
    by code_simp
  have u: "py_upper ''heart'' = ''HEART''" "py_upper ''x'' = ''X''" by code_simp+
  from route_success [OF r] obtain zones where
    "distinct zones" "set zones = py_upper ` set [''heart'', ''x''] \<inter> {''HEART''}" by auto
  moreover have "py_upper ` set [''heart'', ''x''] \<inter> {''HEART''} = {''HEART''}" by (simp add: u)
  ultimately show ?thesis by (auto simp: script_command_def stl_of_def output_name_def)
qed



text \<open>
  C37. The zone catalogue and the generate route agree: for a foot whose keys loaded,
  \<open>/get_available_zones\<close> offers every key once, in sorted order, and posting the whole
  offered list as \<open>areas\<close> maps every value to itself as a known zone, in the same
  order, with nothing unrecognised.
\<close>

theorem offered_zones_accepted:
  assumes "load_valid_zone_keys cfg = Some kl" and "get_available_zones (Some kl) kr = Some (offered, other)"
  shows "sorted offered \<and> distinct offered \<and> set offered = kl \<and> map_areas kl offered = (offered, [])"
proof -
  from assms(1) have fin: "finite kl" and up: "\<forall>k \<in> kl. py_upper k = k" by (auto dest: load_keys_upper)
  from assms(2) have o: "offered = sorted_list_of_set kl"
    by (auto simp: get_available_zones_def split: option.splits)
  have "set offered = kl" using fin o by simp
  moreover have "distinct offered" "sorted offered" using o by simp_all
  moreover have "map_areas kl offered = (offered, [])"
    using fold_map_area_fresh [of offered kl "[]" "[]"] \<open>set offered = kl\<close> \<open>distinct offered\<close> up
    by (simp add: map_areas_def)
  ultimately show ?thesis by blast
qed

theorem offered_zones_accepted_witness:
  "get_available_zones (Some {''HEART''}) (Some {}) = Some ([''HEART''], []) \<and>
   sorted [''HEART''] \<and> distinct [''HEART''] \<and> set [''HEART''] = {''HEART''} \<and>
   map_areas {''HEART''} [''HEART''] = ([''HEART''], [])"
proof -
  have k: "load_valid_zone_keys (ConfigLoaded (Some [Some ''Heart'', Some ''LEFT_FOOT_ORGANS'', None])) =
             Some {''HEART''}"
    by code_simp
  have g: "get_available_zones (Some {''HEART''}) (Some {}) = Some ([''HEART''], [])"
    by (simp add: get_available_zones_def)
  from offered_zones_accepted [OF k g] g show ?thesis by simp
qed

end
