(* ===== verification/Test_Harness.thy ===== *)
theory Test_Harness
  imports Placement
begin

text \<open>
  The stand-alone check \<open>test.py\<close>: it loads the annotation polygons into a dictionary
  keyed by category id (\<open>load_coco_annotations\<close>, lines 7--16), casts one vertical ray
  per polygon vertex with its own copy of the pixel-to-millimetre map (\<open>ray_casting\<close>,
  lines 19--53) and prints a success rate and a mean positional error for the zone
  \<open>'heart'\<close> (\<open>main\<close>, lines 56--77). Python's dictionary keys are dynamically typed;
  \<open>pykey\<close> keeps the two kinds the script uses apart. Loading the files (lines 9--10 and
  62) is I/O: the loaded sole and annotation document are the inputs. An exception of
  \<open>reshape\<close> is not caught and ends the script (\<open>None\<close>).
\<close>

datatype pykey = KInt int | KStr string

subsection \<open>Loading\<close>

text \<open>Lines 12--15, one annotation: \<open>polygons[ann['category_id']] = points\<close>.\<close>

definition load_polygon ::
  "(pykey \<times> polygon) list option \<Rightarrow> annotation \<Rightarrow> (pykey \<times> polygon) list option" where
  "load_polygon acc ann =
     (case acc of
        None \<Rightarrow> None
      | Some polys \<Rightarrow>
          (case parse_segmentation (segmentation ann) of
             None \<Rightarrow> None
           | Some pts \<Rightarrow> Some (AList.update (KInt (category_id ann)) pts polys)))"

text \<open>Lines 7--16: the polygons by category id, the image width and height.\<close>

definition load_coco_annotations :: "coco \<Rightarrow> ((pykey \<times> polygon) list \<times> real \<times> real) option" where
  "load_coco_annotations c =
     map_option (\<lambda>polys. (polys, img_w c, img_h c)) (fold (\<lambda>a acc. load_polygon acc a) (annotations c) (Some []))"

subsection \<open>Ray casting\<close>

text \<open>
  Lines 22--33: the ray origin of one pixel point, from the sole's least corner without
  the script's 10 mm margin, 10 mm above the top.
\<close>

definition test_origin :: "mesh \<Rightarrow> real \<Rightarrow> real \<Rightarrow> point2 \<Rightarrow> point3" where
  "test_origin m w h pt =
     (let b = mesh_bounds m;
          x_scale = (px (bmax b) - px (bmin b)) / w;
          y_scale = (py (bmax b) - py (bmin b)) / h
      in P3 (fst pt * x_scale + px (bmin b)) ((h - snd pt) * y_scale + py (bmin b)) (pz (bmax b) + 10))"

text \<open>
  Lines 39--41: \<open>intersects_location(..., multiple_hits=False)\<close>, at most one hit per
  ray, the first one along the ray: for a downward ray, the highest. The result pairs
  each hit with the index of its ray (\<open>index_ray\<close>).
\<close>

definition first_hits :: "caster \<Rightarrow> point3 list \<Rightarrow> (nat \<times> point3) list" where
  "first_hits cast origins =
     List.map_filter (\<lambda>(i, o'). map_option (Pair i) (top_hit (cast o'))) (enumerate 0 origins)"

text \<open>Lines 19--53: the locations, the success rate and the mean planar error.\<close>

definition ray_casting_test ::
  "mesh \<Rightarrow> caster \<Rightarrow> point2 list \<Rightarrow> real \<Rightarrow> real \<Rightarrow> point3 list \<times> real \<times> real" where
  "ray_casting_test m cast pts w h =
     (let origins = map (test_origin m w h) pts;
          hits = first_hits cast origins;
          success = (if origins \<noteq> [] then real (length hits) / real (length origins) * 100 else 0);
          errors = map (\<lambda>(i, loc). dist2 (px (origins ! i) - px loc) (py (origins ! i) - py loc)) hits
      in (map snd hits, success, if errors = [] then 0 else py_mean errors))"

subsection \<open>The script\<close>

datatype test_outcome =
    TestCrash
  | NoHeartZone
  | TestRan "point3 list \<times> real \<times> real"

text \<open>Lines 56--77, given the loaded sole, its ray caster and the annotation document.\<close>

definition test_main :: "mesh \<Rightarrow> caster \<Rightarrow> coco \<Rightarrow> test_outcome" where
  "test_main m cast c =
     (case load_coco_annotations c of
        None \<Rightarrow> TestCrash
      | Some (polys, w, h) \<Rightarrow>
          (case map_of polys (KStr ''heart'') of
             None \<Rightarrow> NoHeartZone
           | Some pts \<Rightarrow> if pts = [] then NoHeartZone else TestRan (ray_casting_test m cast pts w h)))"

subsection \<open>Lemmas\<close>

lemma fold_load_polygon_None: "fold (\<lambda>a acc. load_polygon acc a) anns None = None"
  by (induction anns) (simp_all add: load_polygon_def)

lemma fold_load_polygon_str:
  "fold (\<lambda>a acc. load_polygon acc a) anns (Some ps) = Some ps' \<Longrightarrow> map_of ps' (KStr s) = map_of ps (KStr s)"
proof (induction anns arbitrary: ps)
  case Nil
  then show ?case by simp
next
  case (Cons a anns)
  show ?case
  proof (cases "parse_segmentation (segmentation a)")
    case None
    then have "load_polygon (Some ps) a = None" by (simp add: load_polygon_def)
    with Cons.prems show ?thesis by (simp add: fold_load_polygon_None)
  next
    case (Some pts)
    with Cons.prems have "fold (\<lambda>a acc. load_polygon acc a) anns (Some (AList.update (KInt (category_id a)) pts ps)) = Some ps'"
      by (simp add: load_polygon_def)
    from Cons.IH [OF this] show ?thesis by (simp add: update_conv')
  qed
qed

text \<open>
  C29. \<open>test.py\<close> never tests anything: its dictionary of polygons is keyed by the
  integer category ids, and \<open>main\<close> looks up the string \<open>'heart'\<close>, so on every
  input it either crashes while loading or prints ``No heart zone found''.
\<close>

theorem test_main_never_tests: "test_main m cast c \<in> {TestCrash, NoHeartZone}"
proof (cases "fold (\<lambda>a acc. load_polygon acc a) (annotations c) (Some [])")
  case None
  then show ?thesis by (simp add: test_main_def load_coco_annotations_def)
next
  case (Some ps)
  then have "map_of ps (KStr ''heart'') = None" using fold_load_polygon_str [OF Some] by simp
  with Some show ?thesis by (simp add: test_main_def load_coco_annotations_def)
qed

text \<open>
  C30. The test's own copy of the pixel-to-millimetre map omits the script's 10 mm
  margin: every ray it casts is 10 mm off, in \<open>x\<close> and in \<open>y\<close>, from the ray the
  script casts for the same pixel.
\<close>

theorem test_origin_unmargined:
  "(px (test_origin m w h p), py (test_origin m w h p)) =
     (fst (map_2d_to_3d (make_mapper (mesh_bounds m) w h) p) - margin,
      snd (map_2d_to_3d (make_mapper (mesh_bounds m) w h) p) - margin)"
  by (simp add: test_origin_def map_2d_to_3d_def make_mapper_def Let_def)

lemma first_hits_on_ray:
  assumes "vertical_caster cast" and "(i, loc) \<in> set (first_hits cast origins)"
  shows "i < length origins \<and> px loc = px (origins ! i) \<and> py loc = py (origins ! i)"
proof -
  from assms(2) obtain o' where "(i, o') \<in> set (enumerate 0 origins)" and "top_hit (cast o') = Some loc"
    by (auto simp: first_hits_def mem_map_filter split: prod.splits)
  moreover from this have "i < length origins" "o' = origins ! i"
    by (auto simp: in_set_enumerate_eq)
  ultimately show ?thesis
    using assms(1) top_hit_in_set unfolding vertical_caster_def by blast
qed

text \<open>
  C31. The test's metrics: for a vertical ray caster its success rate lies between 0
  and 100 and its mean positional error is 0, whatever the points.
\<close>

theorem ray_casting_test_metrics:
  assumes "vertical_caster cast" and "ray_casting_test m cast pts w h = (locs, sr, err)"
  shows "err = 0 \<and> 0 \<le> sr \<and> sr \<le> 100"
proof -
  let ?os = "map (test_origin m w h) pts"
  let ?hs = "first_hits cast ?os"
  have len: "length ?hs \<le> length ?os"
    by (simp add: first_hits_def length_map_filter_le [where xs = "enumerate 0 ?os", simplified])
  have "\<forall>x \<in> set ?hs. (case x of (i, loc) \<Rightarrow> dist2 (px (?os ! i) - px loc) (py (?os ! i) - py loc)) = 0"
    using first_hits_on_ray [OF assms(1)] by auto
  then have e: "\<And>e. e \<in> set (map (\<lambda>(i, loc). dist2 (px (?os ! i) - px loc) (py (?os ! i) - py loc)) ?hs) \<Longrightarrow> e = 0"
    by auto
  from assms(2) have "err = (if ?hs = [] then 0
                             else py_mean (map (\<lambda>(i, loc). dist2 (px (?os ! i) - px loc) (py (?os ! i) - py loc)) ?hs))"
    and "sr = (if ?os \<noteq> [] then real (length ?hs) / real (length ?os) * 100 else 0)"
    by (auto simp: ray_casting_test_def Let_def)
  moreover have "py_mean (map (\<lambda>(i, loc). dist2 (px (?os ! i) - px loc) (py (?os ! i) - py loc)) ?hs) = 0"
    using e by (rule py_mean_zeros)
  moreover have "real (length ?hs) \<le> real (length ?os)" using len by simp
  ultimately show ?thesis by (auto simp: field_simps)
qed

theorem ray_casting_test_metrics_witness:
  "\<exists>locs sr. ray_casting_test \<lparr>vertices = [P3 0 0 0, P3 10 0 0, P3 0 10 0], faces = [(0, 1, 2)], vcolors = []\<rparr>
                (ray_hits \<lparr>vertices = [P3 0 0 0, P3 10 0 0, P3 0 10 0], faces = [(0, 1, 2)], vcolors = []\<rparr>)
                [(1, 1)] 10 10 = (locs, sr, 0)"
proof -
  obtain locs sr err where
    r: "ray_casting_test \<lparr>vertices = [P3 0 0 0, P3 10 0 0, P3 0 10 0], faces = [(0, 1, 2)], vcolors = []\<rparr>
          (ray_hits \<lparr>vertices = [P3 0 0 0, P3 10 0 0, P3 0 10 0], faces = [(0, 1, 2)], vcolors = []\<rparr>)
          [(1, 1)] 10 10 = (locs, sr, err)"
    by (rule prod_cases3)
  from ray_casting_test_metrics [OF ray_hits_vertical r] r show ?thesis by auto
qed

end
