(* ===== verification/Script_Main.thy ===== *)
theory Script_Main
  imports Metrics "HOL-Library.Sublist"
begin

text \<open>
  The top level of \<open>generate_slippers.py\<close> around the pipeline: the command line
  (lines 11--22), the checks and loads of the input files (lines 24--51), and the export
  of the combined mesh to a PLY file and an STL file (lines 249--259). The file system
  and the two loaders are the environment \<open>script_env\<close>; the process result is an
  exit status with the files the run wrote, in order.

  \<open>argparse\<close> is a library; \<open>parse_args\<close> models it for the parser of lines 12--16 on
  command lines of options followed by positionals, which is how the web front end
  calls the script: \<open>--name value\<close> options, a later occurrence overriding an earlier
  one, the \<open>choices\<close> of \<open>--foot\<close> checked when the option is read, the required
  options checked at the end, and every other token starting with \<open>-\<close> refused.
  Abbreviated option names, \<open>--name=value\<close>, \<open>-h\<close> and options after positionals are
  not modelled.
\<close>

subsection \<open>Python's \<open>str.replace\<close>\<close>

text \<open>
  \<open>s.replace(old, new)\<close>: every non-overlapping occurrence of \<open>old\<close>, from the left,
  replaced by \<open>new\<close>; an empty \<open>old\<close> inserts \<open>new\<close> before every character and at
  the end. The recursion drops a prefix of \<open>s\<close>, so it needs a measure.
\<close>

function py_replace :: "string \<Rightarrow> string \<Rightarrow> string \<Rightarrow> string" where
  "py_replace [] new s = new @ concat (map (\<lambda>c. c # new) s)"
| "py_replace (a # as) new [] = []"
| "py_replace (a # as) new (c # s) =
     (if take (length (a # as)) (c # s) = a # as
      then new @ py_replace (a # as) new (drop (length (a # as)) (c # s))
      else c # py_replace (a # as) new s)"
  by pat_completeness auto

termination
  by (relation "measure (\<lambda>(old, new, s). length s)") auto

subsection \<open>The command line\<close>

record cli_args =
  foot_arg :: string
  input_arg :: string
  output_arg :: "string option"
  zones_arg :: "string list"

text \<open>The errors \<open>argparse\<close> reports before exiting with status 2.\<close>

datatype arg_error =
    MissingValue string
  | BadChoice string
  | UnrecognizedArg string
  | MissingRequired "string list"

definition is_option :: "string \<Rightarrow> bool" where
  "is_option t \<longleftrightarrow> t \<noteq> [] \<and> hd t = CHR ''-'' \<and> t \<noteq> ''-''"

definition script_options :: "string list" where
  "script_options = [''--foot'', ''--input'', ''--output'']"

text \<open>
  The options in order of appearance with their values, then the positionals; the
  value of \<open>--foot\<close> must be one of its \<open>choices\<close> (line 13).
\<close>

fun parse_opts :: "string list \<Rightarrow> (string \<times> string) list \<Rightarrow> arg_error + (string \<times> string) list \<times> string list" where
  "parse_opts [] acc = Inr (acc, [])"
| "parse_opts (t # ts) acc =
     (if t \<in> set script_options then
        (case ts of
           [] \<Rightarrow> Inl (MissingValue t)
         | v # ts' \<Rightarrow>
             if is_option v then Inl (MissingValue t)
             else if t = ''--foot'' \<and> v \<notin> {''left'', ''right''} then Inl (BadChoice v)
             else parse_opts ts' (acc @ [(t, v)]))
      else if is_option t then Inl (UnrecognizedArg t)
      else (case filter is_option ts of
              [] \<Rightarrow> Inr (acc, t # ts)
            | u # _ \<Rightarrow> Inl (UnrecognizedArg u)))"

text \<open>The last value given for an option.\<close>

definition opt_value :: "(string \<times> string) list \<Rightarrow> string \<Rightarrow> string option" where
  "opt_value opts name = map_of (rev opts) name"

text \<open>Lines 12--17: \<open>args = parser.parse_args()\<close> on the arguments after the script name.\<close>

definition parse_args :: "string list \<Rightarrow> arg_error + cli_args" where
  "parse_args argv =
     (case parse_opts argv [] of
        Inl e \<Rightarrow> Inl e
      | Inr (opts, pos) \<Rightarrow>
          (let missing = filter (\<lambda>n. opt_value opts n = None) [''--foot'', ''--input'']
           in if missing \<noteq> [] then Inl (MissingRequired missing)
              else Inr \<lparr>foot_arg = the (opt_value opts ''--foot''), input_arg = the (opt_value opts ''--input''),
                        output_arg = opt_value opts ''--output'', zones_arg = pos\<rparr>))"

subsection \<open>The run\<close>

text \<open>
  What \<open>json.load\<close> of the annotation file and the reads of line 49--51 give: an
  exception of \<open>json.load\<close> (caught, line 45), a document without an image (an uncaught
  \<open>KeyError\<close> or \<open>IndexError\<close>), or the document.
\<close>

datatype json_load =
    JsonError
  | JsonNoImage
  | JsonOk coco

record script_env =
  file_exists :: "string \<Rightarrow> bool"
  load_mesh :: "string \<Rightarrow> mesh option"
  load_json :: "string \<Rightarrow> json_load"
  export_ok :: "string \<Rightarrow> bool"

text \<open>How a run ends: \<open>argparse\<close>'s exit, an exit with status 1, or success; with the files written so far.\<close>

datatype script_outcome =
    ArgFailure arg_error
  | ScriptFailure run_error "string list"
  | ScriptDone "string list" mesh report

definition exit_status :: "script_outcome \<Rightarrow> nat" where
  "exit_status r = (case r of ArgFailure _ \<Rightarrow> 2 | ScriptFailure _ _ \<Rightarrow> 1 | ScriptDone _ _ _ \<Rightarrow> 0)"

text \<open>Line 22: the default output name, taken also for an empty \<open>--output\<close> (\<open>args.output or ...\<close>).\<close>

definition default_output :: "string \<Rightarrow> string" where
  "default_output foot = ''sole_with_spikes_'' @ foot @ ''.ply''"

definition output_file :: "cli_args \<Rightarrow> string" where
  "output_file a =
     (case output_arg a of
        Some o' \<Rightarrow> if o' = [] then default_output (py_lower (foot_arg a)) else o'
      | None \<Rightarrow> default_output (py_lower (foot_arg a)))"

text \<open>Line 37: the annotation file of a foot.\<close>

definition annotation_path :: "string \<Rightarrow> string" where
  "annotation_path foot = (if foot = ''left'' then ''Left'' else ''Right'') @ ''_reflexology_zones.json''"

text \<open>Line 252: the STL name, \<open>output_file.replace('.ply', '.stl')\<close>.\<close>

definition stl_output :: "string \<Rightarrow> string" where
  "stl_output out = py_replace ''.ply'' ''.stl'' out"

text \<open>
  Lines 249--259: export to the output file, then to the STL name; an exception of either
  export ends the run with status 1, after the files already written.
\<close>

definition export_both :: "script_env \<Rightarrow> string \<Rightarrow> mesh \<Rightarrow> report \<Rightarrow> script_outcome" where
  "export_both env out m r =
     (if \<not> export_ok env out then ScriptFailure ExportFailure []
      else if \<not> export_ok env (stl_output out) then ScriptFailure ExportFailure [out]
      else ScriptDone [out, stl_output out] m r)"

text \<open>The whole script: lines 11--51, the pipeline (\<open>generate\<close>) and the export.\<close>

definition script_main :: "script_env \<Rightarrow> string list \<Rightarrow> script_outcome" where
  "script_main env argv =
     (case parse_args argv of
        Inl e \<Rightarrow> ArgFailure e
      | Inr a \<Rightarrow>
          (let foot = py_lower (foot_arg a)
           in if \<not> file_exists env (input_arg a) then ScriptFailure InputNotFound []
              else
                (case load_mesh env (input_arg a) of
                   None \<Rightarrow> ScriptFailure LoadError []
                 | Some sole \<Rightarrow>
                     if \<not> file_exists env (annotation_path foot) then ScriptFailure AnnotationNotFound []
                     else
                       (case load_json env (annotation_path foot) of
                          JsonError \<Rightarrow> ScriptFailure AnnotationLoadError []
                        | JsonNoImage \<Rightarrow> ScriptFailure MalformedAnnotations []
                        | JsonOk c \<Rightarrow>
                            (case generate sole c (zones_arg a) of
                               Inl e \<Rightarrow> ScriptFailure e []
                             | Inr (m, r) \<Rightarrow> export_both env (output_file a) m r)))))"

subsection \<open>Lemmas\<close>

lemma py_replace_length:
  "length (py_replace old new s) \<le> length s + (length s + 1) * length new"
proof (induction old new s rule: py_replace.induct)
  case (1 new s)
  have "length (concat (map (\<lambda>c. c # new) s)) = length s * Suc (length new)"
    by (induction s) simp_all
  then show ?case by simp
next
  case (2 a as new)
  then show ?case by simp
next
  case (3 a as new c s)
  show ?case
  proof (cases "take (length (a # as)) (c # s) = a # as")
    case True
    then have "length (drop (length (a # as)) (c # s)) \<le> length s" by simp
    with 3(1) [OF True] True show ?thesis by (simp add: algebra_simps)
  next
    case False
    then have "py_replace (a # as) new (c # s) = c # py_replace (a # as) new s"
      by (simp only: py_replace.simps(3) if_False)
    with 3(2) [OF False] show ?thesis by simp
  qed
qed


lemma py_replace_skip:
  assumes "old \<noteq> []" and "take (length old) (c # s) \<noteq> old"
  shows "py_replace old new (c # s) = c # py_replace old new s"
  using assms by (cases old) (simp_all del: take_Suc_Cons)

lemma py_replace_no_occurrence:
  "old \<noteq> [] \<Longrightarrow> \<not> sublist old s \<Longrightarrow> py_replace old new s = s"
proof (induction old new s rule: py_replace.induct)
  case (1 new s)
  then show ?case by simp
next
  case (2 a as new)
  then show ?case by simp
next
  case (3 a as new c s)
  have np: "take (length (a # as)) (c # s) \<noteq> a # as"
    using "3.prems"(2) by (metis prefix_def append_take_drop_id prefix_imp_sublist)
  moreover have "\<not> sublist (a # as) s" using "3.prems"(2) by (auto simp: sublist_Cons_right)
  ultimately show ?case using "3.IH"(2) py_replace_skip [of "a # as" c s new] by simp
qed

lemma take4_ply:
  assumes a: "take (length ''.ply'') (c # b @ ''.ply'') = ''.ply''"
  shows "sublist ''.ply'' (c # b)"
proof -
  have t4: "take 4 (c # b @ ''.ply'') = ''.ply''" using a by (simp add: numeral_eq_Suc)
  show ?thesis
  proof (cases "length b < 3")
    case True
    then have "b = [] \<or> (\<exists>x. b = [x]) \<or> (\<exists>x y. b = [x, y])"
      by (auto simp: length_Suc_conv numeral_eq_Suc less_Suc_eq)
    with t4 show ?thesis by auto
  next
    case False
    then have "take 4 (c # b @ ''.ply'') = take 4 (c # b)" by simp
    with t4 have "prefix ''.ply'' (c # b)" by (metis prefix_def append_take_drop_id)
    then show ?thesis by (rule prefix_imp_sublist)
  qed
qed

text \<open>
  C10. The STL name of an output name ending in \<open>.ply\<close> (and containing it nowhere
  else) is that name with \<open>.stl\<close> for \<open>.ply\<close>: the default names of line 22 give
  \<open>sole_with_spikes_left.stl\<close> and \<open>sole_with_spikes_right.stl\<close>.
\<close>

theorem stl_output_suffix: "\<not> sublist ''.ply'' b \<Longrightarrow> stl_output (b @ ''.ply'') = b @ ''.stl''"
proof (induction b)
  case Nil
  then show ?case by (simp add: stl_output_def)
next
  case (Cons c b)
  have "\<not> sublist ''.ply'' b" using Cons.prems by (auto simp: sublist_Cons_right)
  with Cons.IH have ih: "py_replace ''.ply'' ''.stl'' (b @ ''.ply'') = b @ ''.stl''" by (simp add: stl_output_def)
  from Cons.prems have t: "take (length ''.ply'') (c # b @ ''.ply'') \<noteq> ''.ply''" using take4_ply by blast
  have "stl_output ((c # b) @ ''.ply'') = c # py_replace ''.ply'' ''.stl'' (b @ ''.ply'')"
    unfolding stl_output_def append_Cons by (rule py_replace_skip [OF _ t]) simp
  with ih show ?case by simp
qed

theorem stl_output_suffix_witness: "stl_output ''sole_with_spikes_left.ply'' = ''sole_with_spikes_left.stl''"
proof -
  have "\<not> sublist ''.ply'' ''sole_with_spikes_left''" by code_simp
  from stl_output_suffix [OF this] show ?thesis by simp
qed

lemma script_main_DoneD:
  "script_main env argv = ScriptDone files m r \<Longrightarrow>
     \<exists>a. parse_args argv = Inr a \<and> files = [output_file a, stl_output (output_file a)]"
  by (auto simp: script_main_def export_both_def Let_def
           split: sum.splits option.splits json_load.splits prod.splits if_splits)


text \<open>
  C8. A failed run writes nothing, except when the STL export fails: the run then exits
  with status 1 after writing the PLY output, the half-finished result the spec says to
  avoid.
\<close>

theorem export_failure_leaves_file:
  assumes "script_main env argv = ScriptFailure e files" and "files \<noteq> []"
  shows "e = ExportFailure \<and>
         (\<exists>a. parse_args argv = Inr a \<and> files = [output_file a] \<and>
              export_ok env (output_file a) \<and> \<not> export_ok env (stl_output (output_file a)))"
  using assms
  by (auto simp: script_main_def export_both_def Let_def
           split: sum.splits option.splits json_load.splits prod.splits if_splits)

text \<open>
  C34. An \<open>--output\<close> name without \<open>.ply\<close> is its own STL name: a successful run
  exports twice to the same file, the STL export overwriting the first, and no PLY
  file is produced although the script reports one.
\<close>

theorem non_ply_output_written_twice:
  assumes "script_main env argv = ScriptDone files m r" and "\<not> sublist ''.ply'' (hd files)"
  shows "files = [hd files, hd files]"
proof -
  from assms(1) obtain a where f: "files = [output_file a, stl_output (output_file a)]"
    using script_main_DoneD by blast
  with assms(2) have "stl_output (output_file a) = output_file a"
    by (simp add: stl_output_def py_replace_no_occurrence)
  with f show ?thesis by simp
qed

text \<open>
  C35. Progress of the script: once the arguments parse, the sole exists, loads and
  has vertices, and the foot's annotation file exists and loads, the run always gets
  to the export of line 249 with the pipeline's mesh and report, provided no zone was
  named or one of the named zones is a category of the file.
\<close>

theorem script_reaches_export:
  assumes "parse_args argv = Inr a" and "file_exists env (input_arg a)"
    and "load_mesh env (input_arg a) = Some sole" and "vertices sole \<noteq> []"
    and "file_exists env (annotation_path (py_lower (foot_arg a)))"
    and "load_json env (annotation_path (py_lower (foot_arg a))) = JsonOk c"
    and "zones_arg a = [] \<or> (\<exists>z \<in> set (zones_arg a). py_lower z \<in> py_lower ` cat_name ` set (categories c))"
  shows "\<exists>m r. generate sole c (zones_arg a) = Inr (m, r) \<and> script_main env argv = export_both env (output_file a) m r"
proof -
  have "\<nexists>e. resolve_selection (categories c) (zones_arg a) = Inl e"
    using assms(7) by (auto simp: resolve_selection_error_iff)
  then obtain ids unknown where "resolve_selection (categories c) (zones_arg a) = Inr (ids, unknown)"
    by (metis sumE surj_pair)
  then obtain m r where g: "generate sole c (zones_arg a) = Inr (m, r)"
    using assms(4) by (simp add: generate_def run_placement_def)
  then have "script_main env argv = export_both env (output_file a) m r"
    using assms(1-6) by (simp add: script_main_def)
  with g show ?thesis by blast
qed

end
