(* ===== verification/Web_Pipeline.thy ===== *)
theory Web_Pipeline
  imports App_Request Script_Main
begin

text \<open>
  The web front end and the script together: \<open>subprocess.run(command, check=True, ...)\<close>
  of \<open>app.py\<close> (lines 118--123 and 138) with \<open>generate_slippers.py\<close> as the child
  process. The child's argument vector is the command after the script name; exit status
  0 is \<open>Completed\<close>, with the route's existence test of the output file (line 123) on
  the file the command names after \<open>--output\<close> (position 6 of the route's command,
  line 114), which exists when the run wrote it or it was there before; any other
  status is a \<open>CalledProcessError\<close> whose captured stderr \<open>err\<close> is not modelled.
\<close>

definition script_subprocess :: "script_env \<Rightarrow> string \<Rightarrow> string list \<Rightarrow> script_result" where
  "script_subprocess env err cmd =
     (case script_main env (tl cmd) of
        ScriptDone files m r \<Rightarrow> Completed (cmd ! 6 \<in> set files \<or> file_exists env (cmd ! 6))
      | _ \<Rightarrow> ExitFailure err [])"

subsection \<open>Lemmas\<close>

lemma parse_opts_positionals:
  "\<forall>z \<in> set zones. \<not> is_option z \<Longrightarrow> parse_opts zones acc = Inr (acc, zones)"
  by (cases zones) (auto simp: script_options_def filter_empty_conv is_option_def)

lemma route_names_not_options:
  assumes "ft = ''left'' \<or> ft = ''right''"
  shows "\<not> is_option ft" "\<not> is_option (stl_of ft)" "\<not> is_option (output_name ft)"
    "ft \<notin> set script_options" "stl_of ft \<notin> set script_options" "output_name ft \<notin> set script_options"
  using assms by (auto simp: is_option_def stl_of_def output_name_def script_options_def)

lemma parse_script_command:
  assumes "ft = ''left'' \<or> ft = ''right''" and "\<forall>z \<in> set zones. \<not> is_option z"
  shows "parse_args (tl (script_command ft zones)) =
           Inr \<lparr>foot_arg = ft, input_arg = stl_of ft, output_arg = Some (output_name ft), zones_arg = zones\<rparr>"
proof -
  note n = route_names_not_options [OF assms(1)]
  have "parse_opts (tl (script_command ft zones)) [] =
          Inr ([(''--foot'', ft), (''--input'', stl_of ft), (''--output'', output_name ft)], zones)"
    using assms n by (simp add: script_command_def script_options_def parse_opts_positionals)
  then show ?thesis by (simp add: parse_args_def opt_value_def)
qed

lemma script_subprocess_route:
  assumes "ft = ''left'' \<or> ft = ''right''" and "\<forall>z \<in> set zones. \<not> is_option z"
  shows "script_subprocess env err (script_command ft zones) =
           (case script_main env (tl (script_command ft zones)) of
              ScriptDone _ _ _ \<Rightarrow> Completed True | _ \<Rightarrow> ExitFailure err [])"
proof (cases "script_main env (tl (script_command ft zones))")
  case (ScriptDone files m r)
  from script_main_DoneD [OF this] parse_script_command [OF assms]
  have "files = [output_name ft, stl_output (output_name ft)]"
    by (auto simp: output_file_def output_name_def)
  moreover have "script_command ft zones ! 6 = output_name ft" by (simp add: script_command_def)
  ultimately show ?thesis using ScriptDone by (simp add: script_subprocess_def)
qed (simp_all add: script_subprocess_def)

text \<open>
  C32. End to end: when the route, running the script as its subprocess, answers 200,
  the script ran on the chosen foot and zones and exported
  \<open>sole_with_spikes_<foot>.ply\<close> and its STL twin (zone keys never look like options).
\<close>

theorem web_success_runs_script:
  assumes "generate_slippers_route (Some kl) (Some kr) ex (script_subprocess env err) f = (200, r)"
    and "\<forall>k \<in> kl \<union> kr. \<not> is_option k"
  shows "\<exists>ft zones m rep. foot_field f = Some ft \<and>
           script_main env (tl (script_command ft zones)) = ScriptDone [output_name ft, stl_output (output_name ft)] m rep"
proof -
  obtain ft zones where ft: "foot_field f = Some ft" "ft = ''left'' \<or> ft = ''right''"
    and zs: "set zones = py_upper ` set (areas f) \<inter> (if ft = ''left'' then kl else kr)"
    and res: "(200, r) = script_response ft zones (script_subprocess env err (script_command ft zones))"
    by (rule route_reaches_script [OF assms(1)]) auto
  have nz: "\<forall>z \<in> set zones. \<not> is_option z" using zs assms(2) by auto
  from res obtain files m rep where sd: "script_main env (tl (script_command ft zones)) = ScriptDone files m rep"
    by (auto simp: script_subprocess_route [OF ft(2) nz] script_response_def split: script_outcome.splits)
  from script_main_DoneD [OF sd] parse_script_command [OF ft(2) nz]
  have "files = [output_name ft, stl_output (output_name ft)]"
    by (auto simp: output_file_def output_name_def)
  with ft sd show ?thesis by blast
qed

text \<open>
  C9. With the script as the subprocess, the route's answer ``Script ran but output
  PLY file was not created'' (line 125) never occurs: a run that exits with status 0
  has always written the file the route asked for.
\<close>

theorem web_missing_output_unreachable:
  assumes "\<forall>k \<in> kl \<union> kr. \<not> is_option k"
  shows "generate_slippers_route (Some kl) (Some kr) ex (script_subprocess env err) f \<noteq>
           (500, RespError ''Script ran but output PLY file was not created.'')"
proof
  assume a: "generate_slippers_route (Some kl) (Some kr) ex (script_subprocess env err) f =
               (500, RespError ''Script ran but output PLY file was not created.'')"
  obtain ft zones where ft: "ft = ''left'' \<or> ft = ''right''"
    and zs: "set zones = py_upper ` set (areas f) \<inter> (if ft = ''left'' then kl else kr)"
    and res: "(500, RespError ''Script ran but output PLY file was not created.'') =
                script_response ft zones (script_subprocess env err (script_command ft zones))"
    by (rule route_reaches_script [OF a]) auto
  have nz: "\<forall>z \<in> set zones. \<not> is_option z" using zs assms by auto
  from res show False
    by (auto simp: script_subprocess_route [OF ft nz] script_response_def split: script_outcome.splits)
qed

end
