(* ===== verification/Spec2Isabelle.thy ===== *)
theory Spec2Isabelle
  imports Metrics App_Request Test_Harness Web_Pipeline
begin

text \<open>
  A verification library for the reflexology-slipper generator: the script
  \<open>src/generate_slippers.py\<close>, which places dome-shaped bumps on a scanned shoe sole
  under the zones annotated on a flat image of it; the Flask front end \<open>src/app.py\<close>,
  which validates a web form and runs the script as a subprocess; and the stand-alone
  check \<open>src/test.py\<close>. Every operation is an executable HOL function, floats are
  reals, errors are values of \<open>run_error\<close>, \<open>arg_error\<close> or \<open>script_outcome\<close>,
  and the mutable globals of the script are the record \<open>run_state\<close>, passed explicitly.

  \<^bold>\<open>The parts and the theories.\<close> The pipeline is layered as the script runs it:
  \<^item> \<open>Slipper_Prelude\<close>: the shared types, the script's fatal errors \<open>run_error\<close>,
    Python's \<open>str.lower\<close>/\<open>str.upper\<close> on ASCII, \<open>np.arange\<close>, \<open>np.mean\<close>, \<open>np.std\<close>
    and the Euclidean norms, with their generic lemmas.
  \<^item> \<open>Coord_Mapper\<close>: lines 70--80 (\<open>make_mapper\<close>, \<open>map_2d_to_3d\<close>) and the inverse
    of lines 238--239 (\<open>unmap_3d_to_2d\<close>).
  \<^item> \<open>Zone_Sampler\<close>: the segmentation parse of line 172, the bounding box and grid of
    lines 175--180, and matplotlib's even-odd \<open>contains_point\<close> (a library, modelled
    from spec 4.3).
  \<^item> \<open>Zone_Select\<close>: the category map and the selection of lines 53--68, with the
    fatal no-match exit, and the per-annotation lookups of lines 157--166.
  \<^item> \<open>Mesh_Compositor\<close>: the mesh record and \<open>trimesh.util.concatenate\<close> (line 251),
    refined against the triangle soup it denotes.
  \<^item> \<open>Surface_Locator\<close>: the vertical ray of lines 183--192; trimesh's ray-triangle
    test is modelled from spec 4.2 (\<open>tri_hit\<close>).
  \<^item> \<open>Bump_Synth\<close>: \<open>create_ellipsoid_bump\<close> (lines 82--99), the colour table
    (lines 107--139) and the placement of lines 198--200.
  \<^item> \<open>Placement\<close>: the loop of lines 141--211 as \<open>place_sample\<close>,
    \<open>process_annotation\<close> and \<open>run_annotations\<close> over \<open>run_state\<close>, the set-up as
    \<open>run_placement\<close>, and the inductive \<open>reachable\<close> relation of its states.
  \<^item> \<open>Metrics\<close>: lines 213--247 (success rate, error statistics, spacing, accuracy,
    per-zone counts) and \<open>generate\<close>, the merged mesh with its report.
  \<^item> \<open>Script_Main\<close>: the command line (lines 11--22, \<open>parse_args\<close>), the checks and
    loads of lines 24--51 and the two exports of lines 249--259, as \<open>script_main\<close>
    over an environment record \<open>script_env\<close> of the file system and the loaders.
  \<^item> \<open>App_Request\<close>: \<open>load_valid_zone_keys\<close>, the \<open>/generate_slippers\<close> route with
    the subprocess outcome as a parameter (\<open>generate_slippers_route\<close>,
    \<open>script_response\<close>) and the \<open>/get_available_zones\<close> catalogue.
  \<^item> \<open>Web_Pipeline\<close>: the route with \<open>script_main\<close> itself as the subprocess
    (\<open>script_subprocess\<close>), the composition of the two programs.
  \<^item> \<open>Test_Harness\<close>: \<open>test.py\<close>'s loader, ray casting and \<open>main\<close>.
  \<^item> This theory: a concrete run (a flat square sole, a one-zone annotation file, the
    script environments \<open>heart_env\<close> and \<open>stl_fail_env\<close>), the properties of a whole
    run, and the witnesses that span components.

  \<^bold>\<open>What the lemmas show.\<close> Each component theory proves the functional behaviour of
  its operations on every branch, errors included, and its own claims: the tie-break of
  the surface locator, the mapper round trip, the boundary policy and sample count of
  the grid, the refinement of \<open>concatenate\<close>, the no-match error and the
  nearest-neighbour loop against its reference minimum. \<open>Placement\<close> proves, by rule
  induction over \<open>reachable\<close> with the rule \<open>reachable_induct_preserved\<close>, the
  invariants every reachable state keeps (counters, bumps above their surface points,
  bump shapes, zero errors, byte colours); this theory lifts them to every run and
  adds accuracy, per-zone counts and success-rate facts. \<open>Script_Main\<close> proves when the
  script succeeds, that it always reaches the export once its inputs load, what it
  leaves behind when an export fails, and how \<open>str.replace\<close> names the STL file.
  \<open>App_Request\<close> and \<open>Web_Pipeline\<close> prove the route's 400 and 200 answers, that the
  zones it accepts resolve in the script and the zones it offers are accepted, the
  round trip of the script's command line through \<open>parse_args\<close>, and that a 200
  answer means the script exported both files.

  \<^bold>\<open>Bounds and termination.\<close> No loop of the program can run forever: the loops
  are over finite lists and are structural recursions or folds, and the one
  non-structural recursion, \<open>py_replace\<close>, terminates by the length of the string it
  scans (proved as its domain being everything). No fuel is needed. The concrete run
  is small (a sole of two triangles, a zone of two grid samples) so that \<open>code_simp\<close>
  evaluates it; machine integers do not occur in the program's arithmetic, which is on
  Python floats (reals here) and unbounded ints.

  \<^bold>\<open>Not modelled.\<close> The routes \<open>/\<close> and \<open>/get_stl\<close>, the \<open>__main__\<close> block of
  \<open>app.py\<close> and every debug print are I/O with no program state. The printed report
  (lines 255 and 261--268) is not modelled as text: its values are the fields of
  \<open>report\<close>. trimesh's file readers and writers, \<open>json\<close> and \<open>os\<close> are the environment
  \<open>script_env\<close>; \<open>argparse\<close> is modelled only for options followed by positionals,
  without abbreviations, \<open>--name=value\<close> or \<open>-h\<close>; the captured stderr of a failed
  subprocess is a parameter. Floating-point rounding is not modelled.
\<close>

section \<open>A concrete run\<close>

text \<open>
  A flat 100 mm square sole at height 5 (two triangles) and an annotation file with a
  10 \<open>\<times>\<close> 10 pixel image and one square zone ``Heart'': the input the witnesses
  of the run-level properties evaluate.
\<close>

definition flat_sole :: mesh where
  "flat_sole =
     \<lparr>vertices = [P3 0 0 5, P3 100 0 5, P3 100 100 5, P3 0 100 5],
      faces = [(0, 1, 2), (0, 2, 3)], vcolors = []\<rparr>"

definition heart_ann :: annotation where
  "heart_ann = \<lparr>ann_id = 7, category_id = 1, segmentation = [[0, 0, 10, 0, 10, 10, 0, 10]]\<rparr>"

text \<open>A second zone, right of the image, whose samples all map beyond the sole's edge.\<close>

definition far_ann :: annotation where
  "far_ann = \<lparr>ann_id = 8, category_id = 1, segmentation = [[10, 0, 20, 0, 20, 10, 10, 10]]\<rparr>"

definition heart_coco :: coco where
  "heart_coco =
     \<lparr>img_w = 10, img_h = 10, categories = [\<lparr>cat_id = 1, cat_name = ''Heart''\<rparr>],
      annotations = [heart_ann]\<rparr>"

text \<open>The same file with a second annotation of the same zone after the first.\<close>

definition dup_coco :: coco where
  "dup_coco = heart_coco\<lparr>annotations := [heart_ann, far_ann]\<rparr>"

text \<open>The states the placement loop ends in on these inputs, with \<open>--zones heart\<close>.\<close>

definition heart_state :: run_state where
  "heart_state =
     run_annotations (run_ctx_of flat_sole heart_coco [1]) [heart_ann]
       ((init_state flat_sole [\<lparr>cat_id = 1, cat_name = ''Heart''\<rparr>])\<lparr>warnings := []\<rparr>)"

definition dup_state :: run_state where
  "dup_state =
     run_annotations (run_ctx_of flat_sole heart_coco [1]) [heart_ann, far_ann]
       ((init_state flat_sole [\<lparr>cat_id = 1, cat_name = ''Heart''\<rparr>])\<lparr>warnings := []\<rparr>)"

text \<open>Script environments: every file present and loading, every export succeeding, or only the STL export of \<open>out.stl\<close> failing.\<close>

definition heart_env :: script_env where
  "heart_env = \<lparr>file_exists = \<lambda>_. True, load_mesh = \<lambda>_. Some flat_sole,
                 load_json = \<lambda>_. JsonOk heart_coco, export_ok = \<lambda>_. True\<rparr>"

definition stl_fail_env :: script_env where
  "stl_fail_env = heart_env\<lparr>export_ok := \<lambda>n. n \<noteq> ''out.stl''\<rparr>"

subsection \<open>Evaluation of the concrete run\<close>

lemma flat_sole_sel [simp]:
  "vertices flat_sole = [P3 0 0 5, P3 100 0 5, P3 100 100 5, P3 0 100 5]"
  "faces flat_sole = [(0, 1, 2), (0, 2, 3)]"
  by (simp_all add: flat_sole_def)

lemma heart_coco_sel [simp]:
  "img_w heart_coco = 10" "img_h heart_coco = 10"
  "categories heart_coco = [\<lparr>cat_id = 1, cat_name = ''Heart''\<rparr>]"
  "annotations heart_coco = [heart_ann]"
  by (simp_all add: heart_coco_def)

lemma heart_ann_sel [simp]:
  "ann_id heart_ann = 7" "category_id heart_ann = 1"
  "segmentation heart_ann = [[0, 0, 10, 0, 10, 10, 0, 10]]"
  by (simp_all add: heart_ann_def)

lemma flat_sole_bounds: "mesh_bounds flat_sole = \<lparr>bmin = P3 0 0 5, bmax = P3 100 100 5\<rparr>"
  by (simp add: mesh_bounds_def)

lemma heart_ctx:
  "run_ctx_of flat_sole heart_coco ids =
     \<lparr>ctx_mapper = \<lparr>origin_x = 10, origin_y = 10, x_scale = 10, y_scale = 10,
                    img_width = 10, img_height = 10\<rparr>,
      ctx_top = 5, ctx_cast = ray_hits flat_sole,
      ctx_cats = [\<lparr>cat_id = 1, cat_name = ''Heart''\<rparr>], ctx_ids = ids\<rparr>"
  by (simp add: run_ctx_of_def flat_sole_bounds top_z_def make_mapper_def margin_def)

lemma heart_resolution:
  "resolve_selection [\<lparr>cat_id = 1, cat_name = ''Heart''\<rparr>] [''heart''] = Inr ([1], [])"
  by code_simp

lemma heart_run: "run_placement flat_sole heart_coco [''heart''] = Inr heart_state"
  using heart_resolution by (simp add: run_placement_def heart_state_def)

lemma dup_run: "run_placement flat_sole dup_coco [''heart''] = Inr dup_state"
  using heart_resolution by (simp add: run_placement_def dup_state_def dup_coco_def run_ctx_of_def)

lemma heart_zone: "zone_name_of [\<lparr>cat_id = 1, cat_name = ''Heart''\<rparr>] 1 = Some ''heart''"
  by code_simp

lemma heart_zone_samples: "zone_samples [(0, 0), (10, 0), (10, 10), (0, 10)] = [(0, 5), (5, 5)]"
  by code_simp

lemma heart_samples:
  "ann_samples (run_ctx_of flat_sole heart_coco ids) heart_ann =
     (if ann_selected ids 1 then [(0, 5), (5, 5)] else [])"
  by (simp add: ann_samples_def ann_zone_def heart_ctx heart_zone parse_segmentation_def
                heart_zone_samples del: zone_name_of.simps)

lemma flat_sole_rays:
  "ray_hits flat_sole (P3 10 60 15) = [P3 10 60 5]"
  "ray_hits flat_sole (P3 60 60 15) = [P3 60 60 5, P3 60 60 5]"
  "ray_hits flat_sole (P3 110 60 15) = []"
  "ray_hits flat_sole (P3 160 60 15) = []"
  by code_simp+

lemma heart_hits:
  "sample_hit (run_ctx_of flat_sole heart_coco ids) (0, 5) = Some (P3 10 60 5)"
  "sample_hit (run_ctx_of flat_sole heart_coco ids) (5, 5) = Some (P3 60 60 5)"
  by (simp_all add: sample_hit_def heart_ctx map_2d_to_3d_def locate_surface_def ray_origin_def
                    ray_clearance_def flat_sole_rays)

lemma far_ann_sel [simp]:
  "ann_id far_ann = 8" "category_id far_ann = 1"
  "segmentation far_ann = [[10, 0, 20, 0, 20, 10, 10, 10]]"
  by (simp_all add: far_ann_def)

lemma far_zone_samples: "zone_samples [(10, 0), (20, 0), (20, 10), (10, 10)] = [(10, 5), (15, 5)]"
  by code_simp

lemma far_misses:
  "sample_hit (run_ctx_of flat_sole heart_coco ids) (10, 5) = None"
  "sample_hit (run_ctx_of flat_sole heart_coco ids) (15, 5) = None"
  by (simp_all add: sample_hit_def heart_ctx map_2d_to_3d_def locate_surface_def ray_origin_def
                    ray_clearance_def flat_sole_rays)

lemma heart_ann_facts:
  "ann_samples (run_ctx_of flat_sole heart_coco [1]) heart_ann = [(0, 5), (5, 5)]"
  "ann_hits (run_ctx_of flat_sole heart_coco [1]) heart_ann = [P3 10 60 5, P3 60 60 5]"
  "ann_zone (run_ctx_of flat_sole heart_coco [1]) heart_ann = Some ''heart''"
  "ann_path (run_ctx_of flat_sole heart_coco [1]) heart_ann = Some (''heart'', [(0, 0), (10, 0), (10, 10), (0, 10)])"
  "ann_warnings (run_ctx_of flat_sole heart_coco [1]) heart_ann = []"
proof -
  show s: "ann_samples (run_ctx_of flat_sole heart_coco [1]) heart_ann = [(0, 5), (5, 5)]"
    by (simp add: heart_samples ann_selected_def)
  show "ann_hits (run_ctx_of flat_sole heart_coco [1]) heart_ann = [P3 10 60 5, P3 60 60 5]"
    unfolding ann_hits_def s by (simp add: heart_hits)
  show z: "ann_zone (run_ctx_of flat_sole heart_coco [1]) heart_ann = Some ''heart''"
    by (simp add: ann_zone_def heart_ctx heart_zone del: zone_name_of.simps)
  show "ann_path (run_ctx_of flat_sole heart_coco [1]) heart_ann = Some (''heart'', [(0, 0), (10, 0), (10, 10), (0, 10)])"
    by (simp add: ann_path_def z parse_segmentation_def ann_selected_def)
  show "ann_warnings (run_ctx_of flat_sole heart_coco [1]) heart_ann = []"
    by (simp add: ann_warnings_def z parse_segmentation_def ann_selected_def heart_zone_samples)
qed

lemma far_samples:
  "ann_samples (run_ctx_of flat_sole heart_coco ids) far_ann = (if ann_selected ids 1 then [(10, 5), (15, 5)] else [])"
  by (simp add: ann_samples_def ann_zone_def heart_ctx heart_zone parse_segmentation_def
                far_zone_samples del: zone_name_of.simps)

lemma far_ann_facts:
  "ann_samples (run_ctx_of flat_sole heart_coco [1]) far_ann = [(10, 5), (15, 5)]"
  "ann_hits (run_ctx_of flat_sole heart_coco [1]) far_ann = []"
  "ann_zone (run_ctx_of flat_sole heart_coco [1]) far_ann = Some ''heart''"
  "ann_path (run_ctx_of flat_sole heart_coco [1]) far_ann = Some (''heart'', [(10, 0), (20, 0), (20, 10), (10, 10)])"
  "ann_warnings (run_ctx_of flat_sole heart_coco [1]) far_ann = []"
proof -
  show s: "ann_samples (run_ctx_of flat_sole heart_coco [1]) far_ann = [(10, 5), (15, 5)]"
    by (simp add: far_samples ann_selected_def)
  show "ann_hits (run_ctx_of flat_sole heart_coco [1]) far_ann = []"
    unfolding ann_hits_def s by (simp add: far_misses)
  show z: "ann_zone (run_ctx_of flat_sole heart_coco [1]) far_ann = Some ''heart''"
    by (simp add: ann_zone_def heart_ctx heart_zone del: zone_name_of.simps)
  show "ann_path (run_ctx_of flat_sole heart_coco [1]) far_ann = Some (''heart'', [(10, 0), (20, 0), (20, 10), (10, 10)])"
    by (simp add: ann_path_def z parse_segmentation_def ann_selected_def)
  show "ann_warnings (run_ctx_of flat_sole heart_coco [1]) far_ann = []"
    by (simp add: ann_warnings_def z parse_segmentation_def ann_selected_def far_zone_samples)
qed

lemma heart_lower: "py_lower ''Heart'' = ''heart''"
  by code_simp

lemma heart_state_count: "get_count (zone_bumps heart_state) ''heart'' = 2"
  unfolding heart_state_def run_annotations_fields heart_ann_facts
  by (simp add: init_state_def heart_lower get_count_def heart_ann_facts)

lemma heart_state_fields:
  "ray_casting_attempts heart_state = 2" "ray_casting_successes heart_state = 2"
  "spike_count heart_state = 2" "bump_locations heart_state = [P3 10 60 5, P3 60 60 5]"
  "zone_paths heart_state = [(''heart'', [(0, 0), (10, 0), (10, 10), (0, 10)])]"
  "warnings heart_state = []"
  by (simp_all add: heart_state_def run_annotations_fields heart_ann_facts init_state_def)
     (simp_all add: run_annotations_def process_annotation_paths_warnings heart_ann_facts init_state_def)

lemma dup_state_fields:
  "ray_casting_attempts dup_state = 4" "ray_casting_successes dup_state = 2"
  "spike_count dup_state = 2" "bump_locations dup_state = [P3 10 60 5, P3 60 60 5]"
  "zone_paths dup_state = [(''heart'', [(10, 0), (20, 0), (20, 10), (10, 10)])]"
  "warnings dup_state = []"
  by (simp_all add: dup_state_def run_annotations_fields heart_ann_facts far_ann_facts init_state_def)
     (simp_all add: run_annotations_def process_annotation_paths_warnings heart_ann_facts far_ann_facts
                    init_state_def)

lemma heart_generate:
  "generate flat_sole heart_coco [''heart''] =
     Inr (concatenate (spikes heart_state), make_report (make_mapper (mesh_bounds flat_sole) 10 10) heart_state)"
  by (simp add: generate_def heart_run)

lemma heart_argv:
  "parse_args [''--foot'', ''left'', ''--input'', ''s.stl'', ''--output'', ''out.stl'', ''heart''] =
     Inr \<lparr>foot_arg = ''left'', input_arg = ''s.stl'', output_arg = Some ''out.stl'', zones_arg = [''heart'']\<rparr>"
  "parse_args [''--foot'', ''left'', ''--input'', ''s.stl'', ''--output'', ''out.ply'', ''heart''] =
     Inr \<lparr>foot_arg = ''left'', input_arg = ''s.stl'', output_arg = Some ''out.ply'', zones_arg = [''heart'']\<rparr>"
  by code_simp+

lemma out_names: "stl_output ''out.stl'' = ''out.stl''" "stl_output ''out.ply'' = ''out.stl''"
  "\<not> sublist ''.ply'' ''out.stl''"
  by code_simp+

subsection \<open>Run-level lemmas\<close>

lemma run_placement_fields:
  assumes "run_placement sole c zones = Inr st"
    and "resolve_selection (categories c) zones = Inr (ids, unknown)"
  shows "ray_casting_attempts st =
           sum_list (map (\<lambda>a. length (ann_samples (run_ctx_of sole c ids) a)) (annotations c))"
    and "ray_casting_successes st =
           sum_list (map (\<lambda>a. length (ann_hits (run_ctx_of sole c ids) a)) (annotations c))"
    and "spike_count st = sum_list (map (\<lambda>a. length (ann_hits (run_ctx_of sole c ids) a)) (annotations c))"
    and "bump_locations st = concat (map (ann_hits (run_ctx_of sole c ids)) (annotations c))"
    and "get_count (zone_bumps st) z =
           get_count (zone_bumps (init_state sole (categories c))) z +
           sum_list (map (\<lambda>a. length (ann_hits (run_ctx_of sole c ids) a))
                       (filter (\<lambda>a. ann_zone (run_ctx_of sole c ids) a = Some z) (annotations c)))"
proof -
  from assms(1) obtain ids' unknown' where
    r: "resolve_selection (categories c) zones = Inr (ids', unknown')"
    and st: "st = run_annotations (run_ctx_of sole c ids') (annotations c)
                    ((init_state sole (categories c))\<lparr>warnings := map UnknownZone unknown'\<rparr>)"
    by (rule run_placement_Inr)
  from r assms(2) have "ids' = ids" by simp
  with st show "ray_casting_attempts st =
           sum_list (map (\<lambda>a. length (ann_samples (run_ctx_of sole c ids) a)) (annotations c))"
    and "ray_casting_successes st =
           sum_list (map (\<lambda>a. length (ann_hits (run_ctx_of sole c ids) a)) (annotations c))"
    and "spike_count st = sum_list (map (\<lambda>a. length (ann_hits (run_ctx_of sole c ids) a)) (annotations c))"
    and "bump_locations st = concat (map (ann_hits (run_ctx_of sole c ids)) (annotations c))"
    and "get_count (zone_bumps st) z =
           get_count (zone_bumps (init_state sole (categories c))) z +
           sum_list (map (\<lambda>a. length (ann_hits (run_ctx_of sole c ids) a))
                       (filter (\<lambda>a. ann_zone (run_ctx_of sole c ids) a = Some z) (annotations c)))"
    by (simp_all add: run_annotations_fields init_state_def)
qed

lemma run_placement_invariants:
  assumes "run_placement sole c zones = Inr st"
  shows "counters_ok st" and "bumps_above st" and "\<forall>b \<in> set (tl (spikes st)). bump_piece b"
    and "\<forall>e \<in> set (positional_errors st). e = 0"
proof -
  from assms obtain ids where r: "reachable (run_ctx_of sole c ids) st"
    using run_placement_reachable by blast
  show "counters_ok st" using r by (rule reachable_counters_ok)
  show "bumps_above st" using r by (rule reachable_bumps_above)
  show "\<forall>b \<in> set (tl (spikes st)). bump_piece b" using r by (rule reachable_bump_pieces)
  show "\<forall>e \<in> set (positional_errors st). e = 0"
    using r by (rule reachable_errors_zero [OF run_ctx_of_vertical])
qed

lemma run_ctx_of_ids: "run_ctx_of sole c ids' = (run_ctx_of sole c ids)\<lparr>ctx_ids := ids'\<rparr>"
  by (simp add: run_ctx_of_def)

lemma run_placement_resolved:
  assumes "run_placement sole c zones = Inr st"
  obtains ids unknown where "resolve_selection (categories c) zones = Inr (ids, unknown)"
  using assms by (auto simp: run_placement_def split: sum.splits)

section \<open>Properties of a whole run\<close>

text \<open>
  C11. Metrics bookkeeping: at the end of every run that gets past the set-up, every
  ray-cast success is an attempt, and the bump count, the number of recorded bump
  locations and of positional errors all equal the number of successes, with one
  mesh piece per bump after the sole.
\<close>

theorem run_counters_consistent:
  assumes "run_placement sole c zones = Inr st"
  shows "counters_ok st"
  using assms by (rule run_placement_invariants(1))

theorem run_counters_consistent_witness:
  "counters_ok heart_state \<and> ray_casting_attempts heart_state = 2 \<and> spike_count heart_state = 2"
  using run_counters_consistent [OF heart_run] by (simp add: heart_state_fields)

text \<open>
  C21. The reported ray-cast success rate of every run is a percentage between 0 and 100.
\<close>

theorem run_success_rate_bounds:
  assumes "run_placement sole c zones = Inr st"
  shows "0 \<le> success_rate st \<and> success_rate st \<le> 100"
  using run_placement_invariants(1) [OF assms] by (intro success_rate_bounds) (simp add: counters_ok_def)

theorem run_success_rate_bounds_witness:
  "0 \<le> success_rate heart_state \<and> success_rate heart_state \<le> 100 \<and> success_rate heart_state = 100"
  using run_success_rate_bounds [OF heart_run] by (simp add: success_rate_def heart_state_fields)

text \<open>
  C20. Scenario A's success criterion: the success rate is 100\% exactly when some sample
  was cast and every sample of every processed annotation found the surface.
\<close>

theorem success_rate_full_iff:
  assumes "run_placement sole c zones = Inr st"
    and "resolve_selection (categories c) zones = Inr (ids, unknown)"
  shows "success_rate st = 100 \<longleftrightarrow>
           0 < ray_casting_attempts st \<and>
           (\<forall>a \<in> set (annotations c). \<forall>t \<in> set (ann_samples (run_ctx_of sole c ids) a).
              sample_hit (run_ctx_of sole c ids) t \<noteq> None)"
proof -
  let ?ctx = "run_ctx_of sole c ids"
  have le: "\<forall>a \<in> set (annotations c). length (ann_hits ?ctx a) \<le> length (ann_samples ?ctx a)"
    by (simp add: ann_hits_def length_map_filter_le)
  have "ray_casting_successes st = ray_casting_attempts st \<longleftrightarrow>
          (\<forall>a \<in> set (annotations c). length (ann_hits ?ctx a) = length (ann_samples ?ctx a))"
    using sum_list_map_eq_iff [OF le] by (simp add: run_placement_fields [OF assms])
  also have "\<dots> \<longleftrightarrow> (\<forall>a \<in> set (annotations c). \<forall>t \<in> set (ann_samples ?ctx a). sample_hit ?ctx t \<noteq> None)"
    by (simp add: ann_hits_def length_map_filter_eq_iff)
  finally show ?thesis
    using run_placement_invariants(1) [OF assms(1)]
    by (simp add: success_rate_100_iff counters_ok_def)
qed

theorem success_rate_full_iff_witness: "success_rate heart_state = 100"
proof -
  have "\<forall>a \<in> set [heart_ann]. \<forall>t \<in> set (ann_samples (run_ctx_of flat_sole heart_coco [1]) a).
          sample_hit (run_ctx_of flat_sole heart_coco [1]) t \<noteq> None"
    by (simp add: heart_ann_facts heart_hits)
  with success_rate_full_iff [OF heart_run heart_resolution [folded heart_coco_sel(3)]]
  show ?thesis by (simp add: heart_state_fields)
qed

text \<open>
  C12. The positional-error metric cannot detect anything: every recorded error is 0,
  and so are their mean and standard deviation, on every run and every mesh, because
  the hit of a vertical ray has the ray's own \<open>x\<close> and \<open>y\<close> and the expected position is
  recomputed with the mapper's own formula.
\<close>

theorem positional_error_identically_zero:
  assumes "run_placement sole c zones = Inr st"
  shows "(\<forall>e \<in> set (positional_errors st). e = 0) \<and>
         mean_positional_error st = 0 \<and> std_positional_error st = 0"
  using run_placement_invariants(4) [OF assms] positional_error_stats_zero by blast

theorem positional_error_identically_zero_witness:
  "mean_positional_error heart_state = 0 \<and> std_positional_error heart_state = 0 \<and>
   length (positional_errors heart_state) = 2"
proof -
  have "length (positional_errors heart_state) = 2"
    using run_placement_invariants(1) [OF heart_run] by (simp add: counters_ok_def heart_state_fields)
  with positional_error_identically_zero [OF heart_run] show ?thesis by simp
qed

text \<open>
  C13. Every placed bump sits strictly above the surface point it was placed on: the
  \<open>i\<close>-th bump (piece \<open>i + 1\<close> of \<open>spikes\<close>) has all its vertices higher than the
  \<open>i\<close>-th recorded location.
\<close>

theorem bumps_above_surface:
  assumes "run_placement sole c zones = Inr st" and "i < spike_count st"
  shows "\<forall>v \<in> set (vertices (spikes st ! Suc i)). pz (bump_locations st ! i) < pz v"
proof -
  from run_placement_invariants(1,2) [OF assms(1)]
  have all: "list_all2 (\<lambda>b loc. \<forall>v \<in> set (vertices b). pz loc < pz v) (tl (spikes st)) (bump_locations st)"
    and ne: "spikes st \<noteq> []" and len: "length (spikes st) = Suc (spike_count st)"
    by (simp_all add: bumps_above_def counters_ok_def)
  from len assms(2) have i: "i < length (tl (spikes st))" by simp
  from list_all2_nthD [OF all i] nth_tl [OF i] show ?thesis by simp
qed

theorem bumps_above_surface_witness:
  "list_all (\<lambda>v. 5 < pz v) (vertices (spikes heart_state ! 2))"
  using bumps_above_surface [OF heart_run, of 1] by (simp add: heart_state_fields numeral_2_eq_2 list_all_iff)



text \<open>
  C18. Scenario C, totals: the per-zone counts of the report add up to the total bump
  count (zones without bumps are dropped from the report, which does not change the sum).
\<close>

theorem zone_counts_sum_to_total:
  assumes "run_placement sole c zones = Inr st"
  shows "sum_list (map snd (reported_zone_bumps st)) = spike_count st"
proof -
  from assms obtain ids where "reachable (run_ctx_of sole c ids) st"
    using run_placement_reachable by blast
  then show ?thesis by (simp add: reported_zone_bumps_sum reachable_zone_sum)
qed

theorem zone_counts_sum_to_total_witness:
  "sum_list (map snd (reported_zone_bumps heart_state)) = 2"
  using zone_counts_sum_to_total [OF heart_run] by (simp add: heart_state_fields)

text \<open>
  C19. Scenario C, per zone: the count of a zone does not depend on which other zones
  are selected with it; a run selecting the zone with others gives it exactly the count
  of a run that selects it with any other set of names.
\<close>

theorem zone_count_independent_of_selection:
  assumes r1: "run_placement sole c zones = Inr st" and r2: "run_placement sole c zones' = Inr st'"
    and n1: "n \<in> py_lower ` set zones" and n2: "n \<in> py_lower ` set zones'"
  shows "get_count (zone_bumps st) n = get_count (zone_bumps st') n"
proof -
  from r1 obtain ids unk where res1: "resolve_selection (categories c) zones = Inr (ids, unk)"
    by (rule run_placement_resolved)
  from r2 obtain ids' unk' where res2: "resolve_selection (categories c) zones' = Inr (ids', unk')"
    by (rule run_placement_resolved)
  let ?c1 = "run_ctx_of sole c ids" and ?c2 = "run_ctx_of sole c ids'"
  have az: "ann_zone ?c2 a = ann_zone ?c1 a" for a by (simp add: ann_zone_def)
  have hits: "ann_hits ?c2 a = ann_hits ?c1 a" if "ann_zone ?c1 a = Some n" for a
  proof -
    from that have z: "zone_name_of (categories c) (category_id a) = Some n" by (simp add: ann_zone_def)
    have "category_id a \<in> set ids" by (rule selected_if_zone_named [OF res1 z n1])
    moreover have "category_id a \<in> set ids'" by (rule selected_if_zone_named [OF res2 z n2])
    ultimately have "ann_hits (?c1\<lparr>ctx_ids := ids'\<rparr>) a = ann_hits ?c1 a"
      by (intro ann_hits_other_ids) (simp add: ann_selected_def)
    then show ?thesis by (simp add: run_ctx_of_ids [of sole c ids' ids])
  qed
  have "filter (\<lambda>a. ann_zone ?c2 a = Some n) (annotations c) = filter (\<lambda>a. ann_zone ?c1 a = Some n) (annotations c)"
    by (simp add: az)
  then have "map (\<lambda>a. length (ann_hits ?c2 a)) (filter (\<lambda>a. ann_zone ?c2 a = Some n) (annotations c)) =
             map (\<lambda>a. length (ann_hits ?c1 a)) (filter (\<lambda>a. ann_zone ?c1 a = Some n) (annotations c))"
    by (simp add: hits cong: map_cong)
  then show ?thesis
    by (simp add: run_placement_fields(5) [OF r1 res1] run_placement_fields(5) [OF r2 res2])
qed

theorem zone_count_independent_of_selection_witness:
  "\<exists>st'. run_placement flat_sole heart_coco [''HEART'', ''liver''] = Inr st' \<and>
         get_count (zone_bumps st') ''heart'' = 2"
proof -
  have "resolve_selection [\<lparr>cat_id = 1, cat_name = ''Heart''\<rparr>] [''HEART'', ''liver''] = Inr ([1], [''liver''])"
    by code_simp
  then obtain st' where r: "run_placement flat_sole heart_coco [''HEART'', ''liver''] = Inr st'"
    by (simp add: run_placement_def)
  have "py_lower ''heart'' = ''heart''" and "py_lower ''HEART'' = ''heart''" by code_simp+
  then have "''heart'' \<in> py_lower ` set [''heart'']" and "''heart'' \<in> py_lower ` set [''HEART'', ''liver'']"
    by simp_all
  from zone_count_independent_of_selection [OF heart_run r this] r show ?thesis
    by (simp add: heart_state_count)
qed

text \<open>
  C17. Scenario D: an annotation whose samples all miss the sole places no bump and
  prints no warning (the zone-empty warning of line 208 tests only that some grid point
  lay in the polygon); only the attempt counter records the misses.
\<close>

theorem misses_without_zone_warning:
  assumes "ann_samples ctx ann \<noteq> []" and "ann_hits ctx ann = []"
  shows "warnings (process_annotation ctx ann st) = warnings st \<and>
         spike_count (process_annotation ctx ann st) = spike_count st \<and>
         ray_casting_attempts (process_annotation ctx ann st) = ray_casting_attempts st + length (ann_samples ctx ann)"
proof -
  have "zone_samples [] = []" by (simp add: zone_samples_def poly_bbox_def)
  with assms(1) have "ann_warnings ctx ann = []"
    by (auto simp: ann_samples_def ann_warnings_def split: if_splits option.splits)
  with assms(2) show ?thesis
    by (simp add: process_annotation_paths_warnings process_annotation_fields ann_hits_def [symmetric])
qed

theorem misses_without_zone_warning_witness:
  "warnings (process_annotation (run_ctx_of flat_sole heart_coco [1]) far_ann heart_state) = [] \<and>
   spike_count (process_annotation (run_ctx_of flat_sole heart_coco [1]) far_ann heart_state) = 2 \<and>
   ray_casting_attempts (process_annotation (run_ctx_of flat_sole heart_coco [1]) far_ann heart_state) = 4"
  using misses_without_zone_warning [of "run_ctx_of flat_sole heart_coco [1]" far_ann heart_state]
  by (simp add: far_ann_facts heart_state_fields)

text \<open>
  C15. Mapping accuracy: on a run whose annotations name pairwise different zones and
  whose mapper has non-zero scales, every bump re-projects into a recorded zone
  polygon, so the accuracy is 100\%.
\<close>

theorem accuracy_full_distinct_zones:
  assumes run: "run_placement sole c zones = Inr st"
    and ok: "mapper_ok (make_mapper (mesh_bounds sole) (img_w c) (img_h c))"
    and dist: "distinct (List.map_filter (\<lambda>a. zone_name_of (categories c) (category_id a)) (annotations c))"
    and pos: "0 < spike_count st"
  shows "placement_accuracy (make_mapper (mesh_bounds sole) (img_w c) (img_h c)) st = 100"
proof -
  from run obtain ids unknown where
    st: "st = run_annotations (run_ctx_of sole c ids) (annotations c)
                ((init_state sole (categories c))\<lparr>warnings := map UnknownZone unknown\<rparr>)"
    by (rule run_placement_Inr)
  let ?ctx = "run_ctx_of sole c ids"
  have m: "ctx_mapper ?ctx = make_mapper (mesh_bounds sole) (img_w c) (img_h c)"
    by (simp add: run_ctx_of_def)
  have az: "ann_zone ?ctx = (\<lambda>a. zone_name_of (categories c) (category_id a))"
    by (simp add: ann_zone_def [abs_def])
  have "\<forall>loc \<in> set (bump_locations st). correct_placement (ctx_mapper ?ctx) (zone_paths st) loc"
    unfolding st using ok dist
    by (intro run_annotations_correct) (simp_all add: m az init_state_def ray_hits_vertical)
  then have "filter (correct_placement (make_mapper (mesh_bounds sole) (img_w c) (img_h c)) (zone_paths st))
               (bump_locations st) = bump_locations st"
    by (simp add: m)
  moreover have "length (bump_locations st) = spike_count st"
    using run_placement_invariants(1) [OF run] by (simp add: counters_ok_def)
  ultimately show ?thesis using pos by (simp add: placement_accuracy_def)
qed

theorem accuracy_full_distinct_zones_witness:
  "placement_accuracy (make_mapper (mesh_bounds flat_sole) 10 10) heart_state = 100"
proof -
  have "mapper_ok (make_mapper (mesh_bounds flat_sole) (img_w heart_coco) (img_h heart_coco))"
    by (simp add: mapper_ok_make_mapper flat_sole_bounds)
  moreover have "distinct (List.map_filter (\<lambda>a. zone_name_of (categories heart_coco) (category_id a))
                   (annotations heart_coco))"
    by (simp add: heart_zone del: zone_name_of.simps)
  moreover have "0 < spike_count heart_state" by (simp add: heart_state_fields)
  ultimately show ?thesis
    using accuracy_full_distinct_zones [OF heart_run] by simp
qed



section \<open>Witnesses of the script and web properties\<close>

theorem non_ply_output_written_twice_witness:
  "script_main heart_env [''--foot'', ''left'', ''--input'', ''s.stl'', ''--output'', ''out.stl'', ''heart''] =
     ScriptDone [''out.stl'', ''out.stl''] (concatenate (spikes heart_state))
       (make_report (make_mapper (mesh_bounds flat_sole) 10 10) heart_state) \<and>
   [''out.stl'', ''out.stl''] = [hd [''out.stl'', ''out.stl''], hd [''out.stl'', ''out.stl'']]"
proof -
  have r: "script_main heart_env [''--foot'', ''left'', ''--input'', ''s.stl'', ''--output'', ''out.stl'', ''heart''] =
     ScriptDone [''out.stl'', ''out.stl''] (concatenate (spikes heart_state))
       (make_report (make_mapper (mesh_bounds flat_sole) 10 10) heart_state)"
    by (simp add: script_main_def heart_argv heart_env_def heart_generate export_both_def output_file_def out_names)
  moreover have "\<not> sublist ''.ply'' (hd [''out.stl'', ''out.stl''])" by (simp add: out_names)
  ultimately show ?thesis using non_ply_output_written_twice by blast
qed

theorem export_failure_leaves_file_witness:
  "script_main stl_fail_env [''--foot'', ''left'', ''--input'', ''s.stl'', ''--output'', ''out.ply'', ''heart''] =
     ScriptFailure ExportFailure [''out.ply''] \<and>
   \<not> export_ok stl_fail_env (stl_output ''out.ply'')"
proof -
  have r: "script_main stl_fail_env [''--foot'', ''left'', ''--input'', ''s.stl'', ''--output'', ''out.ply'', ''heart''] =
     ScriptFailure ExportFailure [''out.ply'']"
    by (simp add: script_main_def heart_argv stl_fail_env_def heart_env_def heart_generate export_both_def
                  output_file_def out_names)
  from export_failure_leaves_file [OF r] r show ?thesis by (auto simp: heart_argv output_file_def)
qed

theorem web_missing_output_unreachable_witness:
  "generate_slippers_route (Some {''HEART''}) (Some {}) (\<lambda>_. True) (script_subprocess heart_env [])
     \<lparr>areas = [''heart''], foot_field = Some ''left'', size_field = Some ''8''\<rparr> \<noteq>
   (500, RespError ''Script ran but output PLY file was not created.'')"
  by (rule web_missing_output_unreachable) (simp add: is_option_def)

theorem web_success_runs_script_witness:
  "generate_slippers_route (Some {''HEART''}) (Some {}) (\<lambda>_. True) (script_subprocess heart_env [])
     \<lparr>areas = [''heart''], foot_field = Some ''left'', size_field = Some ''8''\<rparr> =
     (200, RespSuccess ''Generation successful for left foot. Processed zones: HEART'' ''sole_with_spikes_left.ply'') \<and>
   (\<exists>ft zones m rep. Some ''left'' = Some ft \<and>
      script_main heart_env (tl (script_command ft zones)) = ScriptDone [output_name ft, stl_output (output_name ft)] m rep)"
proof -
  have ma: "map_areas {''HEART''} [''heart''] = ([''HEART''], [])" by code_simp
  have "resolve_selection [\<lparr>cat_id = 1, cat_name = ''Heart''\<rparr>] [''HEART''] = Inr ([1], [])"
    by code_simp
  then obtain st where "run_placement flat_sole heart_coco [''HEART''] = Inr st"
    by (simp add: run_placement_def)
  then obtain m rep where g: "generate flat_sole heart_coco [''HEART''] = Inr (m, rep)"
    by (simp add: generate_def)
  have nz: "\<forall>z \<in> set [''HEART'']. \<not> is_option z" by (simp add: is_option_def)
  have "script_main heart_env (tl (script_command ''left'' [''HEART''])) =
          ScriptDone [output_name ''left'', stl_output (output_name ''left'')] m rep"
    by (simp add: script_main_def parse_script_command [OF _ nz] heart_env_def g export_both_def
                  output_file_def output_name_def stl_of_def annotation_path_def)
  then have sub: "script_subprocess heart_env [] (script_command ''left'' [''HEART'']) = Completed True"
    by (simp add: script_subprocess_route [OF _ nz])
  have j: "join_comma [''HEART''] = ''HEART''" by code_simp
  have r: "generate_slippers_route (Some {''HEART''}) (Some {}) (\<lambda>_. True) (script_subprocess heart_env [])
     \<lparr>areas = [''heart''], foot_field = Some ''left'', size_field = Some ''8''\<rparr> =
     (200, RespSuccess ''Generation successful for left foot. Processed zones: HEART'' ''sole_with_spikes_left.ply'')"
  proof -
    have "generate_slippers_route (Some {''HEART''}) (Some {}) (\<lambda>_. True) (script_subprocess heart_env [])
     \<lparr>areas = [''heart''], foot_field = Some ''left'', size_field = Some ''8''\<rparr> =
       script_response ''left'' [''HEART''] (script_subprocess heart_env [] (script_command ''left'' [''HEART'']))"
      by (rule route_valid(2)) (simp_all add: ma)
    then show ?thesis by (simp add: sub script_response_def j output_name_def)
  qed
  have k: "\<forall>k \<in> {''HEART''} \<union> {}. \<not> is_option k" by (simp add: is_option_def)
  from web_success_runs_script [OF r k] r show ?thesis by simp
qed


theorem script_reaches_export_witness:
  "\<exists>m r. generate flat_sole heart_coco [''heart''] = Inr (m, r) \<and>
     script_main heart_env [''--foot'', ''left'', ''--input'', ''s.stl'', ''--output'', ''out.stl'', ''heart''] =
       export_both heart_env ''out.stl'' m r"
proof -
  have l: "py_lower ''heart'' = ''heart''" by code_simp
  have "\<exists>m r. generate flat_sole heart_coco [''heart''] = Inr (m, r) \<and>
     script_main heart_env [''--foot'', ''left'', ''--input'', ''s.stl'', ''--output'', ''out.stl'', ''heart''] =
       export_both heart_env (output_file
         \<lparr>foot_arg = ''left'', input_arg = ''s.stl'', output_arg = Some ''out.stl'', zones_arg = [''heart'']\<rparr>) m r"
    using script_reaches_export [OF heart_argv(1), where env = heart_env and sole = flat_sole and c = heart_coco]
    by (simp add: heart_env_def l heart_lower)
  then show ?thesis by (simp add: output_file_def)
qed

end
